(* ===== verification/Prelude.thy ===== *)
theory Prelude
  imports Complex_Main
begin

text \<open>
  Shared vocabulary of the development: Python strings as lists of Unicode code points,
  the string primitives the actions call (\<open>str.lower\<close>, \<open>str.strip\<close>,
  \<open>str.replace\<close>, the ASCII digits that \<open>str()\<close> prints and the Unicode decimal digits
  that \<open>\d\<close> and \<open>float()\<close> accept), decimal digit strings with
  their round trip, Python's exceptions as values, and the lemmas on them that the
  component theories share.  Strings are \<open>nat list\<close>, so that the accented letters
  of the source (\<open>\<acute>a\<close> is 225, \<open>\<tilde>n\<close> is 241) are single elements as in Python;
  \<open>py\<close> lifts an ASCII literal.
\<close>

section \<open>Python strings and exceptions\<close>

type_synonym pystr = "nat list"

datatype py_exn =
    OverflowError | ZeroDivisionError | IndexError | OSError | UnicodeDecodeError | TypeError
  | KeyError

named_theorems py_defs "definitions of the Python string primitives, unfolded on literals"

text \<open>Sequencing two Python statements: an exception raised by the first skips the second.\<close>

definition py_bind :: "py_exn + 'a \<Rightarrow> ('a \<Rightarrow> py_exn + 'b) \<Rightarrow> py_exn + 'b" where
  "py_bind r f = (case r of Inl e \<Rightarrow> Inl e | Inr a \<Rightarrow> f a)"

lemma py_bind_simps [simp]: "py_bind (Inl e) f = Inl e" "py_bind (Inr a) f = f a"
  by (simp_all add: py_bind_def)

lemma py_bind_eq_Inr:
  "py_bind r f = Inr b \<longleftrightarrow> (\<exists>a. r = Inr a \<and> f a = Inr b)"
  by (cases r) simp_all

definition py :: "string \<Rightarrow> pystr" where
  [py_defs]: "py s = map of_char s"

subsection \<open>Character classes\<close>

definition py_isdigit :: "nat \<Rightarrow> bool" where
  [py_defs]: "py_isdigit c \<longleftrightarrow> 48 \<le> c \<and> c \<le> 57"

text \<open>The characters \<open>str.strip()\<close> removes: Python's \<open>str.isspace\<close>.\<close>

definition py_isspace :: "nat \<Rightarrow> bool" where
  [py_defs]: "py_isspace c \<longleftrightarrow>
     (9 \<le> c \<and> c \<le> 13) \<or> (28 \<le> c \<and> c \<le> 32) \<or> c = 133 \<or> c = 160 \<or> c = 5760 \<or>
     (8192 \<le> c \<and> c \<le> 8202) \<or> c = 8232 \<or> c = 8233 \<or> c = 8239 \<or> c = 8287 \<or> c = 12288"

text \<open>\<open>str.lower\<close> on one code point: exact on Latin-1 (ASCII capitals and
  \<open>\<Agrave>\<close>..\<open>\<THORN>\<close> but \<open>\<times>\<close>); other code points are left unchanged.\<close>

definition py_lower_cp :: "nat \<Rightarrow> nat" where
  [py_defs]: "py_lower_cp c =
     (if 65 \<le> c \<and> c \<le> 90 \<or> 192 \<le> c \<and> c \<le> 222 \<and> c \<noteq> 215 then c + 32 else c)"

definition py_lower :: "pystr \<Rightarrow> pystr" where
  [py_defs]: "py_lower s = map py_lower_cp s"

definition py_lstrip :: "pystr \<Rightarrow> pystr" where
  [py_defs]: "py_lstrip s = dropWhile py_isspace s"

definition py_rstrip :: "pystr \<Rightarrow> pystr" where
  [py_defs]: "py_rstrip s = rev (dropWhile py_isspace (rev s))"

definition py_strip :: "pystr \<Rightarrow> pystr" where
  [py_defs]: "py_strip s = py_rstrip (py_lstrip s)"

subsection \<open>Unicode decimal digits\<close>

text \<open>
  For a \<open>str\<close> pattern, \<open>\d\<close> matches every character of Unicode category \<open>Nd\<close>,
  and \<open>float()\<close> accepts the same characters, reading each as its decimal value.  The
  \<open>Nd\<close> characters come in runs of ten consecutive code points with the values 0 to 9;
  \<open>decimales_unicode\<close> lists the first code point of each run (Unicode 14.0, the
  database of Python 3.11).
\<close>

definition decimales_unicode :: "nat list" where
  "decimales_unicode =
     [48, 1632, 1776, 1984, 2406, 2534, 2662, 2790, 2918, 3046, 3174, 3302, 3430, 3558,
      3664, 3792, 3872, 4160, 4240, 6112, 6160, 6470, 6608, 6784, 6800, 6992, 7088,
      7232, 7248, 42528, 43216, 43264, 43472, 43504, 43600, 44016, 65296, 66720, 68912,
      69734, 69872, 69942, 70096, 70384, 70736, 70864, 71248, 71360, 71472, 71904,
      72016, 72784, 73040, 73120, 92768, 92864, 93008, 120782, 120792, 120802, 120812,
      120822, 123200, 123632, 125264, 130032]"

definition py_isdecimal :: "nat \<Rightarrow> bool" where
  "py_isdecimal c = list_ex (\<lambda>z. z \<le> c \<and> c < z + 10) decimales_unicode"

text \<open>The ASCII digit \<open>float()\<close> reads a decimal character as; other characters
  are kept.\<close>

definition digito_ascii :: "nat \<Rightarrow> nat" where
  "digito_ascii c =
     (case find (\<lambda>z. z \<le> c \<and> c < z + 10) decimales_unicode of
        Some z \<Rightarrow> 48 + (c - z)
      | None \<Rightarrow> c)"

subsection \<open>\<open>str.replace\<close>\<close>

text \<open>\<open>s.replace(old, new)\<close> scans left to right and replaces every non-overlapping
  occurrence of a non-empty \<open>old\<close>; an empty \<open>old\<close> inserts \<open>new\<close> before every
  character and at the end.\<close>

function replace_nonempty :: "pystr \<Rightarrow> pystr \<Rightarrow> pystr \<Rightarrow> pystr" where
  "replace_nonempty old new [] = []"
| "replace_nonempty old new (c # cs) =
     (if old \<noteq> [] \<and> take (length old) (c # cs) = old
      then new @ replace_nonempty old new (drop (length old) (c # cs))
      else c # replace_nonempty old new cs)"
  by pat_completeness auto
termination
  by (relation "measure (\<lambda>(_, _, s). length s)") auto

definition py_replace :: "pystr \<Rightarrow> pystr \<Rightarrow> pystr \<Rightarrow> pystr" where
  [py_defs]: "py_replace old new s =
     (if old = [] then new @ concat (map (\<lambda>c. c # new) s) else replace_nonempty old new s)"

subsection \<open>\<open>str.join\<close> and \<open>in\<close> on strings\<close>

text \<open>\<open>sep.join(xs)\<close> on a list of strings.\<close>

fun py_join :: "pystr \<Rightarrow> pystr list \<Rightarrow> pystr" where
  "py_join sep [] = []"
| "py_join sep [x] = x"
| "py_join sep (x # y # ys) = x @ sep @ py_join sep (y # ys)"

text \<open>\<open>sub in s\<close>: \<open>sub\<close> occurs in \<open>s\<close> at some position (the empty string everywhere).\<close>

definition py_str_in :: "pystr \<Rightarrow> pystr \<Rightarrow> bool" where
  "py_str_in sub s = list_ex (\<lambda>i. take (length sub) (drop i s) = sub) [0..<Suc (length s)]"

subsection \<open>Decimal digit strings\<close>

text \<open>\<open>str(n)\<close> of a natural number, and \<open>int(ds)\<close> of a string of ASCII digits.\<close>

fun show_nat :: "nat \<Rightarrow> pystr" where
  "show_nat n = (if n < 10 then [48 + n] else show_nat (n div 10) @ [48 + n mod 10])"

declare show_nat.simps [simp del]

definition digits_val :: "pystr \<Rightarrow> nat" where
  "digits_val ds = foldl (\<lambda>acc d. 10 * acc + (d - 48)) 0 ds"

definition show_int :: "int \<Rightarrow> pystr" where
  "show_int i = (if i < 0 then 45 # show_nat (nat (- i)) else show_nat (nat i))"

section \<open>Lemmas on the string primitives\<close>

lemma py_Nil [simp]: "py [] = []"
  and py_Cons: "py (c # s) = of_char c # py s"
  and py_append [simp]: "py (s @ t) = py s @ py t"
  by (simp_all add: py_def)

lemma py_eq_Nil_iff [simp]: "py s = [] \<longleftrightarrow> s = []"
  by (simp add: py_def)

lemma py_lower_append [simp]: "py_lower (s @ t) = py_lower s @ py_lower t"
  and py_lower_Cons: "py_lower (c # s) = py_lower_cp c # py_lower s"
  and py_lower_Nil [simp]: "py_lower [] = []"
  by (simp_all add: py_lower_def)

lemma py_lower_cp_idem [simp]: "py_lower_cp (py_lower_cp c) = py_lower_cp c"
  by (simp add: py_lower_cp_def)

lemma py_lower_idem [simp]: "py_lower (py_lower s) = py_lower s"
  by (simp add: py_lower_def)

lemma py_isspace_lower_cp [simp]: "py_isspace (py_lower_cp c) \<longleftrightarrow> py_isspace c"
  by (auto simp: py_lower_cp_def py_isspace_def)

text \<open>\<open>lower\<close> and \<open>strip\<close> commute: the case mapping never produces or removes
  white space.\<close>

lemma dropWhile_map_space:
  "(\<And>c. py_isspace (f c) \<longleftrightarrow> py_isspace c) \<Longrightarrow>
   dropWhile py_isspace (map f s) = map f (dropWhile py_isspace s)"
  by (induction s) auto

lemma py_strip_map:
  "(\<And>c. py_isspace (f c) \<longleftrightarrow> py_isspace c) \<Longrightarrow> py_strip (map f s) = map f (py_strip s)"
  by (simp add: py_strip_def py_rstrip_def py_lstrip_def dropWhile_map_space rev_map)

lemma dropWhile_all: "\<forall>x\<in>set s. P x \<Longrightarrow> dropWhile P s = []"
  by (simp add: dropWhile_eq_Nil_conv)

lemma py_strip_snoc_space:
  "py_isspace c \<Longrightarrow> py_strip (s @ [c]) = py_strip s"
  by (simp add: py_strip_def py_rstrip_def py_lstrip_def dropWhile_append dropWhile_all)

lemma py_strip_lower: "py_strip (py_lower s) = py_lower (py_strip s)"
  by (simp add: py_lower_def py_strip_map)

lemma py_lstrip_hd: "py_lstrip s = c # t \<Longrightarrow> \<not> py_isspace c"
  unfolding py_lstrip_def by (metis dropWhile_eq_Cons_conv)

lemma dropWhile_idem [simp]: "dropWhile P (dropWhile P s) = dropWhile P s"
  by (induction s) auto

lemma rstrip_prefix: "rev (dropWhile P (rev t)) @ rev (takeWhile P (rev t)) = t"
  by (metis rev_append rev_rev_ident takeWhile_dropWhile_id)

lemma dropWhile_fixed_hd: "dropWhile P (c # w) = c # w \<Longrightarrow> \<not> P c"
proof
  assume eq: "dropWhile P (c # w) = c # w" and "P c"
  then have "dropWhile P w = c # w" by simp
  moreover have "length (dropWhile P w) \<le> length w" by (rule length_dropWhile_le)
  ultimately show False by simp
qed

lemma dropWhile_rstrip:
  assumes "dropWhile P t = t"
  shows "dropWhile P (rev (dropWhile P (rev t))) = rev (dropWhile P (rev t))"
proof (cases "rev (dropWhile P (rev t))")
  case Nil
  show ?thesis by (simp only: Nil dropWhile.simps(1))
next
  case (Cons c u)
  with rstrip_prefix [of P t] have "t = c # (u @ rev (takeWhile P (rev t)))" by simp
  with assms have "\<not> P c" by (metis dropWhile_fixed_hd)
  with Cons show ?thesis by simp
qed

lemma py_rstrip_lstrip: "py_lstrip (py_rstrip (py_lstrip s)) = py_rstrip (py_lstrip s)"
  by (simp add: py_rstrip_def py_lstrip_def dropWhile_rstrip)

lemma py_strip_idem [simp]: "py_strip (py_strip s) = py_strip s"
proof -
  have "py_rstrip (py_rstrip t) = py_rstrip t" for t
    by (simp add: py_rstrip_def)
  then show ?thesis
    by (simp add: py_strip_def py_rstrip_lstrip)
qed

text \<open>Replacing one character by another is a map.\<close>

lemma replace_nonempty_char:
  "replace_nonempty [a] [b] s = map (\<lambda>c. if c = a then b else c) s"
  by (induction s) auto

lemma py_replace_char:
  "py_replace [a] [b] s = map (\<lambda>c. if c = a then b else c) s"
  by (simp add: py_replace_def replace_nonempty_char)

text \<open>A pattern whose first character does not occur leaves the string unchanged.\<close>

lemma replace_nonempty_absent:
  "old \<noteq> [] \<Longrightarrow> hd old \<notin> set s \<Longrightarrow> replace_nonempty old new s = s"
proof (induction old new s rule: replace_nonempty.induct)
  case (2 old new c cs)
  then have "take (length old) (c # cs) \<noteq> old"
    by (cases old) auto
  with 2 show ?case by simp
qed simp

lemma py_replace_absent:
  "old \<noteq> [] \<Longrightarrow> hd old \<notin> set s \<Longrightarrow> py_replace old new s = s"
  by (simp add: py_replace_def replace_nonempty_absent)

lemma set_replace_nonempty:
  "set (replace_nonempty old new s) \<subseteq> set s \<union> set new"
proof (induction old new s rule: replace_nonempty.induct)
  case (2 old new c cs)
  have "set (drop (length old) (c # cs)) \<subseteq> set (c # cs)"
    by (rule set_drop_subset)
  with 2 show ?case by auto
qed simp

text \<open>A character outside the pattern survives the replacement.\<close>

lemma replace_nonempty_keeps:
  "c \<in> set s \<Longrightarrow> c \<notin> set old \<Longrightarrow> c \<in> set (replace_nonempty old new s)"
proof (induction old new s rule: replace_nonempty.induct)
  case (2 old new c' cs)
  show ?case
  proof (cases "old \<noteq> [] \<and> take (length old) (c' # cs) = old")
    case True
    then have "c \<in> set (drop (length old) (c' # cs))"
      using 2(3,4) append_take_drop_id[of "length old" "c' # cs"] by (metis Un_iff set_append)
    with True 2(1) 2(4) show ?thesis by simp
  next
    case False
    with 2 show ?thesis by auto
  qed
qed simp

lemma py_replace_keeps:
  "old \<noteq> [] \<Longrightarrow> c \<in> set s \<Longrightarrow> c \<notin> set old \<Longrightarrow> c \<in> set (py_replace old new s)"
  by (simp add: py_replace_def replace_nonempty_keeps)

subsection \<open>Digits\<close>

lemma show_nat_digits: "\<forall>d \<in> set (show_nat n). py_isdigit d"
proof (induction n rule: show_nat.induct)
  case (1 n)
  then show ?case
    by (subst show_nat.simps) (auto simp: py_isdigit_def)
qed

lemma show_nat_ne [simp]: "show_nat n \<noteq> []"
  by (subst show_nat.simps) simp

lemma digits_val_snoc [simp]: "digits_val (ds @ [d]) = 10 * digits_val ds + (d - 48)"
  by (simp add: digits_val_def)

lemma digits_val_Nil [simp]: "digits_val [] = 0"
  by (simp add: digits_val_def)

text \<open>Reading back what \<open>str\<close> printed gives the number: the round trip.\<close>

lemma digits_val_show_nat [simp]: "digits_val (show_nat n) = n"
proof (induction n rule: show_nat.induct)
  case (1 n)
  show ?case
  proof (cases "n < 10")
    case True
    then show ?thesis by (subst show_nat.simps) (simp add: digits_val_def)
  next
    case False
    with "1.IH" have "digits_val (show_nat (n div 10)) = n div 10" by simp
    with False show ?thesis by (subst show_nat.simps) simp
  qed
qed

lemma show_nat_small: "n < 10 \<Longrightarrow> show_nat n = [48 + n]"
  by (subst show_nat.simps) simp

subsection \<open>Unicode decimal digits\<close>

lemma py_isdecimal_ascii_range:
  "c < 1632 \<Longrightarrow> py_isdecimal c \<longleftrightarrow> py_isdigit c"
  by (auto simp: py_isdecimal_def decimales_unicode_def py_isdigit_def)

lemma py_isdigit_decimal: "py_isdigit c \<Longrightarrow> py_isdecimal c"
  by (simp add: py_isdecimal_ascii_range py_isdigit_def)

lemma digito_ascii_ascii: "py_isdigit c \<Longrightarrow> digito_ascii c = c"
  by (simp add: digito_ascii_def decimales_unicode_def py_isdigit_def)

lemma digito_ascii_otro:
  assumes "\<not> py_isdecimal c"
  shows "digito_ascii c = c"
proof -
  have "find (\<lambda>z. z \<le> c \<and> c < z + 10) decimales_unicode = None"
    using assms by (simp add: py_isdecimal_def list_ex_iff find_None_iff)
  then show ?thesis by (simp add: digito_ascii_def)
qed

lemma digito_ascii_digits: "\<forall>d \<in> set ds. py_isdigit d \<Longrightarrow> map digito_ascii ds = ds"
  by (induction ds) (simp_all add: digito_ascii_ascii)

lemma not_decimal_punct [simp]: "\<not> py_isdecimal 44" "\<not> py_isdecimal 45" "\<not> py_isdecimal 46"
  by (simp_all add: py_isdecimal_ascii_range py_isdigit_def)

end
