(* ===== verification/Tracker.thy ===== *)
theory Tracker
  imports Prelude
begin

text \<open>
  The conversation context the Rasa dispatcher hands to every action
  (\<open>src/Chat_Bot_Deber/actions/actions.py\<close>): slot values, the latest intent, the
  \<open>SlotSet\<close> events an action returns and the messages it utters.  Python's
  truthiness (\<open>if not tiempo\<close>, \<open>x or "amigo"\<close>) and \<open>str()\<close> of a slot value are
  defined here, since all three actions use them.  Floats are modelled by their exact
  rational value.
\<close>

section \<open>Slot values, slots and the tracker\<close>

datatype slot_value = VNone | VBool bool | VInt int | VFloat rat | VStr pystr

datatype slot_name =
  Peso | Altura | Nombre | TiempoComida | PlatoRecomendado | PlatoConfirmado | Imc | Interpretacion

record tracker =
  slots :: "slot_name \<Rightarrow> slot_value"
  latest_intent :: "pystr option"

datatype event = SlotSet slot_name slot_value

definition get_slot :: "tracker \<Rightarrow> slot_name \<Rightarrow> slot_value" where
  "get_slot t n = slots t n"

fun apply_event :: "tracker \<Rightarrow> event \<Rightarrow> tracker" where
  "apply_event t (SlotSet n v) = t\<lparr>slots := (slots t)(n := v)\<rparr>"

definition apply_events :: "tracker \<Rightarrow> event list \<Rightarrow> tracker" where
  "apply_events t es = foldl apply_event t es"

text \<open>A new conversation: every slot at its initial value \<open>None\<close>, no intent yet.\<close>

definition tracker_inicial :: tracker where
  "tracker_inicial = \<lparr>slots = (\<lambda>_. VNone), latest_intent = None\<rparr>"

section \<open>Python truthiness and \<open>str()\<close>\<close>

fun py_truthy :: "slot_value \<Rightarrow> bool" where
  "py_truthy VNone = False"
| "py_truthy (VBool b) = b"
| "py_truthy (VInt i) = (i \<noteq> 0)"
| "py_truthy (VFloat q) = (q \<noteq> 0)"
| "py_truthy (VStr s) = (s \<noteq> [])"

text \<open>\<open>a or b\<close>: the first operand when it is truthy, else the second.\<close>

definition py_or :: "slot_value \<Rightarrow> slot_value \<Rightarrow> slot_value" where
  "py_or a b = (if py_truthy a then a else b)"

text \<open>\<open>nombre = tracker.get_slot("nombre") or "amigo"\<close>, the same line in each action.\<close>

definition nombre_or_amigo :: "tracker \<Rightarrow> slot_value" where
  "nombre_or_amigo t = py_or (get_slot t Nombre) (VStr (py ''amigo''))"

text \<open>
  \<open>repr\<close> of a float, by its exact value: sign, integer part, point, and the
  fractional digits (at most 17, trailing zeros dropped, at least one).  This is
  Python's \<open>repr\<close> for the floats the program handles (magnitude below \<open>10^16\<close>,
  at most 17 fractional digits); exponent notation is not modelled.
\<close>

fun frac_digits :: "nat \<Rightarrow> rat \<Rightarrow> pystr" where
  "frac_digits 0 f = []"
| "frac_digits (Suc n) f =
     (if f = 0 then [] else (48 + nat \<lfloor>f * 10\<rfloor>) # frac_digits n (f * 10 - of_int \<lfloor>f * 10\<rfloor>))"

definition repr_float :: "rat \<Rightarrow> pystr" where
  "repr_float q =
     (let a = \<bar>q\<bar>; ip = \<lfloor>a\<rfloor>; fd = frac_digits 17 (a - of_int ip)
      in (if q < 0 then [45] else []) @ show_nat (nat ip) @ 46 # (if fd = [] then [48] else fd))"

fun py_str :: "slot_value \<Rightarrow> pystr" where
  "py_str VNone = py ''None''"
| "py_str (VBool b) = (if b then py ''True'' else py ''False'')"
| "py_str (VInt i) = show_int i"
| "py_str (VFloat q) = repr_float q"
| "py_str (VStr s) = s"

section \<open>What an action returns\<close>

text \<open>
  One constructor per \<open>dispatcher.utter_message\<close> call of the source, carrying the
  values its f-string interpolates.
\<close>

datatype utterance =
    UNoEntendiPesoAltura
  | UValoresPositivos
  | UPreguntarTiempo
  | UTiempoNoExiste
  | UErrorCargandoMenu
  | UNoHayPlatos
  | URecomendacion slot_value slot_value pystr
  | UPerfecto slot_value
  | UNoSeQueMenu
  | UYaMostreTodas
  | UOtraOpcion slot_value pystr
  | UNoEntendiSiNo

text \<open>
  An action either raises (an exception escaping \<open>run\<close>) or returns the messages it
  uttered, in order, and the events of its \<open>return\<close> list.
\<close>

type_synonym action_result = "py_exn + (utterance list \<times> event list)"

section \<open>Lemmas\<close>

lemma get_slot_update [simp]:
  "get_slot (t\<lparr>slots := (slots t)(n := v)\<rparr>) m = (if m = n then v else get_slot t m)"
  by (simp add: get_slot_def)

lemma get_slot_apply_event:
  "get_slot (apply_event t (SlotSet n v)) m = (if m = n then v else get_slot t m)"
  by (simp add: get_slot_def)

lemma apply_events_Nil [simp]: "apply_events t [] = t"
  and apply_events_Cons [simp]: "apply_events t (e # es) = apply_events (apply_event t e) es"
  by (simp_all add: apply_events_def)

lemma latest_intent_apply_events [simp]: "latest_intent (apply_events t es) = latest_intent t"
proof (induction es arbitrary: t)
  case (Cons e es)
  then show ?case by (cases e) simp
qed simp

text \<open>A slot no event of the list names keeps its value.\<close>

lemma get_slot_apply_events_other:
  "(\<forall>v. SlotSet n v \<notin> set es) \<Longrightarrow> get_slot (apply_events t es) n = get_slot t n"
proof (induction es arbitrary: t)
  case (Cons e es)
  then show ?case by (cases e) (auto simp: get_slot_def)
qed simp

lemma py_truthy_py_or: "py_truthy b \<Longrightarrow> py_truthy (py_or a b)"
  by (simp add: py_or_def)

lemma nombre_or_amigo_truthy: "py_truthy (nombre_or_amigo t)"
  by (simp add: nombre_or_amigo_def py_truthy_py_or py_def)

end
