(* ===== verification/ParseNumber.thy ===== *)
theory ParseNumber
  imports Tracker
begin

text \<open>
  \<open>parse_number\<close> (\<open>actions.py\<close>, lines 16--30): a slot value to a float or \<open>None\<close>.
  Numbers pass through \<open>float()\<close>, which raises \<open>OverflowError\<close> on an \<open>int\<close> too
  large for a double (the call is outside the \<open>try\<close>); any other value is printed with
  \<open>str()\<close>, commas become points, and the first match of the regular expression
  \<open>(\d+(\.\d+)?)\<close> is read as a decimal.  \<open>\d\<close> is any Unicode decimal digit
  (\<open>py_isdecimal\<close>), and \<open>float()\<close> reads each as its ASCII digit
  (\<open>digito_ascii\<close>).  \<open>re.search\<close> is modelled by
  \<open>re_search_number\<close>: the leftmost position where a digit run starts, the run taken
  whole (greedy \<open>\d+\<close>), and the fraction taken when a point and at least one digit
  follow (greedy optional group).
\<close>

section \<open>The regular expression\<close>

text \<open>A match at the start of the string: the integer digits and the fraction digits
  (empty when the optional group does not match).\<close>

definition number_match :: "pystr \<Rightarrow> (pystr \<times> pystr) option" where
  "number_match s =
     (let ds = takeWhile py_isdecimal s; rest = dropWhile py_isdecimal s
      in if ds = [] then None
         else (case rest of
                 [] \<Rightarrow> Some (ds, [])
               | c # r \<Rightarrow>
                   (let fs = takeWhile py_isdecimal r
                    in if c = 46 \<and> fs \<noteq> [] then Some (ds, fs) else Some (ds, []))))"

fun re_search_number :: "pystr \<Rightarrow> (pystr \<times> pystr) option" where
  "re_search_number [] = None"
| "re_search_number (c # cs) =
     (case number_match (c # cs) of Some m \<Rightarrow> Some m | None \<Rightarrow> re_search_number cs)"

text \<open>\<open>float(m.group(1))\<close> of a match \<open>ds\<close> or \<open>ds.fs\<close>: the digits are read as
  their ASCII digits first.\<close>

definition decimal_value :: "pystr \<times> pystr \<Rightarrow> rat" where
  "decimal_value m =
     (case m of (ds, fs) \<Rightarrow>
        of_nat (digits_val (map digito_ascii ds)) +
        of_nat (digits_val (map digito_ascii fs)) / 10 ^ length fs)"

section \<open>\<open>parse_number\<close>\<close>

text \<open>\<open>float(i)\<close> of a Python \<open>int\<close> raises \<open>OverflowError\<close> when \<open>i\<close>, rounded to
  53 significant bits (ties to even), reaches \<open>2^1024\<close>.\<close>

definition float_overflow_bound :: int where
  "float_overflow_bound = 2 ^ 1024 - 2 ^ 970"

definition parse_number :: "slot_value \<Rightarrow> py_exn + rat option" where
  "parse_number v =
     (case v of
        VNone \<Rightarrow> Inr None
      | VBool b \<Rightarrow> Inr (Some (if b then 1 else 0))
      | VInt i \<Rightarrow> (if float_overflow_bound \<le> \<bar>i\<bar> then Inl OverflowError else Inr (Some (of_int i)))
      | VFloat q \<Rightarrow> Inr (Some q)
      | VStr s \<Rightarrow>
          Inr (map_option decimal_value
                 (re_search_number (py_replace (py '','') (py ''.'') (py_str (VStr s))))))"

section \<open>Lemmas on the scanner\<close>

lemma parse_number_simple [simp]:
  "parse_number VNone = Inr None"
  "parse_number (VFloat q) = Inr (Some q)"
  "parse_number (VBool b) = Inr (Some (if b then 1 else 0))"
  by (simp_all add: parse_number_def)

lemma number_match_None_iff:
  "number_match s = None \<longleftrightarrow> s = [] \<or> \<not> py_isdecimal (hd s)"
  by (cases s) (auto simp: number_match_def Let_def split: list.splits)

lemma number_match_Some_digit:
  "number_match s = Some m \<Longrightarrow> s \<noteq> [] \<and> py_isdecimal (hd s)"
  using number_match_None_iff [of s] by auto

lemma re_search_number_None_iff:
  "re_search_number s = None \<longleftrightarrow> (\<forall>c \<in> set s. \<not> py_isdecimal c)"
  by (induction s) (auto simp: number_match_None_iff dest: number_match_Some_digit
      split: option.splits)

lemma re_search_number_skip:
  "\<forall>c \<in> set pre. \<not> py_isdecimal c \<Longrightarrow> re_search_number (pre @ s) = re_search_number s"
proof (induction pre)
  case (Cons c pre)
  then have "number_match (c # pre @ s) = None" by (simp add: number_match_None_iff)
  with Cons show ?case by simp
qed simp

text \<open>A match starting with a digit is the match at position 0.\<close>

lemma re_search_number_digit:
  "s \<noteq> [] \<Longrightarrow> py_isdecimal (hd s) \<Longrightarrow> re_search_number s = number_match s"
  by (cases s) (auto split: option.splits simp: number_match_None_iff)

text \<open>A digit run followed by something that is no digit.\<close>

lemma digit_run:
  assumes "\<forall>d \<in> set ds. py_isdecimal d" and "rest = [] \<or> \<not> py_isdecimal (hd rest)"
  shows "takeWhile py_isdecimal (ds @ rest) = ds" and "dropWhile py_isdecimal (ds @ rest) = rest"
  using assms by (cases rest; simp add: takeWhile_append2 dropWhile_append2)+

lemma number_match_int:
  assumes "\<forall>d \<in> set ds. py_isdecimal d" and "ds \<noteq> []"
    and "rest = [] \<or> (\<not> py_isdecimal (hd rest) \<and> hd rest \<noteq> 46)"
  shows "number_match (ds @ rest) = Some (ds, [])"
  using assms digit_run [of ds rest]
  by (auto simp: number_match_def Let_def split: list.splits)

lemma number_match_frac:
  assumes "\<forall>d \<in> set ds. py_isdecimal d" and "ds \<noteq> []"
    and "\<forall>d \<in> set fs. py_isdecimal d" and "fs \<noteq> []"
    and "rest = [] \<or> \<not> py_isdecimal (hd rest)"
  shows "number_match (ds @ 46 # fs @ rest) = Some (ds, fs)"
proof -
  have "\<not> py_isdecimal 46" by simp
  then have "takeWhile py_isdecimal (ds @ 46 # fs @ rest) = ds"
    and "dropWhile py_isdecimal (ds @ 46 # fs @ rest) = 46 # fs @ rest"
    using digit_run [of ds "46 # fs @ rest"] assms(1) by auto
  moreover have "takeWhile py_isdecimal (fs @ rest) = fs"
    using digit_run [of fs rest] assms(3,5) by auto
  ultimately show ?thesis using assms(2,4) by (simp add: number_match_def)
qed

lemma digits_val_append:
  "digits_val (xs @ ys) = digits_val xs * 10 ^ length ys + digits_val ys"
proof (induction ys rule: rev_induct)
  case (snoc y ys)
  have "digits_val (xs @ ys @ [y]) = 10 * digits_val (xs @ ys) + (y - 48)"
    by (simp flip: append_assoc)
  also have "\<dots> = digits_val xs * 10 ^ length (ys @ [y]) + digits_val (ys @ [y])"
    using snoc by (simp add: algebra_simps)
  finally show ?case .
qed simp

lemma py_comma_point: "py '','' = [44]" "py ''.'' = [46]"
  by (simp_all add: py_def)

lemma py_isdecimal_comma_map [simp]:
  "py_isdecimal (if c = 44 then 46 else c) \<longleftrightarrow> py_isdecimal c"
  by simp

lemma comma_map_digits:
  "\<forall>d \<in> set ds. py_isdecimal d \<Longrightarrow> map (\<lambda>c. if c = 44 then 46 else c) ds = ds"
  by (induction ds) auto

lemma comma_map_show_nat [simp]:
  "map (\<lambda>c. if c = 44 then 46 else c) (show_nat n) = show_nat n"
  using comma_map_digits show_nat_digits py_isdigit_decimal by blast

lemma decimal_value_nonneg: "0 \<le> decimal_value m"
  by (cases m) (simp add: decimal_value_def)

lemma parse_number_VStr:
  "parse_number (VStr s) =
     Inr (map_option decimal_value (re_search_number (map (\<lambda>c. if c = 44 then 46 else c) s)))"
  by (simp add: parse_number_def py_comma_point py_replace_char)

lemma parse_number_VStr_not_Inl: "parse_number (VStr s) \<noteq> Inl e"
  by (simp add: parse_number_VStr)

text \<open>What a parse of an ASCII text unfolds, for evaluation by \<open>simp\<close>.\<close>

lemmas parse_eval = parse_number_VStr number_match_def py_def py_isdecimal_ascii_range py_isdigit_def
  decimal_value_def digito_ascii_ascii digits_val_def

section \<open>Properties of \<open>parse_number\<close>\<close>

text \<open>
  The first number of the text, with a comma or a point as decimal separator: whatever
  precedes it holds no digit, and what follows the fraction does not start with a digit.
\<close>

lemma parse_number_decimal_at:
  assumes pre: "\<forall>c \<in> set pre. \<not> py_isdecimal c"
    and ds: "\<forall>d \<in> set ds. py_isdecimal d" "ds \<noteq> []"
    and fs: "\<forall>d \<in> set fs. py_isdecimal d" "fs \<noteq> []"
    and sep: "sep = 44 \<or> sep = 46"
    and rest: "rest = [] \<or> \<not> py_isdecimal (hd rest)"
  shows "parse_number (VStr (pre @ ds @ sep # fs @ rest)) =
           Inr (Some (of_nat (digits_val (map digito_ascii ds)) +
                      of_nat (digits_val (map digito_ascii fs)) / 10 ^ length fs))"
proof -
  let ?f = "\<lambda>c::nat. if c = 44 then 46 else c"
  let ?rest = "map ?f rest"
  have rest': "?rest = [] \<or> \<not> py_isdecimal (hd ?rest)"
    using rest by (cases rest) auto
  have pre': "\<forall>c \<in> set (map ?f pre). \<not> py_isdecimal c"
    using pre by auto
  have "map ?f (pre @ ds @ sep # fs @ rest) = map ?f pre @ (ds @ 46 # fs @ ?rest)"
    using sep comma_map_digits [OF ds(1)] comma_map_digits [OF fs(1)] by auto
  moreover have "re_search_number (ds @ 46 # fs @ ?rest) = Some (ds, fs)"
    using ds fs rest' number_match_frac [OF ds fs rest'] by (simp add: re_search_number_digit)
  ultimately show ?thesis
    using re_search_number_skip [OF pre'] by (simp add: parse_number_VStr decimal_value_def)
qed

text \<open>The same for ASCII digits, which \<open>float()\<close> reads as they are.\<close>

lemma parse_number_decimal_at_ascii:
  assumes "\<forall>c \<in> set pre. \<not> py_isdecimal c"
    and "\<forall>d \<in> set ds. py_isdigit d" "ds \<noteq> []"
    and "\<forall>d \<in> set fs. py_isdigit d" "fs \<noteq> []"
    and "sep = 44 \<or> sep = 46"
    and "rest = [] \<or> \<not> py_isdecimal (hd rest)"
  shows "parse_number (VStr (pre @ ds @ sep # fs @ rest)) =
           Inr (Some (of_nat (digits_val ds) + of_nat (digits_val fs) / 10 ^ length fs))"
  using parse_number_decimal_at [OF assms(1) _ assms(3) _ assms(5,6,7)] assms(2,4)
  by (simp add: py_isdigit_decimal digito_ascii_digits)

text \<open>Claim C10: A text is unparseable exactly when it holds no decimal digit, in the sense
  of \<open>\d\<close>: any Unicode decimal digit, not only the ASCII ones (a weight written
  in Arabic-Indic digits is read).\<close>

theorem parse_number_no_digit:
  "parse_number (VStr s) = Inr None \<longleftrightarrow> (\<forall>c \<in> set s. \<not> py_isdecimal c)"
  by (auto simp: parse_number_VStr re_search_number_None_iff)

theorem parse_number_no_digit_witness:
  "parse_number (VStr (py ''abc'')) = Inr None \<and>
   parse_number (VStr [1637, 1640, 32, 107, 103]) = Inr (Some 58)"
proof -
  have h: "\<forall>c \<in> set (py ''abc''). \<not> py_isdecimal c"
    by (simp add: py_def py_isdecimal_ascii_range py_isdigit_def)
  have arabe: "parse_number (VStr [1637, 1640, 32, 107, 103]) = Inr (Some 58)"
    by (simp add: parse_number_VStr number_match_def py_isdecimal_def decimales_unicode_def
        decimal_value_def digito_ascii_def digits_val_def)
  from parse_number_no_digit [of "py ''abc''"] h arabe show ?thesis by simp
qed

text \<open>Claim C31: Only \<open>float()\<close> of a huge \<open>int\<close> escapes \<open>parse_number\<close> as an exception.\<close>

theorem parse_number_raises:
  "parse_number v = Inl e \<longleftrightarrow>
     e = OverflowError \<and> (\<exists>i. v = VInt i \<and> float_overflow_bound \<le> \<bar>i\<bar>)"
  by (cases v) (auto simp: parse_number_def parse_number_VStr_not_Inl)

text \<open>A value read from text is never negative: the expression has no sign.\<close>

theorem parse_number_text_nonneg:
  "parse_number (VStr s) = Inr (Some x) \<Longrightarrow> 0 \<le> x"
  by (auto simp: parse_number_VStr decimal_value_nonneg)

theorem parse_number_text_nonneg_witness:
  "parse_number (VStr (py ''-3 kg'')) = Inr (Some 3) \<and> (0::rat) \<le> 3"
proof -
  have h: "parse_number (VStr (py ''-3 kg'')) = Inr (Some 3)"
    by (simp add: parse_eval)
  show ?thesis using parse_number_text_nonneg [OF h] h by simp
qed

text \<open>\<open>str()\<close> of an \<open>int\<close> read back: the magnitude, not the value.\<close>

theorem parse_number_show_int:
  "parse_number (VStr (show_int i)) = Inr (Some (of_int \<bar>i\<bar>))"
proof -
  have digits: "\<forall>d \<in> set (show_nat (nat \<bar>i\<bar>)). py_isdecimal d"
    using show_nat_digits py_isdigit_decimal by blast
  then have m: "re_search_number (show_nat (nat \<bar>i\<bar>)) = Some (show_nat (nat \<bar>i\<bar>), [])"
    using number_match_int [of "show_nat (nat \<bar>i\<bar>)" "[]"]
    by (simp add: re_search_number_digit neq_Nil_conv hd_append)
  have minus: "\<forall>c \<in> set [45::nat]. \<not> py_isdecimal c"
    by simp
  have val: "decimal_value (show_nat (nat \<bar>i\<bar>), []) = of_int \<bar>i\<bar>"
    by (simp add: decimal_value_def digito_ascii_digits [OF show_nat_digits])
  show ?thesis
  proof (cases "i < 0")
    case True
    then have "map (\<lambda>c. if c = 44 then 46 else c) (show_int i) = [45] @ show_nat (nat \<bar>i\<bar>)"
      by (simp add: show_int_def)
    then show ?thesis
      using m val re_search_number_skip [OF minus] by (simp only: parse_number_VStr) simp
  next
    case False
    then have "map (\<lambda>c. if c = 44 then 46 else c) (show_int i) = show_nat (nat \<bar>i\<bar>)"
      by (simp add: show_int_def)
    then show ?thesis
      using m val by (simp only: parse_number_VStr) simp
  qed
qed

end
