(* ===== verification/Imc.thy ===== *)
theory Imc
  imports ParseNumber
begin

text \<open>
  The BMI evaluator: \<open>ActionCalcularIMC.run\<close> (\<open>actions.py\<close>, lines 36--82).  It
  reads the \<open>peso\<close> and \<open>altura\<close> slots through \<open>parse_number\<close>, reads a height
  above 3 as centimetres, rejects non-positive values, computes
  \<open>imc = peso / altura ** 2\<close>, formats it with \<open>f"{imc:.2f}"\<close> and classifies it into
  one of three bands, each with its fixed interpretation text.  The four slots are
  returned as \<open>SlotSet\<close> events; the success branch utters nothing.  The logging call
  (line 75) and the unused \<open>nombre\<close> (line 44) have no effect on the result.
\<close>

section \<open>Bands and their texts\<close>

datatype imc_band = Bajo | Saludable | Alto

fun band_rank :: "imc_band \<Rightarrow> nat" where
  "band_rank Bajo = 0"
| "band_rank Saludable = 1"
| "band_rank Alto = 2"

instantiation imc_band :: linorder
begin

definition less_eq_imc_band :: "imc_band \<Rightarrow> imc_band \<Rightarrow> bool" where
  "less_eq_imc_band a b \<longleftrightarrow> band_rank a \<le> band_rank b"

definition less_imc_band :: "imc_band \<Rightarrow> imc_band \<Rightarrow> bool" where
  "less_imc_band a b \<longleftrightarrow> band_rank a < band_rank b"

instance
proof
  fix a b c :: imc_band
  show "a < b \<longleftrightarrow> a \<le> b \<and> \<not> b \<le> a"
    by (auto simp: less_eq_imc_band_def less_imc_band_def)
  show "a \<le> a" by (simp add: less_eq_imc_band_def)
  show "a \<le> b \<Longrightarrow> b \<le> c \<Longrightarrow> a \<le> c" by (simp add: less_eq_imc_band_def)
  show "a \<le> b \<Longrightarrow> b \<le> a \<Longrightarrow> a = b"
    by (cases a; cases b) (simp_all add: less_eq_imc_band_def)
  show "a \<le> b \<or> b \<le> a" by (auto simp: less_eq_imc_band_def)
qed


end

text \<open>Lines 68--73: the \<open>if\<close>/\<open>elif\<close>/\<open>else\<close> on the index.\<close>

definition clasificar_imc :: "rat \<Rightarrow> imc_band" where
  "clasificar_imc imc = (if imc < 185 / 10 then Bajo else if imc < 25 then Saludable else Alto)"

text \<open>The interpretation strings, with \<open>\<acute>a\<close> = 225, \<open>\<acute>\<i>\<close> = 237, \<open>\<exclamdown>\<close> = 161.\<close>

fun interpretacion :: "imc_band \<Rightarrow> pystr" where
  "interpretacion Bajo =
     py ''Tu IMC est'' @ [225] @ py '' bajo. Podr'' @ [237] @
     py ''as necesitar comer un poquito m'' @ [225] @ py ''s para crecer fuerte.''"
| "interpretacion Saludable = [161] @ py ''Tu IMC es saludable! Sigue as'' @ [237] @ py ''.''"
| "interpretacion Alto =
     py ''Tu IMC est'' @ [225] @ py '' un poco alto. Te recomiendo moverte m'' @ [225] @
     py ''s y comer saludable.''"

section \<open>\<open>f"{imc:.2f}"\<close>\<close>

text \<open>Python formats the exact value, rounding half to even.\<close>

definition round_half_even :: "rat \<Rightarrow> int" where
  "round_half_even x =
     (let f = \<lfloor>x\<rfloor>; d = x - of_int f
      in if d < 1 / 2 then f else if 1 / 2 < d then f + 1 else if even f then f else f + 1)"

definition two_digits :: "nat \<Rightarrow> pystr" where
  "two_digits k = [48 + k div 10, 48 + k mod 10]"

definition format_2f :: "rat \<Rightarrow> pystr" where
  "format_2f x =
     (let n = nat (round_half_even (\<bar>x\<bar> * 100))
      in (if x < 0 then [45] else []) @ show_nat (n div 100) @ 46 # two_digits (n mod 100))"

section \<open>The action\<close>

text \<open>Line 58: \<open>if altura > 3: altura = altura / 100.0\<close>.\<close>

definition normalizar_altura :: "rat \<Rightarrow> rat" where
  "normalizar_altura a = (if 3 < a then a / 100 else a)"

text \<open>Lines 65--82: the index, its text, its band and the four slots returned.\<close>

definition imc_events :: "rat \<Rightarrow> rat \<Rightarrow> event list" where
  "imc_events peso altura =
     (let imc = peso / altura ^ 2
      in [SlotSet Peso (VFloat peso), SlotSet Altura (VFloat altura),
          SlotSet Imc (VStr (format_2f imc)),
          SlotSet Interpretacion (VStr (interpretacion (clasificar_imc imc)))])"

text \<open>
  Line 65 on doubles: \<open>altura ** 2\<close> raises \<open>OverflowError\<close> when the square rounds
  beyond the largest double (\<open>float_overflow_bound\<close>, as for \<open>float()\<close> of an int),
  and is \<open>0.0\<close> when the square is at most \<open>2^-1075\<close>, half the smallest subnormal
  (it rounds to zero, ties to even; CPython then clears the underflow, so no
  exception); \<open>peso / 0.0\<close> raises \<open>ZeroDivisionError\<close>.  The thresholds are
  applied to the exact square.
\<close>

definition cuadrado_float :: "rat \<Rightarrow> py_exn + rat" where
  "cuadrado_float a =
     (let y = a ^ 2
      in if of_int float_overflow_bound \<le> y then Inl OverflowError
         else if y \<le> 1 / 2 ^ 1075 then Inr 0 else Inr y)"

definition division_float :: "rat \<Rightarrow> rat \<Rightarrow> py_exn + rat" where
  "division_float x y = (if y = 0 then Inl ZeroDivisionError else Inr (x / y))"

text \<open>Lines 40--82; on success the index \<open>peso / altura ** 2\<close> is the one
  \<open>imc_events\<close> formats and classifies.\<close>

definition action_calcular_imc :: "tracker \<Rightarrow> action_result" where
  "action_calcular_imc t =
     py_bind (parse_number (get_slot t Peso)) (\<lambda>peso.
     py_bind (parse_number (get_slot t Altura)) (\<lambda>altura.
       (case (peso, altura) of
          (Some p, Some a) \<Rightarrow>
            (let a' = normalizar_altura a
             in if p \<le> 0 \<or> a' \<le> 0 then Inr ([UValoresPositivos], [])
                else py_bind (cuadrado_float a') (\<lambda>a2.
                     py_bind (division_float p a2) (\<lambda>imc.
                       Inr ([], imc_events p a'))))
        | _ \<Rightarrow> Inr ([UNoEntendiPesoAltura], []))))"

section \<open>Lemmas\<close>

lemma imc_events_ne [simp]: "imc_events p a \<noteq> []"
  by (simp add: imc_events_def Let_def)

text \<open>Line 65 on a positive height.\<close>

lemma linea_65:
  "0 < a \<Longrightarrow>
   py_bind (cuadrado_float a) (\<lambda>a2. py_bind (division_float p a2) f) =
     (if of_int float_overflow_bound \<le> a ^ 2 then Inl OverflowError
      else if a ^ 2 \<le> 1 / 2 ^ 1075 then Inl ZeroDivisionError else f (p / a ^ 2))"
  by (simp add: cuadrado_float_def division_float_def Let_def)

lemma action_calcular_imc_parsed:
  assumes "parse_number (get_slot t Peso) = Inr (Some p)"
    and "parse_number (get_slot t Altura) = Inr (Some a)"
  shows "action_calcular_imc t =
           (if p \<le> 0 \<or> normalizar_altura a \<le> 0 then Inr ([UValoresPositivos], [])
            else if of_int float_overflow_bound \<le> normalizar_altura a ^ 2 then Inl OverflowError
            else if normalizar_altura a ^ 2 \<le> 1 / 2 ^ 1075 then Inl ZeroDivisionError
            else Inr ([], imc_events p (normalizar_altura a)))"
  using assms by (simp add: action_calcular_imc_def Let_def linea_65 not_le)

text \<open>When weight or height does not parse to a number, the run raises or asks again.\<close>

lemma action_calcular_imc_no_parsed:
  assumes "\<not> (\<exists>p a. parse_number (get_slot t Peso) = Inr (Some p) \<and>
                   parse_number (get_slot t Altura) = Inr (Some a))"
  shows "(\<exists>e. action_calcular_imc t = Inl e) \<or>
         action_calcular_imc t = Inr ([UNoEntendiPesoAltura], [])"
proof (cases "parse_number (get_slot t Peso)")
  case (Inr pe)
  show ?thesis
  proof (cases "parse_number (get_slot t Altura)")
    case (Inr al)
    with \<open>parse_number (get_slot t Peso) = Inr pe\<close> assms have "pe = None \<or> al = None"
      by (cases pe; cases al) auto
    with Inr \<open>parse_number (get_slot t Peso) = Inr pe\<close> show ?thesis
      by (cases pe) (auto simp: action_calcular_imc_def)
  qed (simp add: action_calcular_imc_def \<open>parse_number (get_slot t Peso) = Inr pe\<close>)
qed (simp add: action_calcular_imc_def)

lemma action_calcular_imc_success:
  "action_calcular_imc t = Inr ([], evs) \<longleftrightarrow>
     (\<exists>p a. parse_number (get_slot t Peso) = Inr (Some p) \<and>
            parse_number (get_slot t Altura) = Inr (Some a) \<and>
            0 < p \<and> 0 < normalizar_altura a \<and>
            1 / 2 ^ 1075 < normalizar_altura a ^ 2 \<and>
            normalizar_altura a ^ 2 < of_int float_overflow_bound \<and>
            evs = imc_events p (normalizar_altura a))"
  (is "?l \<longleftrightarrow> ?r")
proof
  assume ?r
  then show ?l by (auto simp: action_calcular_imc_parsed not_le)
next
  assume l: ?l
  obtain p where p: "parse_number (get_slot t Peso) = Inr (Some p)"
    using l by (auto simp: action_calcular_imc_def py_bind_def split: sum.splits option.splits)
  obtain a where a: "parse_number (get_slot t Altura) = Inr (Some a)"
    using l p by (auto simp: action_calcular_imc_def py_bind_def split: sum.splits option.splits)
  from l show ?r
    using action_calcular_imc_parsed [OF p a] p a by (auto simp: not_le split: if_splits)
qed

lemma imc_events_slots:
  "get_slot (apply_events t (imc_events p a)) Peso = VFloat p"
  "get_slot (apply_events t (imc_events p a)) Altura = VFloat a"
  by (simp_all add: imc_events_def Let_def get_slot_def)

lemma imc_events_inj: "imc_events p a = imc_events p b \<longleftrightarrow> a = b"
  by (auto simp: imc_events_def Let_def)

lemma normalizar_altura_pos: "0 < a \<Longrightarrow> 0 < normalizar_altura a"
  by (simp add: normalizar_altura_def)

lemma normalizar_altura_fixed: "normalizar_altura a = a \<longleftrightarrow> a \<le> 3 \<or> a = 0"
  by (auto simp: normalizar_altura_def)

lemma two_digits_digits: "k < 100 \<Longrightarrow> \<forall>d \<in> set (two_digits k). py_isdigit d"
  using less_mult_imp_div_less [of k 10 10] by (simp add: two_digits_def py_isdigit_def)

lemma length_two_digits [simp]: "length (two_digits k) = 2"
  and two_digits_ne [simp]: "two_digits k \<noteq> []"
  by (simp_all add: two_digits_def)

lemma digits_val_two_digits: "k < 100 \<Longrightarrow> digits_val (two_digits k) = k"
  by (simp add: two_digits_def digits_val_def)

lemma rat_div_mod_100: "(of_nat (m div 100) :: rat) + of_nat (m mod 100) / 100 = of_nat m / 100"
proof -
  have "(of_nat m :: rat) = of_nat (m div 100) * 100 + of_nat (m mod 100)"
    by (metis div_mult_mod_eq of_nat_add of_nat_mult of_nat_numeral)
  then show ?thesis by (simp add: field_simps)
qed

lemma round_half_even_nonneg: "0 \<le> x \<Longrightarrow> 0 \<le> round_half_even x"
  by (simp add: round_half_even_def Let_def)

lemma show_nat_hd_digit: "show_nat n \<noteq> [] \<and> py_isdigit (hd (show_nat n))"
  using show_nat_digits [of n] by (cases "show_nat n") auto

text \<open>Heights from 1 cm to \<open>10^100\<close> m square without overflow or underflow.\<close>

lemma altura_en_rango:
  assumes "1 / 100 \<le> a" and "a \<le> 10 ^ 100"
  shows "1 / 2 ^ 1075 < (a::rat) ^ 2 \<and> a ^ 2 < of_int float_overflow_bound"
proof
  have "(1 / 100 :: rat) ^ 2 \<le> a ^ 2" using assms(1) by (rule power_mono) simp
  moreover have "1 / 2 ^ 1075 < (1 / 100 :: rat) ^ 2" by (simp add: power_divide)
  ultimately show "1 / 2 ^ 1075 < a ^ 2" by linarith
  have "a ^ 2 \<le> (10 ^ 100) ^ 2" using assms by (intro power_mono) linarith+
  moreover have "(10 ^ 100 :: rat) ^ 2 < of_int float_overflow_bound"
    by (simp add: float_overflow_bound_def)
  ultimately show "a ^ 2 < of_int float_overflow_bound" by linarith
qed

lemma cuadrado_subnormal: "(1 / 10 ^ 170 :: rat) ^ 2 \<le> 1 / 2 ^ 1075"
proof -
  have n: "(2::nat) ^ 1075 \<le> 10 ^ 340" by simp
  have "(1 / 10 ^ 170 :: rat) ^ 2 = 1 / 10 ^ 340" by (simp add: power_divide flip: power_mult)
  also have "\<dots> \<le> 1 / 2 ^ 1075"
    by (rule divide_left_mono) (simp_all only: of_nat_le_iff [symmetric, where 'a = rat] n, simp_all)
  finally show ?thesis .
qed

text \<open>The definitions a concrete run of the action unfolds, for evaluation by \<open>simp\<close>.\<close>

lemmas imc_eval = action_calcular_imc_def imc_events_def format_2f_def round_half_even_def
  two_digits_def show_nat.simps clasificar_imc_def normalizar_altura_def Let_def
  parse_eval tracker_inicial_def get_slot_def cuadrado_float_def division_float_def

section \<open>Properties of the BMI evaluator\<close>

text \<open>Claim C4: The bands are the three intervals of the spec, closed on the left.\<close>

theorem clasificar_imc_bands:
  "(clasificar_imc x = Bajo \<longleftrightarrow> x < 185 / 10) \<and>
   (clasificar_imc x = Saludable \<longleftrightarrow> 185 / 10 \<le> x \<and> x < 25) \<and>
   (clasificar_imc x = Alto \<longleftrightarrow> 25 \<le> x)"
  by (auto simp: clasificar_imc_def)

text \<open>A larger index never falls into a lower band.\<close>

theorem clasificar_imc_mono: "mono clasificar_imc"
  by (auto simp: mono_def clasificar_imc_def less_eq_imc_band_def)

text \<open>Claim C24: The printed index reads back, through \<open>parse_number\<close>, as the index rounded to
  two decimals.\<close>

theorem format_2f_parse_roundtrip:
  assumes "0 \<le> x"
  shows "parse_number (VStr (format_2f x)) =
           Inr (Some (of_int (round_half_even (x * 100)) / 100))"
proof -
  let ?n = "nat (round_half_even (\<bar>x\<bar> * 100))"
  have fmt: "format_2f x = [] @ show_nat (?n div 100) @ 46 # two_digits (?n mod 100) @ []"
    using assms by (simp add: format_2f_def Let_def)
  have "parse_number (VStr (format_2f x)) =
          Inr (Some (of_nat (digits_val (show_nat (?n div 100))) +
                     of_nat (digits_val (two_digits (?n mod 100))) / 10 ^ length (two_digits (?n mod 100))))"
    unfolding fmt
    by (rule parse_number_decimal_at_ascii)
      (simp_all add: show_nat_digits two_digits_digits [of "?n mod 100"])
  also have "\<dots> = Inr (Some (of_nat (?n div 100) + of_nat (?n mod 100) / 100))"
    by (simp add: digits_val_two_digits)
  also have "of_nat (?n div 100) + of_nat (?n mod 100) / (100::rat) = of_nat ?n / 100"
    by (rule rat_div_mod_100)
  also have "(of_nat ?n :: rat) = of_int (round_half_even (x * 100))"
    using assms round_half_even_nonneg [of "x * 100"] by simp
  finally show ?thesis .
qed

theorem format_2f_parse_roundtrip_witness:
  "0 \<le> (36250 / 1681 :: rat) \<and>
   parse_number (VStr (format_2f (36250 / 1681))) =
     Inr (Some (of_int (round_half_even ((36250 / 1681) * 100)) / 100))"
  using format_2f_parse_roundtrip [of "36250 / 1681"] by simp

text \<open>Claim C7: A height in centimetres gives the same result as the same height in metres,
  for every height in metres above 3 cm and at most 3 m.\<close>

theorem calcular_imc_cm_as_m:
  assumes "3 / 100 < h" and "h \<le> 3"
  shows "action_calcular_imc (apply_event t (SlotSet Altura (VFloat (100 * h)))) =
         action_calcular_imc (apply_event t (SlotSet Altura (VFloat h)))"
proof -
  have "normalizar_altura (100 * h) = h" and "normalizar_altura h = h"
    using assms by (simp_all add: normalizar_altura_def)
  then show ?thesis
    by (cases "parse_number (get_slot t Peso)")
      (simp_all add: action_calcular_imc_def Let_def split: option.split)
qed

theorem calcular_imc_cm_as_m_witness:
  "3 / 100 < (41 / 25 :: rat) \<and> (41 / 25 :: rat) \<le> 3 \<and>
   action_calcular_imc (apply_events tracker_inicial
     [SlotSet Peso (VStr (py ''58 kg'')), SlotSet Altura (VFloat (100 * (41 / 25)))]) =
   action_calcular_imc (apply_events tracker_inicial
     [SlotSet Peso (VStr (py ''58 kg'')), SlotSet Altura (VFloat (41 / 25))])"
  using calcular_imc_cm_as_m [of "41 / 25" "apply_event tracker_inicial (SlotSet Peso (VStr (py ''58 kg'')))"]
  by simp

text \<open>Claim C3: Every run ends in one of five ways: \<open>OverflowError\<close> (from \<open>float()\<close> of a
  huge int, or from squaring a huge height), \<open>ZeroDivisionError\<close> (a positive height so
  small that its square is \<open>0.0\<close>), the request to restate both values, the rejection
  of non-positive values (both without any event), or the four slots of a positive
  weight and a positive normalised height.\<close>

theorem calcular_imc_outcomes:
  "action_calcular_imc t = Inl OverflowError \<or>
   action_calcular_imc t = Inl ZeroDivisionError \<or>
   action_calcular_imc t = Inr ([UNoEntendiPesoAltura], []) \<or>
   action_calcular_imc t = Inr ([UValoresPositivos], []) \<or>
   (\<exists>p a. 0 < p \<and> 0 < a \<and> action_calcular_imc t = Inr ([], imc_events p a))"
proof (cases "parse_number (get_slot t Peso)")
  case (Inl e)
  moreover from Inl have "e = OverflowError" by (simp add: parse_number_raises)
  ultimately show ?thesis by (simp add: action_calcular_imc_def)
next
  case (Inr peso)
  show ?thesis
  proof (cases "parse_number (get_slot t Altura)")
    case (Inl e)
    moreover from Inl have "e = OverflowError" by (simp add: parse_number_raises)
    ultimately show ?thesis using Inr by (simp add: action_calcular_imc_def)
  next
    case (Inr altura)
    show ?thesis
    proof (cases "\<exists>p a. peso = Some p \<and> altura = Some a")
      case True
      then obtain p a where "peso = Some p" "altura = Some a" by blast
      with Inr \<open>parse_number (get_slot t Peso) = Inr peso\<close> show ?thesis
        using normalizar_altura_pos [of a]
        by (auto simp: action_calcular_imc_parsed not_le)
    next
      case False
      with Inr \<open>parse_number (get_slot t Peso) = Inr peso\<close> show ?thesis
        by (auto simp: action_calcular_imc_def split: option.splits)
    qed
  qed
qed

text \<open>A weight of 58 at a height of \<open>10^-170\<close> m: the square underflows and the division
  raises.\<close>

theorem calcular_imc_division_por_cero:
  "action_calcular_imc (apply_events tracker_inicial
     [SlotSet Peso (VFloat 58), SlotSet Altura (VFloat (1 / 10 ^ 170))]) = Inl ZeroDivisionError"
proof -
  let ?t = "apply_events tracker_inicial [SlotSet Peso (VFloat 58), SlotSet Altura (VFloat (1 / 10 ^ 170))]"
  have p: "parse_number (get_slot ?t Peso) = Inr (Some 58)"
    and a: "parse_number (get_slot ?t Altura) = Inr (Some (1 / 10 ^ 170))"
    by (simp_all add: get_slot_def)
  have n: "normalizar_altura (1 / 10 ^ 170) = 1 / 10 ^ 170"
    and pos: "\<not> ((58::rat) \<le> 0 \<or> (1 / 10 ^ 170 :: rat) \<le> 0)"
    by (simp_all add: normalizar_altura_def)
  have "(1::rat) / 2 ^ 1075 < of_int float_overflow_bound"
    by (simp add: float_overflow_bound_def)
  then have o: "\<not> of_int float_overflow_bound \<le> (1 / 10 ^ 170 :: rat) ^ 2"
    using cuadrado_subnormal by linarith
  show ?thesis
    unfolding action_calcular_imc_parsed [OF p a] n
    by (simp only: if_not_P [OF pos] if_not_P [OF o] if_P [OF cuadrado_subnormal])
qed

text \<open>Claim C21: After a successful run the tracker holds the stored weight and height; running
  the action again on it reproduces the same events exactly when the stored height is
  at most 3.  A height first given as more than 300 (centimetres) is stored above 3 and
  divided by 100 once more on the next run.\<close>

theorem calcular_imc_rerun:
  assumes ok: "action_calcular_imc t = Inr ([], evs)"
  shows "action_calcular_imc (apply_events t evs) = Inr ([], evs) \<longleftrightarrow>
         (\<forall>a. SlotSet Altura (VFloat a) \<in> set evs \<longrightarrow> a \<le> 3)"
proof -
  from ok obtain p a where p: "0 < p" and a: "0 < normalizar_altura a"
    and lo: "1 / 2 ^ 1075 < normalizar_altura a ^ 2"
    and hi: "normalizar_altura a ^ 2 < of_int float_overflow_bound"
    and evs: "evs = imc_events p (normalizar_altura a)"
    by (auto simp: action_calcular_imc_success)
  let ?a = "normalizar_altura a"
  have "parse_number (get_slot (apply_events t evs) Peso) = Inr (Some p)"
    and "parse_number (get_slot (apply_events t evs) Altura) = Inr (Some ?a)"
    by (simp_all add: evs imc_events_slots)
  then have rerun: "action_calcular_imc (apply_events t evs) =
      (if of_int float_overflow_bound \<le> normalizar_altura ?a ^ 2 then Inl OverflowError
       else if normalizar_altura ?a ^ 2 \<le> 1 / 2 ^ 1075 then Inl ZeroDivisionError
       else Inr ([], imc_events p (normalizar_altura ?a)))"
    using p normalizar_altura_pos [OF a] by (simp add: action_calcular_imc_parsed)
  have "action_calcular_imc (apply_events t evs) = Inr ([], imc_events p ?a) \<longleftrightarrow> ?a \<le> 3"
  proof
    assume "?a \<le> 3"
    then have "normalizar_altura ?a = ?a" by (simp add: normalizar_altura_fixed)
    then show "action_calcular_imc (apply_events t evs) = Inr ([], imc_events p ?a)"
      using rerun lo hi by simp
  next
    assume "action_calcular_imc (apply_events t evs) = Inr ([], imc_events p ?a)"
    then have "normalizar_altura ?a = ?a" using rerun by (auto simp: imc_events_inj split: if_splits)
    then show "?a \<le> 3" using a by (simp add: normalizar_altura_fixed)
  qed
  moreover have "(\<forall>b. SlotSet Altura (VFloat b) \<in> set evs \<longrightarrow> b \<le> 3) \<longleftrightarrow> ?a \<le> 3"
    by (auto simp: evs imc_events_def Let_def)
  ultimately show ?thesis using evs by simp
qed

theorem calcular_imc_rerun_witness:
  "action_calcular_imc (apply_events tracker_inicial
     [SlotSet Peso (VStr (py ''58 kg'')), SlotSet Altura (VStr (py ''164''))]) =
     Inr ([], imc_events 58 (41 / 25)) \<and>
   action_calcular_imc (apply_events (apply_events tracker_inicial
     [SlotSet Peso (VStr (py ''58 kg'')), SlotSet Altura (VStr (py ''164''))])
     (imc_events 58 (41 / 25))) = Inr ([], imc_events 58 (41 / 25))"
proof -
  have run: "action_calcular_imc (apply_events tracker_inicial
     [SlotSet Peso (VStr (py ''58 kg'')), SlotSet Altura (VStr (py ''164''))]) =
     Inr ([], imc_events 58 (41 / 25))"
  proof -
    have "parse_number (VStr (py ''58 kg'')) = Inr (Some 58)"
      and "parse_number (VStr (py ''164'')) = Inr (Some 164)"
      by (simp_all add: parse_eval)
    moreover have "1 / 2 ^ 1075 < (41 / 25 :: rat) ^ 2 \<and> (41 / 25 :: rat) ^ 2 < of_int float_overflow_bound"
      by (rule altura_en_rango) simp_all
    ultimately show ?thesis
      by (simp add: action_calcular_imc_parsed get_slot_def normalizar_altura_def)
  qed
  have "\<forall>a. SlotSet Altura (VFloat a) \<in> set (imc_events 58 (41 / 25)) \<longrightarrow> a \<le> 3"
    by (simp add: imc_events_def Let_def)
  with calcular_imc_rerun [OF run] run show ?thesis by simp
qed

end
