(* ===== verification/Menu.thy ===== *)
theory Menu
  imports Tracker
begin

text \<open>
  The menu catalog as the two recommendation actions reach it (\<open>actions.py\<close>,
  lines 101--133 and 172--192): the meal-time label normalised by
  \<open>str(tiempo).lower().strip()\<close> and \<open>str.replace\<close> (all accented vowels and
  \<open>ma\<tilde>nana\<close> in \<open>ActionRecomendarPlato\<close>, only \<open>ma\<tilde>nana\<close> in
  \<open>ActionManejarConfirmacionPlato\<close>), the \<open>archivos\<close> dictionary from meal-time keys
  to file names, and the reading of a dataset file in text mode:
  universal newlines, one line per dish, each line stripped and blank lines dropped.
  The directory \<open>data/datasets\<close> maps a file name to what reading it with
  \<open>encoding="utf-8"\<close> gives: its decoded contents, or the failure, \<open>open\<close> raising
  \<open>OSError\<close> (a missing or unreadable file) or the decoding raising
  \<open>UnicodeDecodeError\<close> (a file that is not UTF-8).
\<close>

section \<open>Meal-time labels\<close>

definition manana_acentuada :: pystr where
  "manana_acentuada = py ''ma'' @ [241] @ py ''ana''"

text \<open>Lines 101--109.\<close>

definition normalizar_tiempo :: "pystr \<Rightarrow> pystr" where
  "normalizar_tiempo s =
     py_replace manana_acentuada (py ''manana'')
      (py_replace [250] (py ''u'')
       (py_replace [243] (py ''o'')
        (py_replace [237] (py ''i'')
         (py_replace [233] (py ''e'')
          (py_replace [225] (py ''a'') (py_strip (py_lower s)))))))"

text \<open>Line 172.\<close>

definition normalizar_tiempo_negar :: "pystr \<Rightarrow> pystr" where
  "normalizar_tiempo_negar s = py_replace manana_acentuada (py ''manana'') (py_strip (py_lower s))"

text \<open>Lines 111--117 and 174--180 (the same literal twice).\<close>

definition archivos :: "(pystr \<times> pystr) list" where
  "archivos =
     [(py ''desayuno'', py ''desayuno.txt''), (py ''almuerzo'', py ''almuerzo.txt''),
      (py ''cena'', py ''cena.txt''), (py ''media manana'', py ''media_manana.txt''),
      (py ''media tarde'', py ''media_tarde.txt'')]"

section \<open>Dataset files\<close>

datatype fallo_lectura = NoSeAbre | NoEsUtf8

type_synonym dataset = "pystr \<Rightarrow> fallo_lectura + pystr"

fun excepcion_lectura :: "fallo_lectura \<Rightarrow> py_exn" where
  "excepcion_lectura NoSeAbre = OSError"
| "excepcion_lectura NoEsUtf8 = UnicodeDecodeError"

text \<open>Text mode translates \<open>\r\n\<close> and a lone \<open>\r\<close> to \<open>\n\<close>.\<close>

function translate_newlines :: "pystr \<Rightarrow> pystr" where
  "translate_newlines [] = []"
| "translate_newlines (c # r) =
     (if c = 13 then 10 # translate_newlines (if r \<noteq> [] \<and> hd r = 10 then tl r else r)
      else c # translate_newlines r)"
  by pat_completeness auto
termination
  by (relation "measure length") auto

text \<open>Iterating over the file: each line with its terminating \<open>\n\<close>, the last one
  without it when the file does not end in a newline.\<close>

fun split_lines_acc :: "pystr \<Rightarrow> pystr \<Rightarrow> pystr list" where
  "split_lines_acc cur [] = (if cur = [] then [] else [cur])"
| "split_lines_acc cur (c # r) =
     (if c = 10 then (cur @ [10]) # split_lines_acc [] r else split_lines_acc (cur @ [c]) r)"

definition file_lines :: "pystr \<Rightarrow> pystr list" where
  "file_lines content = split_lines_acc [] (translate_newlines content)"

text \<open>\<open>[line.strip() for line in f if line.strip()]\<close> (lines 130 and 192).\<close>

definition leer_platos :: "pystr \<Rightarrow> pystr list" where
  "leer_platos content = [py_strip l. l \<leftarrow> file_lines content, py_strip l \<noteq> []]"

section \<open>The catalog lookup of \<open>ActionRecomendarPlato\<close>\<close>

text \<open>Lines 119--137: \<open>archivos.get\<close> and \<open>if not archivo\<close>, then the file read inside
  \<open>try\<close>/\<open>except\<close>, then \<open>if not platos\<close>.  The four outcomes are the spec's
  \<open>NotFound\<close>, \<open>EmptySource\<close> (split into the load error and the empty list, which
  the code reports differently) and the list of dishes.\<close>

datatype consulta_menu = NoExiste | ErrorCarga | SinPlatos | Platos "pystr list"

definition cargar_platos :: "dataset \<Rightarrow> pystr \<Rightarrow> pystr list option" where
  "cargar_platos ds archivo = (case ds archivo of Inl _ \<Rightarrow> None | Inr c \<Rightarrow> Some (leer_platos c))"

definition consultar_menu :: "dataset \<Rightarrow> pystr \<Rightarrow> consulta_menu" where
  "consultar_menu ds tiempo_norm =
     (case map_of archivos tiempo_norm of
        None \<Rightarrow> NoExiste
      | Some archivo \<Rightarrow>
          if archivo = [] then NoExiste
          else (case cargar_platos ds archivo of
                  None \<Rightarrow> ErrorCarga
                | Some platos \<Rightarrow> if platos = [] then SinPlatos else Platos platos))"

section \<open>Lemmas\<close>

text \<open>The five one-character replacements of lines 103--107, as one map.\<close>

definition quitar_tilde :: "nat \<Rightarrow> nat" where
  "quitar_tilde c =
     (if c = 225 then 97 else if c = 233 then 101 else if c = 237 then 105
      else if c = 243 then 111 else if c = 250 then 117 else c)"

lemma normalizar_tiempo_map:
  "normalizar_tiempo s =
     py_replace manana_acentuada (py ''manana'') (map quitar_tilde (py_strip (py_lower s)))"
proof -
  have lits: "py ''a'' = [97]" "py ''e'' = [101]" "py ''i'' = [105]" "py ''o'' = [111]" "py ''u'' = [117]"
    by (simp_all add: py_def)
  show ?thesis
    unfolding normalizar_tiempo_def lits py_replace_char map_map
    by (intro arg_cong[where f = "py_replace manana_acentuada (py ''manana'')"] map_cong)
      (simp_all add: quitar_tilde_def)
qed

lemma quitar_tilde_space [simp]: "py_isspace (quitar_tilde c) \<longleftrightarrow> py_isspace c"
  by (simp add: quitar_tilde_def py_isspace_def)

lemma quitar_lower_quitar: "quitar_tilde (py_lower_cp (quitar_tilde c)) = quitar_tilde (py_lower_cp c)"
  by (auto simp: quitar_tilde_def py_lower_cp_def)

lemma concat_split_lines_acc: "concat (split_lines_acc cur s) = cur @ s"
  by (induction cur s rule: split_lines_acc.induct) auto

text \<open>Splitting into lines loses nothing: the lines concatenate to the translated text.\<close>

lemma concat_file_lines: "concat (file_lines content) = translate_newlines content"
  by (simp add: file_lines_def concat_split_lines_acc)

lemma leer_platos_nonempty: "p \<in> set (leer_platos content) \<Longrightarrow> p \<noteq> []"
  by (auto simp: leer_platos_def)

lemma leer_platos_stripped: "p \<in> set (leer_platos content) \<Longrightarrow> py_strip p = p"
  by (auto simp: leer_platos_def)

lemma map_of_archivos_nonempty: "map_of archivos k = Some a \<Longrightarrow> a \<noteq> []"
  by (auto simp: archivos_def py_def split: if_splits)

lemma normalizar_tiempo_lower: "normalizar_tiempo (py_lower s) = normalizar_tiempo s"
  by (simp add: normalizar_tiempo_def)

lemma normalizar_tiempo_negar_lower: "normalizar_tiempo_negar (py_lower s) = normalizar_tiempo_negar s"
  by (simp add: normalizar_tiempo_negar_def)

lemma translate_newlines_no_cr: "13 \<notin> set s \<Longrightarrow> translate_newlines s = s"
  by (induction s rule: translate_newlines.induct) auto

lemma split_lines_acc_append:
  "10 \<notin> set d \<Longrightarrow> split_lines_acc cur (d @ r) = split_lines_acc (cur @ d) r"
  by (induction d arbitrary: cur) auto

lemma split_lines_acc_lines:
  "\<forall>d\<in>set ds. 10 \<notin> set d \<Longrightarrow>
   split_lines_acc [] (concat (map (\<lambda>d. d @ [10]) ds)) = map (\<lambda>d. d @ [10]) ds"
  by (induction ds) (simp_all add: split_lines_acc_append)

lemma archivos_keys_ascii: "map_of archivos k = Some a \<Longrightarrow> c \<in> set k \<Longrightarrow> c < 128"
  by (auto simp: archivos_def py_def split: if_splits)

lemma quitar_tilde_id: "quitar_tilde c \<noteq> c \<Longrightarrow> 128 \<le> c \<and> c \<notin> set manana_acentuada"
  by (auto simp: quitar_tilde_def manana_acentuada_def py_def split: if_splits)

lemma strip_lines:
  "\<forall>d\<in>set ds. d \<noteq> [] \<and> py_strip d = d \<Longrightarrow>
   [py_strip l. l \<leftarrow> map (\<lambda>d. d @ [10]) ds, py_strip l \<noteq> []] = ds"
  by (induction ds) (simp_all add: py_strip_snoc_space py_isspace_def)

lemma consultar_menu_Platos:
  "consultar_menu ds k = Platos ps \<longleftrightarrow>
     (\<exists>a c. map_of archivos k = Some a \<and> ds a = Inr c \<and> ps = leer_platos c \<and> ps \<noteq> [])"
  by (auto simp: consultar_menu_def cargar_platos_def dest: map_of_archivos_nonempty
      split: option.splits if_splits sum.splits)

section \<open>Properties of the catalog\<close>

text \<open>Claim C22: Accents on the vowels never change the catalog a meal-time label selects in
  \<open>ActionRecomendarPlato\<close>: removing them first gives the same normal form.\<close>

theorem normalizar_tiempo_sin_tildes: "normalizar_tiempo (map quitar_tilde s) = normalizar_tiempo s"
proof -
  have "map quitar_tilde (py_strip (py_lower (map quitar_tilde s))) =
        py_strip (map (quitar_tilde \<circ> py_lower_cp \<circ> quitar_tilde) s)"
    by (simp add: py_lower_def py_strip_map)
  also have "map (quitar_tilde \<circ> py_lower_cp \<circ> quitar_tilde) s = map (quitar_tilde \<circ> py_lower_cp) s"
    by (simp add: quitar_lower_quitar)
  also have "py_strip \<dots> = map quitar_tilde (py_strip (py_lower s))"
    by (simp add: py_lower_def py_strip_map)
  finally show ?thesis by (simp add: normalizar_tiempo_map)
qed

text \<open>Claim C23: Writing a list of dishes to a dataset file one per line and reading it back
  with \<open>[line.strip() for line in f if line.strip()]\<close> gives the list back, for
  dishes that are non-empty, carry no surrounding whitespace and no line break.\<close>

theorem leer_platos_roundtrip:
  assumes "\<forall>d\<in>set ds. d \<noteq> [] \<and> py_strip d = d \<and> 10 \<notin> set d \<and> 13 \<notin> set d"
  shows "leer_platos (concat (map (\<lambda>d. d @ [10]) ds)) = ds"
proof -
  have nl: "\<forall>d\<in>set ds. 10 \<notin> set d" and st: "\<forall>d\<in>set ds. d \<noteq> [] \<and> py_strip d = d"
    using assms by auto
  have tr: "translate_newlines (concat (map (\<lambda>d. d @ [10]) ds)) = concat (map (\<lambda>d. d @ [10]) ds)"
    using assms by (intro translate_newlines_no_cr) auto
  show ?thesis
    unfolding leer_platos_def file_lines_def tr split_lines_acc_lines[OF nl]
    using st by (simp only: strip_lines)
qed

theorem leer_platos_roundtrip_witness:
  "leer_platos (py ''Arroz con pollo'' @ [10] @ py ''Sopa'' @ [10]) = [py ''Arroz con pollo'', py ''Sopa'']"
  using leer_platos_roundtrip [of "[py ''Arroz con pollo'', py ''Sopa'']"]
  by (simp add: py_def py_strip_def py_lstrip_def py_rstrip_def py_isspace_def)

text \<open>Every label the rejection path of \<open>ActionManejarConfirmacionPlato\<close> finds in
  \<open>archivos\<close>, the recommendation path normalises to the same key: the two
  normalisations agree wherever the narrower one succeeds.\<close>

theorem normalizar_negar_incluida:
  assumes "map_of archivos (normalizar_tiempo_negar s) = Some a"
  shows "normalizar_tiempo s = normalizar_tiempo_negar s"
proof -
  define x where "x = py_strip (py_lower s)"
  have "quitar_tilde c = c" if "c \<in> set x" for c
  proof (rule ccontr)
    assume "quitar_tilde c \<noteq> c"
    then have "128 \<le> c" "c \<notin> set manana_acentuada" by (auto dest: quitar_tilde_id)
    moreover from this(2) that have "c \<in> set (normalizar_tiempo_negar s)"
      by (simp add: normalizar_tiempo_negar_def x_def py_replace_keeps manana_acentuada_def)
    ultimately show False using assms by (auto dest: archivos_keys_ascii)
  qed
  then have "map quitar_tilde x = x" by (simp add: map_idI)
  then show ?thesis by (simp add: normalizar_tiempo_map normalizar_tiempo_negar_def x_def)
qed

theorem normalizar_negar_incluida_witness:
  "normalizar_tiempo (py '' Almuerzo'') = py ''almuerzo''"
  using normalizar_negar_incluida [of "py '' Almuerzo''" "py ''almuerzo.txt''"]
  by (simp add: normalizar_tiempo_negar_def archivos_def manana_acentuada_def py_def py_replace_def
      py_strip_def py_lstrip_def py_rstrip_def py_isspace_def py_lower_def py_lower_cp_def)

text \<open>The example of the specification: \<open>MA\<tilde>NANA\<close>, \<open>manana\<close> and \<open>Ma\<tilde>nana\<close>
  give one key, in both actions.\<close>

theorem normalizar_manana_ejemplos:
  "normalizar_tiempo (py ''MEDIA MA'' @ [209] @ py ''ANA'') = py ''media manana'' \<and>
   normalizar_tiempo (py ''media manana'') = py ''media manana'' \<and>
   normalizar_tiempo (py ''Media Ma'' @ [241] @ py ''ana '') = py ''media manana'' \<and>
   normalizar_tiempo_negar (py ''MEDIA MA'' @ [209] @ py ''ANA'') = py ''media manana'' \<and>
   normalizar_tiempo_negar (py ''Media Ma'' @ [241] @ py ''ana '') = py ''media manana''"
  by (simp add: normalizar_tiempo_def normalizar_tiempo_negar_def manana_acentuada_def py_def py_replace_def
      py_strip_def py_lstrip_def py_rstrip_def py_isspace_def py_lower_def py_lower_cp_def)

end
