(* ===== verification/Recommend.thy ===== *)
theory Recommend
  imports Menu
begin

text \<open>
  The recommendation cycle: \<open>ActionRecomendarPlato.run\<close> (\<open>actions.py\<close>, lines
  92--145) proposes a dish of the meal-time's file, and
  \<open>ActionManejarConfirmacionPlato.run\<close> (lines 156--213) handles the user's answer:
  \<open>afirmar\<close> confirms, \<open>negar\<close> proposes another dish of the same file, excluding the
  one just shown, any other intent asks again.  \<open>random.choice(seq)\<close> is
  \<open>seq[randbelow(len(seq))]\<close> and raises \<open>IndexError\<close> on an empty sequence; the
  draw of \<open>randbelow\<close> is the parameter \<open>r\<close> of both actions, read modulo the
  length (the generator's own draw is already below it), so that every index is the
  result of some draw and of equally many draws below any multiple of the length.
\<close>

section \<open>\<open>random.choice\<close>\<close>

definition py_choice :: "'a list \<Rightarrow> nat \<Rightarrow> py_exn + 'a" where
  "py_choice xs r = (if xs = [] then Inl IndexError else Inr (xs ! (r mod length xs)))"

section \<open>\<open>ActionRecomendarPlato\<close>\<close>

definition action_recomendar_plato :: "dataset \<Rightarrow> nat \<Rightarrow> tracker \<Rightarrow> action_result" where
  "action_recomendar_plato ds r t =
     (let tiempo = get_slot t TiempoComida; nombre = nombre_or_amigo t
      in if \<not> py_truthy tiempo then Inr ([UPreguntarTiempo], [])
         else
           (case consultar_menu ds (normalizar_tiempo (py_str tiempo)) of
              NoExiste \<Rightarrow> Inr ([UTiempoNoExiste], [])
            | ErrorCarga \<Rightarrow> Inr ([UErrorCargandoMenu], [])
            | SinPlatos \<Rightarrow> Inr ([UNoHayPlatos], [])
            | Platos platos \<Rightarrow>
                py_bind (py_choice platos r) (\<lambda>plato.
                  Inr ([URecomendacion nombre tiempo plato],
                       [SlotSet PlatoRecomendado (VStr plato)]))))"

section \<open>\<open>ActionManejarConfirmacionPlato\<close>\<close>

text \<open>Lines 169--209, the \<open>negar\<close> branch: here \<open>open\<close> is outside any \<open>try\<close>, so a
  missing or unreadable file raises out of the action.\<close>

definition rechazar_plato ::
  "dataset \<Rightarrow> nat \<Rightarrow> slot_value \<Rightarrow> slot_value \<Rightarrow> slot_value \<Rightarrow> action_result" where
  "rechazar_plato ds r tiempo nombre anterior =
     (case map_of archivos (normalizar_tiempo_negar (py_str tiempo)) of
        None \<Rightarrow> Inr ([UNoSeQueMenu], [])
      | Some archivo \<Rightarrow>
          if archivo = [] then Inr ([UNoSeQueMenu], [])
          else
            (case ds archivo of
               Inl fallo \<Rightarrow> Inl (excepcion_lectura fallo)
             | Inr content \<Rightarrow>
                 (let platos = leer_platos content;
                      opciones = [p \<leftarrow> platos. VStr p \<noteq> anterior]
                  in if opciones = [] then Inr ([UYaMostreTodas], [])
                     else py_bind (py_choice opciones r) (\<lambda>nuevo.
                            Inr ([UOtraOpcion nombre nuevo],
                                 [SlotSet PlatoRecomendado (VStr nuevo)])))))"

definition action_manejar_confirmacion_plato ::
  "dataset \<Rightarrow> nat \<Rightarrow> tracker \<Rightarrow> action_result" where
  "action_manejar_confirmacion_plato ds r t =
     (let intent = latest_intent t; tiempo = get_slot t TiempoComida;
          nombre = nombre_or_amigo t; anterior = get_slot t PlatoRecomendado
      in if intent = Some (py ''afirmar'') then
           Inr ([UPerfecto nombre], [SlotSet PlatoConfirmado (VBool True)])
         else if intent = Some (py ''negar'') then rechazar_plato ds r tiempo nombre anterior
         else Inr ([UNoEntendiSiNo], []))"

section \<open>Example data\<close>

text \<open>A dataset for the examples: two breakfasts, three lunches, one dinner; the
  mid-morning file is not UTF-8 and the afternoon file is missing.\<close>

definition datos_ejemplo :: dataset where
  "datos_ejemplo f =
     (if f = py ''desayuno.txt'' then Inr (py ''Avena'' @ [10] @ py ''Fruta'' @ [10])
      else if f = py ''almuerzo.txt'' then Inr (py ''Arroz'' @ [10] @ py ''Sopa'' @ [10] @ py ''Pescado'')
      else if f = py ''cena.txt'' then Inr (py ''Sopa'' @ [13, 10])
      else if f = py ''media_manana.txt'' then Inl NoEsUtf8
      else Inl NoSeAbre)"

text \<open>A lunch conversation: \<open>Arroz\<close> was shown and the user says no.\<close>

definition rechazo_almuerzo :: tracker where
  "rechazo_almuerzo =
     (apply_events tracker_inicial
        [SlotSet TiempoComida (VStr (py ''almuerzo'')),
         SlotSet PlatoRecomendado (VStr (py ''Arroz''))])\<lparr>latest_intent := Some (py ''negar'')\<rparr>"

section \<open>Lemmas\<close>

lemma py_choice_nonempty: "xs \<noteq> [] \<Longrightarrow> py_choice xs r = Inr (xs ! (r mod length xs))"
  by (simp add: py_choice_def)

lemma py_choice_in_set: "py_choice xs r = Inr x \<Longrightarrow> x \<in> set xs"
  by (auto simp: py_choice_def split: if_splits)

text \<open>Every element is the result of some draw.\<close>

lemma py_choice_surj: "x \<in> set xs \<Longrightarrow> \<exists>r. py_choice xs r = Inr x"
proof -
  assume "x \<in> set xs"
  then obtain i where i: "i < length xs" "xs ! i = x" by (auto simp: in_set_conv_nth)
  then have "py_choice xs i = Inr x" by (auto simp: py_choice_def)
  then show ?thesis by blast
qed

text \<open>Among the draws below the length, an element is chosen by as many draws as it has
  occurrences: a uniform draw picks each occurrence with the same probability.\<close>

lemma py_choice_count:
  "card {r. r < length xs \<and> py_choice xs r = Inr x} = count_list xs x"
proof -
  have "{r. r < length xs \<and> py_choice xs r = Inr x} = {i. i < length xs \<and> xs ! i = x}"
    by (auto simp: py_choice_def)
  also have "card \<dots> = count_list xs x"
  proof (induction xs rule: rev_induct)
    case (snoc y ys)
    have "{i. i < length (ys @ [y]) \<and> (ys @ [y]) ! i = x} =
          {i. i < length ys \<and> ys ! i = x} \<union> (if y = x then {length ys} else {})"
      by (auto simp: nth_append less_Suc_eq)
    with snoc show ?case by (simp add: card_insert_if)
  qed simp
  finally show ?thesis .
qed

lemma consultar_menu_Platos_ne: "consultar_menu ds k = Platos ps \<Longrightarrow> ps \<noteq> []"
  by (auto simp: consultar_menu_Platos)

text \<open>The proposal branch of \<open>ActionRecomendarPlato\<close>.\<close>

lemma recomendar_Platos:
  assumes "py_truthy (get_slot t TiempoComida)"
    and "consultar_menu ds (normalizar_tiempo (py_str (get_slot t TiempoComida))) = Platos ps"
  shows "action_recomendar_plato ds r t =
           Inr ([URecomendacion (nombre_or_amigo t) (get_slot t TiempoComida) (ps ! (r mod length ps))],
                [SlotSet PlatoRecomendado (VStr (ps ! (r mod length ps)))])"
  using assms consultar_menu_Platos_ne [OF assms(2)]
  by (simp add: action_recomendar_plato_def py_choice_nonempty)

lemma recomendar_propone:
  assumes "action_recomendar_plato ds r t = Inr (msgs, evs)" and "evs \<noteq> []"
  shows "\<exists>ps. py_truthy (get_slot t TiempoComida) \<and>
           consultar_menu ds (normalizar_tiempo (py_str (get_slot t TiempoComida))) = Platos ps \<and>
           msgs = [URecomendacion (nombre_or_amigo t) (get_slot t TiempoComida) (ps ! (r mod length ps))] \<and>
           evs = [SlotSet PlatoRecomendado (VStr (ps ! (r mod length ps)))]"
  using assms consultar_menu_Platos_ne
  by (auto simp: action_recomendar_plato_def Let_def py_choice_def
      split: consulta_menu.splits if_splits)

lemma nth_mod_set: "xs \<noteq> [] \<Longrightarrow> xs ! (r mod length xs) \<in> set xs"
  by simp

lemma nth_mod_range: "xs \<noteq> [] \<Longrightarrow> {d. \<exists>r. xs ! (r mod length xs) = d} = set xs"
  using py_choice_surj [of _ xs] by (auto simp: py_choice_def)

lemma nth_mod_count:
  "xs \<noteq> [] \<Longrightarrow> card {r. r < length xs \<and> xs ! (r mod length xs) = d} = count_list xs d"
  using py_choice_count [of xs d] by (simp add: py_choice_def)

text \<open>The proposal branch of the \<open>negar\<close> answer.\<close>

lemma rechazar_Platos:
  assumes "map_of archivos (normalizar_tiempo_negar (py_str tiempo)) = Some a"
    and "ds a = Inr c" and "os = [p \<leftarrow> leer_platos c. VStr p \<noteq> anterior]" and "os \<noteq> []"
  shows "rechazar_plato ds r tiempo nombre anterior =
           Inr ([UOtraOpcion nombre (os ! (r mod length os))],
                [SlotSet PlatoRecomendado (VStr (os ! (r mod length os)))])"
  using assms map_of_archivos_nonempty [OF assms(1)]
  by (simp add: rechazar_plato_def py_choice_nonempty Let_def)

lemma rechazar_propone:
  assumes "rechazar_plato ds r tiempo nombre anterior = Inr (msgs, evs)" and "evs \<noteq> []"
  shows "\<exists>a c os. map_of archivos (normalizar_tiempo_negar (py_str tiempo)) = Some a \<and>
           ds a = Inr c \<and> os = [p \<leftarrow> leer_platos c. VStr p \<noteq> anterior] \<and> os \<noteq> [] \<and>
           msgs = [UOtraOpcion nombre (os ! (r mod length os))] \<and>
           evs = [SlotSet PlatoRecomendado (VStr (os ! (r mod length os)))]"
  using assms
  by (auto simp: rechazar_plato_def Let_def py_choice_def split: option.splits if_splits sum.splits)

lemma manejar_negar:
  "latest_intent t = Some (py ''negar'') \<Longrightarrow>
   action_manejar_confirmacion_plato ds r t =
     rechazar_plato ds r (get_slot t TiempoComida) (nombre_or_amigo t) (get_slot t PlatoRecomendado)"
  by (simp add: action_manejar_confirmacion_plato_def py_def)

lemma manejar_events:
  "action_manejar_confirmacion_plato ds r t = Inr (msgs, evs) \<Longrightarrow> evs \<noteq> [] \<Longrightarrow>
   latest_intent t = Some (py ''negar'') \<or> evs = [SlotSet PlatoConfirmado (VBool True)]"
  by (auto simp: action_manejar_confirmacion_plato_def Let_def split: if_splits)

text \<open>The definitions a concrete run of the two actions unfolds, for \<open>simp\<close>.\<close>

lemmas menu_eval = archivos_def normalizar_tiempo_def normalizar_tiempo_negar_def py_defs
  manana_acentuada_def py_replace_char replace_nonempty_absent
  leer_platos_def file_lines_def consultar_menu_def cargar_platos_def
  action_recomendar_plato_def action_manejar_confirmacion_plato_def rechazar_plato_def
  tracker_inicial_def get_slot_def nombre_or_amigo_def py_or_def py_choice_def

section \<open>Properties of \<open>ActionRecomendarPlato\<close>\<close>

text \<open>Claim C1: A proposed dish is a line of the file the normalised meal-time names.\<close>

theorem recomendar_plato_del_menu:
  assumes "action_recomendar_plato ds r t = Inr (msgs, [SlotSet PlatoRecomendado (VStr d)])"
  shows "\<exists>a c. map_of archivos (normalizar_tiempo (py_str (get_slot t TiempoComida))) = Some a \<and>
           ds a = Inr c \<and> d \<in> set (leer_platos c)"
proof -
  obtain ps where cm: "consultar_menu ds (normalizar_tiempo (py_str (get_slot t TiempoComida))) = Platos ps"
    and d: "d = ps ! (r mod length ps)"
    using recomendar_propone [OF assms] by auto
  then obtain a c where "map_of archivos (normalizar_tiempo (py_str (get_slot t TiempoComida))) = Some a"
    and "ds a = Inr c" and "ps = leer_platos c" and "ps \<noteq> []"
    by (auto simp: consultar_menu_Platos)
  with d show ?thesis using nth_mod_set by blast
qed

text \<open>Every dish of the file is proposed by some draw, and nothing else is.\<close>

theorem recomendar_plato_opciones:
  assumes "py_truthy (get_slot t TiempoComida)"
    and "consultar_menu ds (normalizar_tiempo (py_str (get_slot t TiempoComida))) = Platos ps"
  shows "{d. \<exists>r. action_recomendar_plato ds r t =
             Inr ([URecomendacion (nombre_or_amigo t) (get_slot t TiempoComida) d],
                  [SlotSet PlatoRecomendado (VStr d)])} = set ps"
proof -
  have "{d. \<exists>r. action_recomendar_plato ds r t =
             Inr ([URecomendacion (nombre_or_amigo t) (get_slot t TiempoComida) d],
                  [SlotSet PlatoRecomendado (VStr d)])} = {d. \<exists>r. ps ! (r mod length ps) = d}"
    using recomendar_Platos [OF assms] by auto
  also have "\<dots> = set ps"
    by (rule nth_mod_range [OF consultar_menu_Platos_ne [OF assms(2)]])
  finally show ?thesis .
qed

text \<open>Claim C5: Among the draws below the number of dishes, each dish is proposed by as many draws
  as it has lines in the file: a uniform draw picks each line with the same chance.\<close>

theorem recomendar_plato_uniforme:
  assumes "py_truthy (get_slot t TiempoComida)"
    and "consultar_menu ds (normalizar_tiempo (py_str (get_slot t TiempoComida))) = Platos ps"
  shows "card {r. r < length ps \<and> action_recomendar_plato ds r t =
             Inr ([URecomendacion (nombre_or_amigo t) (get_slot t TiempoComida) d],
                  [SlotSet PlatoRecomendado (VStr d)])} = count_list ps d"
  using recomendar_Platos [OF assms] nth_mod_count [OF consultar_menu_Platos_ne [OF assms(2)]]
  by simp

text \<open>Claim C16: The action never raises, utters exactly one message, and returns an event only
  with a proposal.\<close>

theorem recomendar_plato_resultados:
  "action_recomendar_plato ds r t \<in>
     {Inr ([UPreguntarTiempo], []), Inr ([UTiempoNoExiste], []),
      Inr ([UErrorCargandoMenu], []), Inr ([UNoHayPlatos], [])} \<or>
   (\<exists>d. action_recomendar_plato ds r t =
      Inr ([URecomendacion (nombre_or_amigo t) (get_slot t TiempoComida) d],
           [SlotSet PlatoRecomendado (VStr d)]))"
  by (auto simp: action_recomendar_plato_def Let_def py_choice_def
      split: consulta_menu.splits dest: consultar_menu_Platos_ne)

section \<open>Properties of \<open>ActionManejarConfirmacionPlato\<close>\<close>

text \<open>Claim C2: A dish proposed after a rejection differs from the slot's previous dish and is a
  line of the meal-time's file.\<close>

theorem rechazar_plato_distinto:
  assumes "action_manejar_confirmacion_plato ds r t = Inr (msgs, [SlotSet PlatoRecomendado (VStr d)])"
  shows "VStr d \<noteq> get_slot t PlatoRecomendado \<and>
         (\<exists>a c. map_of archivos (normalizar_tiempo_negar (py_str (get_slot t TiempoComida))) = Some a \<and>
                ds a = Inr c \<and> d \<in> set (leer_platos c))"
proof -
  have negar: "latest_intent t = Some (py ''negar'')"
    using manejar_events [OF assms] by auto
  obtain a c os where "map_of archivos (normalizar_tiempo_negar (py_str (get_slot t TiempoComida))) = Some a"
    and "ds a = Inr c" and os: "os = [p \<leftarrow> leer_platos c. VStr p \<noteq> get_slot t PlatoRecomendado]"
    and "os \<noteq> []" and d: "d = os ! (r mod length os)"
    using rechazar_propone [OF assms [unfolded manejar_negar [OF negar]]] by auto
  moreover have "d \<in> set os" using d \<open>os \<noteq> []\<close> nth_mod_set by blast
  ultimately show ?thesis using os by auto
qed

text \<open>Claim C6: After a rejection the possible proposals are exactly the dishes of the file other
  than the one in the slot: only the dish just shown is excluded.\<close>

theorem rechazar_plato_opciones:
  assumes "latest_intent t = Some (py ''negar'')"
    and "map_of archivos (normalizar_tiempo_negar (py_str (get_slot t TiempoComida))) = Some a"
    and "ds a = Inr c"
  shows "{d. \<exists>r. action_manejar_confirmacion_plato ds r t =
             Inr ([UOtraOpcion (nombre_or_amigo t) d], [SlotSet PlatoRecomendado (VStr d)])} =
         {p \<in> set (leer_platos c). VStr p \<noteq> get_slot t PlatoRecomendado}"
proof (cases "[p \<leftarrow> leer_platos c. VStr p \<noteq> get_slot t PlatoRecomendado] = []")
  case True
  then show ?thesis
    using assms map_of_archivos_nonempty [OF assms(2)]
    by (auto simp: manejar_negar rechazar_plato_def filter_empty_conv)
next
  case False
  let ?os = "[p \<leftarrow> leer_platos c. VStr p \<noteq> get_slot t PlatoRecomendado]"
  have "{d. \<exists>r. action_manejar_confirmacion_plato ds r t =
             Inr ([UOtraOpcion (nombre_or_amigo t) d], [SlotSet PlatoRecomendado (VStr d)])} =
        {d. \<exists>r. ?os ! (r mod length ?os) = d}"
    using rechazar_Platos [where os = ?os and anterior = "get_slot t PlatoRecomendado" and ds = ds
        and a = a and c = c,
        OF assms(2,3) refl False]
    by (auto simp: manejar_negar [OF assms(1)])
  also have "\<dots> = set ?os" by (rule nth_mod_range [OF False])
  finally show ?thesis by simp
qed

text \<open>Claim C17: The rejection finds no alternative exactly when every dish of the file equals the
  previous one; it then offers to repeat it or change the meal-time, and sets nothing.\<close>

theorem rechazar_plato_agotado:
  assumes "latest_intent t = Some (py ''negar'')"
    and "map_of archivos (normalizar_tiempo_negar (py_str (get_slot t TiempoComida))) = Some a"
    and "ds a = Inr c"
  shows "action_manejar_confirmacion_plato ds r t = Inr ([UYaMostreTodas], []) \<longleftrightarrow>
         (\<forall>p \<in> set (leer_platos c). VStr p = get_slot t PlatoRecomendado)"
  using assms map_of_archivos_nonempty [OF assms(2)]
  by (auto simp: manejar_negar rechazar_plato_def py_choice_def filter_empty_conv Let_def)

text \<open>Claim C26: The confirmation action raises only on a rejection whose meal-time file
  cannot be read (the \<open>open\<close> and the reading of lines 191--192 are outside any
  \<open>try\<close>): \<open>OSError\<close> when the file cannot be opened, \<open>UnicodeDecodeError\<close> when
  it is not UTF-8.\<close>

theorem manejar_confirmacion_excepcion:
  "action_manejar_confirmacion_plato ds r t = Inl e \<longleftrightarrow>
     latest_intent t = Some (py ''negar'') \<and>
     (\<exists>a f. map_of archivos (normalizar_tiempo_negar (py_str (get_slot t TiempoComida))) = Some a \<and>
            ds a = Inl f \<and> e = excepcion_lectura f)"
  by (auto simp: action_manejar_confirmacion_plato_def rechazar_plato_def Let_def py_choice_def
      py_def dest: map_of_archivos_nonempty split: option.splits if_splits sum.splits)

text \<open>Claim C29: \<open>afirmar\<close> always closes the cycle: the positive message and the confirmation
  flag, whatever the slots hold, a proposal or none.\<close>

theorem manejar_afirmar:
  "latest_intent t = Some (py ''afirmar'') \<Longrightarrow>
   action_manejar_confirmacion_plato ds r t =
     Inr ([UPerfecto (nombre_or_amigo t)], [SlotSet PlatoConfirmado (VBool True)])"
  by (simp add: action_manejar_confirmacion_plato_def)

text \<open>Any other intent, or none, asks for a yes or no and changes nothing.\<close>

theorem manejar_otro_intent:
  "latest_intent t \<noteq> Some (py ''afirmar'') \<Longrightarrow> latest_intent t \<noteq> Some (py ''negar'') \<Longrightarrow>
   action_manejar_confirmacion_plato ds r t = Inr ([UNoEntendiSiNo], [])"
  by (simp add: action_manejar_confirmacion_plato_def)


section \<open>Witnesses\<close>

text \<open>Each applies its property to the example dataset.\<close>

theorem recomendar_plato_del_menu_witness:
  "action_recomendar_plato datos_ejemplo 1
     (apply_events tracker_inicial [SlotSet TiempoComida (VStr (py ''Desayuno''))]) =
     Inr ([URecomendacion (VStr (py ''amigo'')) (VStr (py ''Desayuno'')) (py ''Fruta'')],
          [SlotSet PlatoRecomendado (VStr (py ''Fruta''))]) \<and>
   (\<exists>a c. map_of archivos (normalizar_tiempo (py ''Desayuno'')) = Some a \<and>
          datos_ejemplo a = Inr c \<and> py ''Fruta'' \<in> set (leer_platos c))"
proof -
  have h: "action_recomendar_plato datos_ejemplo 1
     (apply_events tracker_inicial [SlotSet TiempoComida (VStr (py ''Desayuno''))]) =
     Inr ([URecomendacion (VStr (py ''amigo'')) (VStr (py ''Desayuno'')) (py ''Fruta'')],
          [SlotSet PlatoRecomendado (VStr (py ''Fruta''))])"
    by (simp add: menu_eval datos_ejemplo_def)
  from recomendar_plato_del_menu [OF h] h show ?thesis by (simp add: get_slot_def)
qed

lemma consultar_desayuno:
  "consultar_menu datos_ejemplo (normalizar_tiempo (py_str (VStr (py ''Desayuno'')))) =
     Platos [py ''Avena'', py ''Fruta'']"
  by (simp add: menu_eval datos_ejemplo_def)

theorem recomendar_plato_opciones_witness:
  "{d. \<exists>r. action_recomendar_plato datos_ejemplo r
            (apply_events tracker_inicial [SlotSet TiempoComida (VStr (py ''Desayuno''))]) =
          Inr ([URecomendacion (VStr (py ''amigo'')) (VStr (py ''Desayuno'')) d],
               [SlotSet PlatoRecomendado (VStr d)])} = {py ''Avena'', py ''Fruta''}"
proof -
  have t: "py_truthy (get_slot (apply_events tracker_inicial
             [SlotSet TiempoComida (VStr (py ''Desayuno''))]) TiempoComida)"
    by (simp add: get_slot_def py_def)
  have n: "nombre_or_amigo (apply_events tracker_inicial
             [SlotSet TiempoComida (VStr (py ''Desayuno''))]) = VStr (py ''amigo'')"
    by (simp add: menu_eval)
  show ?thesis
    using recomendar_plato_opciones [OF t] consultar_desayuno n by (simp add: get_slot_def)
qed

theorem recomendar_plato_uniforme_witness:
  "card {r. r < 2 \<and> action_recomendar_plato datos_ejemplo r
            (apply_events tracker_inicial [SlotSet TiempoComida (VStr (py ''Desayuno''))]) =
          Inr ([URecomendacion (VStr (py ''amigo'')) (VStr (py ''Desayuno'')) (py ''Avena'')],
               [SlotSet PlatoRecomendado (VStr (py ''Avena''))])} = 1"
proof -
  have t: "py_truthy (get_slot (apply_events tracker_inicial
             [SlotSet TiempoComida (VStr (py ''Desayuno''))]) TiempoComida)"
    by (simp add: get_slot_def py_def)
  have n: "nombre_or_amigo (apply_events tracker_inicial
             [SlotSet TiempoComida (VStr (py ''Desayuno''))]) = VStr (py ''amigo'')"
    by (simp add: menu_eval)
  show ?thesis
    using recomendar_plato_uniforme [OF t, of datos_ejemplo "[py ''Avena'', py ''Fruta'']" "py ''Avena''"]
      consultar_desayuno n
    by (simp add: get_slot_def py_def numeral_2_eq_2)
qed

theorem rechazar_plato_distinto_witness:
  "action_manejar_confirmacion_plato datos_ejemplo 1 rechazo_almuerzo =
     Inr ([UOtraOpcion (VStr (py ''amigo'')) (py ''Pescado'')],
          [SlotSet PlatoRecomendado (VStr (py ''Pescado''))]) \<and>
   VStr (py ''Pescado'') \<noteq> VStr (py ''Arroz'')"
proof -
  have h: "action_manejar_confirmacion_plato datos_ejemplo 1 rechazo_almuerzo =
     Inr ([UOtraOpcion (VStr (py ''amigo'')) (py ''Pescado'')],
          [SlotSet PlatoRecomendado (VStr (py ''Pescado''))])"
    by (simp add: menu_eval datos_ejemplo_def rechazo_almuerzo_def)
  from rechazar_plato_distinto [OF h] h show ?thesis
    by (simp add: rechazo_almuerzo_def get_slot_def)
qed

theorem rechazar_plato_opciones_witness:
  "{d. \<exists>r. action_manejar_confirmacion_plato datos_ejemplo r rechazo_almuerzo =
          Inr ([UOtraOpcion (VStr (py ''amigo'')) d], [SlotSet PlatoRecomendado (VStr d)])} =
   {py ''Sopa'', py ''Pescado''}"
proof -
  have i: "latest_intent rechazo_almuerzo = Some (py ''negar'')"
    by (simp add: rechazo_almuerzo_def)
  have m: "map_of archivos (normalizar_tiempo_negar (py_str (get_slot rechazo_almuerzo TiempoComida))) =
             Some (py ''almuerzo.txt'')"
    by (simp add: menu_eval rechazo_almuerzo_def)
  have d: "datos_ejemplo (py ''almuerzo.txt'') =
             Inr (py ''Arroz'' @ [10] @ py ''Sopa'' @ [10] @ py ''Pescado'')"
    by (simp add: datos_ejemplo_def py_def)
  have l: "leer_platos (py ''Arroz'' @ [10] @ py ''Sopa'' @ [10] @ py ''Pescado'') =
             [py ''Arroz'', py ''Sopa'', py ''Pescado'']"
    by (simp add: menu_eval)
  have n: "nombre_or_amigo rechazo_almuerzo = VStr (py ''amigo'')"
    by (simp add: menu_eval rechazo_almuerzo_def)
  show ?thesis
    using rechazar_plato_opciones [where ds = datos_ejemplo, OF i m d] l n
    by (auto simp: rechazo_almuerzo_def get_slot_def py_def)
qed

text \<open>A dinner conversation: the only dinner was shown and the user says no.\<close>

theorem rechazar_plato_agotado_witness:
  "action_manejar_confirmacion_plato datos_ejemplo 0
     ((apply_events tracker_inicial
        [SlotSet TiempoComida (VStr (py ''Cena'')),
         SlotSet PlatoRecomendado (VStr (py ''Sopa''))])\<lparr>latest_intent := Some (py ''negar'')\<rparr>) =
   Inr ([UYaMostreTodas], [])"
proof -
  let ?t = "(apply_events tracker_inicial
        [SlotSet TiempoComida (VStr (py ''Cena'')),
         SlotSet PlatoRecomendado (VStr (py ''Sopa''))])\<lparr>latest_intent := Some (py ''negar'')\<rparr>"
  have i: "latest_intent ?t = Some (py ''negar'')" by simp
  have m: "map_of archivos (normalizar_tiempo_negar (py_str (get_slot ?t TiempoComida))) =
             Some (py ''cena.txt'')"
    by (simp add: menu_eval)
  have d: "datos_ejemplo (py ''cena.txt'') = Inr (py ''Sopa'' @ [13, 10])"
    by (simp add: datos_ejemplo_def py_def)
  have "\<forall>p \<in> set (leer_platos (py ''Sopa'' @ [13, 10])). VStr p = get_slot ?t PlatoRecomendado"
    by (simp add: menu_eval)
  then show ?thesis using rechazar_plato_agotado [where ds = datos_ejemplo, OF i m d] by blast
qed

theorem manejar_confirmacion_excepcion_witness:
  "action_manejar_confirmacion_plato datos_ejemplo 0
     ((apply_events tracker_inicial [SlotSet TiempoComida (VStr (py ''Media tarde''))])
        \<lparr>latest_intent := Some (py ''negar'')\<rparr>) = Inl OSError \<and>
   action_manejar_confirmacion_plato datos_ejemplo 0
     ((apply_events tracker_inicial [SlotSet TiempoComida (VStr (py ''Media ma'' @ [241] @ py ''ana''))])
        \<lparr>latest_intent := Some (py ''negar'')\<rparr>) = Inl UnicodeDecodeError"
proof
  let ?t = "(apply_events tracker_inicial [SlotSet TiempoComida (VStr (py ''Media tarde''))])
        \<lparr>latest_intent := Some (py ''negar'')\<rparr>"
  have "map_of archivos (normalizar_tiempo_negar (py_str (get_slot ?t TiempoComida))) =
          Some (py ''media_tarde.txt'') \<and> datos_ejemplo (py ''media_tarde.txt'') = Inl NoSeAbre"
    by (simp add: menu_eval datos_ejemplo_def)
  then show "action_manejar_confirmacion_plato datos_ejemplo 0 ?t = Inl OSError"
    using manejar_confirmacion_excepcion [of datos_ejemplo 0 ?t OSError] by auto
next
  let ?t = "(apply_events tracker_inicial [SlotSet TiempoComida (VStr (py ''Media ma'' @ [241] @ py ''ana''))])
        \<lparr>latest_intent := Some (py ''negar'')\<rparr>"
  have "map_of archivos (normalizar_tiempo_negar (py_str (get_slot ?t TiempoComida))) =
          Some (py ''media_manana.txt'') \<and> datos_ejemplo (py ''media_manana.txt'') = Inl NoEsUtf8"
    by (simp add: menu_eval datos_ejemplo_def py_replace_def)
  then show "action_manejar_confirmacion_plato datos_ejemplo 0 ?t = Inl UnicodeDecodeError"
    using manejar_confirmacion_excepcion [of datos_ejemplo 0 ?t UnicodeDecodeError] by auto
qed


theorem manejar_afirmar_witness:
  "action_manejar_confirmacion_plato datos_ejemplo 0
     (tracker_inicial\<lparr>latest_intent := Some (py ''afirmar'')\<rparr>) =
   Inr ([UPerfecto (VStr (py ''amigo''))], [SlotSet PlatoConfirmado (VBool True)])"
proof -
  have "nombre_or_amigo (tracker_inicial\<lparr>latest_intent := Some (py ''afirmar'')\<rparr>) =
          VStr (py ''amigo'')"
    by (simp add: menu_eval)
  then show ?thesis using manejar_afirmar [of "tracker_inicial\<lparr>latest_intent := Some (py ''afirmar'')\<rparr>"]
    by simp
qed

theorem manejar_otro_intent_witness:
  "action_manejar_confirmacion_plato datos_ejemplo 0
     (tracker_inicial\<lparr>latest_intent := Some (py ''saludar'')\<rparr>) = Inr ([UNoEntendiSiNo], [])"
  using manejar_otro_intent [of "tracker_inicial\<lparr>latest_intent := Some (py ''saludar'')\<rparr>"]
  by (simp add: py_def)

end
