(* ===== verification/Conversation.thy ===== *)
theory Conversation
  imports Imc Recommend
begin

text \<open>
  The conversation across turns.  The Rasa action server finds an action by the string
  its \<open>name()\<close> method returns (\<open>actions.py\<close>, lines 37--38, 89--90 and 153--154) and
  calls its \<open>run\<close>; the dispatcher persists the returned \<open>SlotSet\<close> events and drops
  the events of an action that raised.  A user message sets the latest intent and the
  slots the language understanding fills from it (weight, height, name, meal-time).
  The dispatcher is modelled from the specification (sections 1, 5 and 6): a turn is
  either a user message or an action call with its random draw, \<open>ejecutar_turno\<close> runs one,
  \<open>conversacion\<close> runs a list of them in order, and \<open>alcanzable\<close> is the set of
  trackers some conversation reaches from the empty one.
\<close>

section \<open>The action registry\<close>

datatype accion = ActionCalcularIMC | ActionRecomendarPlato | ActionManejarConfirmacionPlato

fun nombre_accion :: "accion \<Rightarrow> pystr" where
  "nombre_accion ActionCalcularIMC = py ''action_calcular_imc''"
| "nombre_accion ActionRecomendarPlato = py ''action_recomendar_plato''"
| "nombre_accion ActionManejarConfirmacionPlato = py ''action_manejar_confirmacion_plato''"

definition acciones :: "accion list" where
  "acciones = [ActionCalcularIMC, ActionRecomendarPlato, ActionManejarConfirmacionPlato]"

definition buscar_accion :: "pystr \<Rightarrow> accion option" where
  "buscar_accion n = find (\<lambda>a. nombre_accion a = n) acciones"

text \<open>\<open>run\<close> of each class; the draw \<open>r\<close> is used only by the two recommendation actions.\<close>

fun ejecutar_accion :: "dataset \<Rightarrow> nat \<Rightarrow> accion \<Rightarrow> tracker \<Rightarrow> action_result" where
  "ejecutar_accion ds r ActionCalcularIMC t = action_calcular_imc t"
| "ejecutar_accion ds r ActionRecomendarPlato t = action_recomendar_plato ds r t"
| "ejecutar_accion ds r ActionManejarConfirmacionPlato t = action_manejar_confirmacion_plato ds r t"

section \<open>The dispatcher\<close>

text \<open>The slots the user's messages fill; the other four are set only by the actions.\<close>

definition slot_usuario :: "slot_name \<Rightarrow> bool" where
  "slot_usuario n \<longleftrightarrow> n = Peso \<or> n = Altura \<or> n = Nombre \<or> n = TiempoComida"

datatype turno =
    Mensaje "pystr option" "(slot_name \<times> slot_value) list"
  | LlamarAccion pystr nat

definition mensaje_usuario ::
  "tracker \<Rightarrow> pystr option \<Rightarrow> (slot_name \<times> slot_value) list \<Rightarrow> tracker" where
  "mensaje_usuario t i ss =
     apply_events (t\<lparr>latest_intent := i\<rparr>) [SlotSet n v. (n, v) \<leftarrow> ss, slot_usuario n]"

definition aplicar_resultado :: "tracker \<Rightarrow> action_result \<Rightarrow> tracker \<times> utterance list" where
  "aplicar_resultado t res = (case res of Inl _ \<Rightarrow> (t, []) | Inr (msgs, evs) \<Rightarrow> (apply_events t evs, msgs))"

fun ejecutar_turno :: "dataset \<Rightarrow> tracker \<Rightarrow> turno \<Rightarrow> tracker \<times> utterance list" where
  "ejecutar_turno ds t (Mensaje i ss) = (mensaje_usuario t i ss, [])"
| "ejecutar_turno ds t (LlamarAccion n r) =
     (case buscar_accion n of
        None \<Rightarrow> (t, [])
      | Some a \<Rightarrow> aplicar_resultado t (ejecutar_accion ds r a t))"

fun conversacion :: "dataset \<Rightarrow> tracker \<Rightarrow> turno list \<Rightarrow> tracker \<times> utterance list" where
  "conversacion ds t [] = (t, [])"
| "conversacion ds t (x # xs) =
     (let (t', m) = ejecutar_turno ds t x; (t'', ms) = conversacion ds t' xs in (t'', m @ ms))"

inductive alcanzable :: "dataset \<Rightarrow> tracker \<Rightarrow> bool" for ds where
  inicio: "alcanzable ds tracker_inicial"
| paso: "alcanzable ds t \<Longrightarrow> alcanzable ds (fst (ejecutar_turno ds t x))"

section \<open>Invariants\<close>

text \<open>Every dish of the files \<open>archivos\<close> names, in the order of the table.\<close>

definition catalogo :: "dataset \<Rightarrow> pystr list" where
  "catalogo ds = concat [case ds a of Inl _ \<Rightarrow> [] | Inr c \<Rightarrow> leer_platos c. (k, a) \<leftarrow> archivos]"

definition plato_valido :: "dataset \<Rightarrow> tracker \<Rightarrow> bool" where
  "plato_valido ds t =
     (case get_slot t PlatoRecomendado of VNone \<Rightarrow> True | VStr d \<Rightarrow> d \<in> set (catalogo ds) | _ \<Rightarrow> False)"

section \<open>Example conversations\<close>

text \<open>Turns of a lunch conversation over \<open>datos_ejemplo\<close> (lunch file: \<open>Arroz\<close>,
  \<open>Sopa\<close>, \<open>Pescado\<close>).\<close>

definition tiempo_almuerzo :: turno where
  "tiempo_almuerzo =
     Mensaje (Some (py ''pedir_recomendacion'')) [(TiempoComida, VStr (py ''almuerzo''))]"

definition recomendar :: "nat \<Rightarrow> turno" where
  "recomendar r = LlamarAccion (py ''action_recomendar_plato'') r"

definition responder :: "pystr \<Rightarrow> nat \<Rightarrow> turno list" where
  "responder i r = [Mensaje (Some i) [], LlamarAccion (py ''action_manejar_confirmacion_plato'') r]"

text \<open>The tracker after the meal-time is given and \<open>Arroz\<close> is proposed.\<close>

definition tras_arroz :: tracker where
  "tras_arroz =
     apply_events (tracker_inicial\<lparr>latest_intent := Some (py ''pedir_recomendacion'')\<rparr>)
       [SlotSet TiempoComida (VStr (py ''almuerzo'')), SlotSet PlatoRecomendado (VStr (py ''Arroz''))]"

section \<open>Lemmas\<close>

lemma catalogo_intro:
  "map_of archivos k = Some a \<Longrightarrow> ds a = Inr c \<Longrightarrow> d \<in> set (leer_platos c) \<Longrightarrow>
   d \<in> set (catalogo ds)"
  by (force simp: catalogo_def dest: map_of_SomeD)

text \<open>The events each action can return.\<close>

lemma calcular_imc_eventos:
  assumes "action_calcular_imc t = Inr (msgs, evs)"
  shows "evs = [] \<or> (\<exists>p a. 0 < p \<and> 0 < a \<and> evs = imc_events p a)"
proof (cases "\<exists>p a. parse_number (get_slot t Peso) = Inr (Some p) \<and>
                   parse_number (get_slot t Altura) = Inr (Some a)")
  case True
  then obtain p a where "parse_number (get_slot t Peso) = Inr (Some p)"
    and "parse_number (get_slot t Altura) = Inr (Some a)" by blast
  then show ?thesis
    using assms normalizar_altura_pos [of a]
    by (auto simp: action_calcular_imc_parsed not_le split: if_splits)
next
  case False
  then show ?thesis using assms action_calcular_imc_no_parsed by fastforce
qed

lemma recomendar_eventos:
  assumes "action_recomendar_plato ds r t = Inr (msgs, evs)"
  shows "evs = [] \<or> (\<exists>d. evs = [SlotSet PlatoRecomendado (VStr d)] \<and> d \<in> set (catalogo ds))"
proof (cases "evs = []")
  case False
  then obtain ps where cm: "consultar_menu ds (normalizar_tiempo (py_str (get_slot t TiempoComida))) = Platos ps"
    and evs: "evs = [SlotSet PlatoRecomendado (VStr (ps ! (r mod length ps)))]"
    using recomendar_propone [OF assms] by blast
  from cm obtain k a c where "map_of archivos k = Some a" "ds a = Inr c" "ps = leer_platos c" "ps \<noteq> []"
    by (auto simp: consultar_menu_Platos)
  with evs show ?thesis using nth_mod_set catalogo_intro by metis
qed simp

lemma manejar_eventos:
  assumes "action_manejar_confirmacion_plato ds r t = Inr (msgs, evs)"
  shows "evs = [] \<or> evs = [SlotSet PlatoConfirmado (VBool True)] \<or>
         (\<exists>d. evs = [SlotSet PlatoRecomendado (VStr d)] \<and> d \<in> set (catalogo ds))"
proof (cases "evs = [] \<or> evs = [SlotSet PlatoConfirmado (VBool True)]")
  case False
  then have "latest_intent t = Some (py ''negar'')" using manejar_events [OF assms] by blast
  then have "rechazar_plato ds r (get_slot t TiempoComida) (nombre_or_amigo t) (get_slot t PlatoRecomendado) =
               Inr (msgs, evs)"
    using assms by (simp add: manejar_negar)
  then obtain a c os where "map_of archivos (normalizar_tiempo_negar (py_str (get_slot t TiempoComida))) = Some a"
    and "ds a = Inr c" and os: "os = [p \<leftarrow> leer_platos c. VStr p \<noteq> get_slot t PlatoRecomendado]"
    and "os \<noteq> []" and evs: "evs = [SlotSet PlatoRecomendado (VStr (os ! (r mod length os)))]"
    using rechazar_propone False by blast
  moreover have "os ! (r mod length os) \<in> set (leer_platos c)"
    using nth_mod_set [OF \<open>os \<noteq> []\<close>] os by auto
  ultimately show ?thesis using catalogo_intro by metis
qed blast

lemma ejecutar_accion_eventos:
  "ejecutar_accion ds r a t = Inr (msgs, evs) \<Longrightarrow>
   evs = [] \<or> evs = [SlotSet PlatoConfirmado (VBool True)] \<or>
   (\<exists>d. evs = [SlotSet PlatoRecomendado (VStr d)] \<and> d \<in> set (catalogo ds)) \<or>
   (\<exists>p h. 0 < p \<and> 0 < h \<and> evs = imc_events p h)"
  by (cases a) (auto dest: calcular_imc_eventos recomendar_eventos manejar_eventos)

text \<open>What one turn does to the tracker: nothing, a user message, or the events of an
  action that returned.\<close>

lemma ejecutar_turno_cases:
  "fst (ejecutar_turno ds t x) = t \<or>
   (\<exists>i ss. fst (ejecutar_turno ds t x) = mensaje_usuario t i ss) \<or>
   (\<exists>r a msgs evs. ejecutar_accion ds r a t = Inr (msgs, evs) \<and>
      fst (ejecutar_turno ds t x) = apply_events t evs)"
proof (cases x)
  case (LlamarAccion n r)
  show ?thesis
  proof (cases "buscar_accion n")
    case (Some a)
    then show ?thesis
      using LlamarAccion by (cases "ejecutar_accion ds r a t") (fastforce simp: aplicar_resultado_def)+
  qed (simp add: LlamarAccion)
qed auto

lemma mensaje_usuario_slot:
  "\<not> slot_usuario n \<Longrightarrow> get_slot (mensaje_usuario t i ss) n = get_slot t n"
  by (auto simp: mensaje_usuario_def get_slot_def intro!: trans [OF get_slot_apply_events_other [unfolded get_slot_def]])

lemma imc_events_otros:
  "n \<noteq> Peso \<Longrightarrow> n \<noteq> Altura \<Longrightarrow> n \<noteq> Imc \<Longrightarrow> n \<noteq> Interpretacion \<Longrightarrow>
   get_slot (apply_events t (imc_events p a)) n = get_slot t n"
  by (simp add: imc_events_def Let_def get_slot_def)

lemma apply_events_single [simp]:
  "get_slot (apply_events t [SlotSet n v]) m = (if m = n then v else get_slot t m)"
  by (simp add: get_slot_def)

lemma slot_usuario_simps [simp]:
  "\<not> slot_usuario PlatoRecomendado" "\<not> slot_usuario PlatoConfirmado"
  "\<not> slot_usuario Imc" "\<not> slot_usuario Interpretacion"
  by (simp_all add: slot_usuario_def)

lemma conversacion_alcanzable:
  "alcanzable ds t \<Longrightarrow> alcanzable ds (fst (conversacion ds t xs))"
proof (induction xs arbitrary: t)
  case (Cons x xs)
  then show ?case
    using alcanzable.paso [OF Cons.prems, of x]
    by (simp add: split_beta)
qed simp

lemma imc_events_imc:
  "get_slot (apply_events t (imc_events p a)) Imc = VStr (format_2f (p / a ^ 2))"
  "get_slot (apply_events t (imc_events p a)) Interpretacion =
     VStr (interpretacion (clasificar_imc (p / a ^ 2)))"
  by (simp_all add: imc_events_def Let_def get_slot_def)

lemma imc_events_plato:
  "get_slot (apply_events t (imc_events p a)) PlatoRecomendado = get_slot t PlatoRecomendado"
  "get_slot (apply_events t (imc_events p a)) PlatoConfirmado = get_slot t PlatoConfirmado"
  by (simp_all add: imc_events_otros)

lemmas turno_slots = mensaje_usuario_slot imc_events_imc imc_events_plato

section \<open>Properties of the conversation\<close>

text \<open>Claim C11: In every reachable tracker the \<open>plato_recomendado\<close> slot is empty or holds a dish
  of some dataset file: no action stores anything else there.\<close>

theorem alcanzable_plato_valido:
  assumes "alcanzable ds t"
  shows "plato_valido ds t"
  using assms
proof (induction rule: alcanzable.induct)
  case inicio
  then show ?case by (simp add: plato_valido_def tracker_inicial_def get_slot_def)
next
  case (paso t x)
  then show ?case
    using ejecutar_turno_cases [of ds t x]
    by (auto dest!: ejecutar_accion_eventos simp: plato_valido_def turno_slots)
qed

text \<open>Claim C18: In every reachable tracker the \<open>imc\<close> and \<open>interpretacion\<close> slots are both empty
  or both come from one run of the BMI action on a positive weight and height: the text
  is that index printed with two decimals and the interpretation is its band's.\<close>

theorem alcanzable_imc_coherente:
  assumes "alcanzable ds t"
  shows "(get_slot t Imc = VNone \<and> get_slot t Interpretacion = VNone) \<or>
         (\<exists>p h. 0 < p \<and> 0 < h \<and> get_slot t Imc = VStr (format_2f (p / h ^ 2)) \<and>
                get_slot t Interpretacion = VStr (interpretacion (clasificar_imc (p / h ^ 2))))"
  using assms
proof (induction rule: alcanzable.induct)
  case inicio
  then show ?case by (simp add: tracker_inicial_def get_slot_def)
next
  case (paso t x)
  let ?t' = "fst (ejecutar_turno ds t x)"
  have "(get_slot ?t' Imc = get_slot t Imc \<and> get_slot ?t' Interpretacion = get_slot t Interpretacion) \<or>
        (\<exists>p h. 0 < p \<and> 0 < h \<and> ?t' = apply_events t (imc_events p h))"
    using ejecutar_turno_cases [of ds t x]
    by (auto dest!: ejecutar_accion_eventos simp: turno_slots)
  then show ?case
  proof
    assume "\<exists>p h. 0 < p \<and> 0 < h \<and> ?t' = apply_events t (imc_events p h)"
    then obtain p h where "0 < p" "0 < h" "?t' = apply_events t (imc_events p h)" by blast
    then show ?thesis by (intro disjI2 exI [of _ p] exI [of _ h]) (simp add: imc_events_imc)
  qed (use paso.IH in simp)
qed

text \<open>In every reachable tracker \<open>plato_confirmado\<close> is empty or \<open>True\<close>: no action
  ever sets it to \<open>False\<close> or clears it.\<close>

theorem alcanzable_confirmado:
  assumes "alcanzable ds t"
  shows "get_slot t PlatoConfirmado = VNone \<or> get_slot t PlatoConfirmado = VBool True"
  using assms
proof (induction rule: alcanzable.induct)
  case inicio
  then show ?case by (simp add: tracker_inicial_def get_slot_def)
next
  case (paso t x)
  then show ?case
    using ejecutar_turno_cases [of ds t x]
    by (auto dest!: ejecutar_accion_eventos simp: turno_slots)
qed

text \<open>The action server finds each action by the string its \<open>name()\<close> returns, and only
  by that string: the three names are distinct.\<close>

theorem buscar_accion_nombre: "buscar_accion n = Some a \<longleftrightarrow> nombre_accion a = n"
  by (cases a) (auto simp: buscar_accion_def acciones_def py_def)

text \<open>Claim C28: Once \<open>plato_confirmado\<close> is \<open>True\<close> it stays \<open>True\<close> through any later turns,
  new proposals and rejections included: nothing in the code resets it.\<close>

theorem confirmado_persiste:
  assumes "get_slot t PlatoConfirmado = VBool True"
  shows "get_slot (fst (conversacion ds t xs)) PlatoConfirmado = VBool True"
  using assms
proof (induction xs arbitrary: t)
  case (Cons x xs)
  have "get_slot (fst (ejecutar_turno ds t x)) PlatoConfirmado = VBool True"
    using ejecutar_turno_cases [of ds t x] Cons.prems
    by (auto dest!: ejecutar_accion_eventos simp: turno_slots)
  then show ?case using Cons.IH by (simp add: split_beta)
qed simp

lemmas conv_eval = menu_eval buscar_accion_def acciones_def mensaje_usuario_def slot_usuario_def
  aplicar_resultado_def tiempo_almuerzo_def recomendar_def responder_def datos_ejemplo_def Let_def
  tras_arroz_def

text \<open>The lunch conversation up to the first proposal, evaluated once.\<close>

lemma paso_arroz:
  "conversacion datos_ejemplo tracker_inicial [tiempo_almuerzo, recomendar 0] =
     (tras_arroz, [URecomendacion (VStr (py ''amigo'')) (VStr (py ''almuerzo'')) (py ''Arroz'')])"
  by (simp add: conv_eval)

section \<open>Witnesses\<close>

lemma alcanzable_tras_arroz: "alcanzable datos_ejemplo tras_arroz"
  using conversacion_alcanzable [OF alcanzable.inicio, of datos_ejemplo "[tiempo_almuerzo, recomendar 0]"]
  by (simp only: paso_arroz fst_conv)

theorem alcanzable_plato_valido_witness:
  "alcanzable datos_ejemplo tras_arroz \<and> plato_valido datos_ejemplo tras_arroz"
  using alcanzable_plato_valido [OF alcanzable_tras_arroz] alcanzable_tras_arroz by blast

theorem alcanzable_imc_coherente_witness:
  "alcanzable datos_ejemplo tras_arroz \<and>
   ((get_slot tras_arroz Imc = VNone \<and> get_slot tras_arroz Interpretacion = VNone) \<or>
    (\<exists>p h. 0 < p \<and> 0 < h \<and> get_slot tras_arroz Imc = VStr (format_2f (p / h ^ 2)) \<and>
           get_slot tras_arroz Interpretacion = VStr (interpretacion (clasificar_imc (p / h ^ 2)))))"
  using alcanzable_imc_coherente [OF alcanzable_tras_arroz] alcanzable_tras_arroz by blast

theorem confirmado_persiste_witness:
  "get_slot (apply_events tras_arroz [SlotSet PlatoConfirmado (VBool True)]) PlatoConfirmado = VBool True \<and>
   get_slot (fst (conversacion datos_ejemplo (apply_events tras_arroz [SlotSet PlatoConfirmado (VBool True)])
     (responder (py ''negar'') 0 @ [recomendar 1]))) PlatoConfirmado = VBool True"
proof -
  have "get_slot (apply_events tras_arroz [SlotSet PlatoConfirmado (VBool True)]) PlatoConfirmado = VBool True"
    by simp
  then show ?thesis using confirmado_persiste by blast
qed

end
