(* ===== verification/Ciclo.thy ===== *)
theory Ciclo
  imports Conversation
begin

text \<open>
  The recommendation cycle of the specification (section 4.4) as an abstract labelled
  transition system, and its refinement by the dispatcher's turns.  The abstract state
  is the proposal in force: none, a proposed dish, or a confirmed dish; the code keeps
  it in the slots \<open>plato_recomendado\<close> and \<open>plato_confirmado\<close>, and \<open>abs_ciclo\<close>
  reads it back.  Each turn is labelled by \<open>evento_de\<close> with the operation of the
  specification it performs; a \<open>negar\<close> answer is labelled by what the rejection did:
  \<open>Rechazar\<close> when it proposed a dish, \<open>Agotar\<close> when it reported that all options
  were shown, \<open>Otro\<close> when it found no menu or raised.  A \<open>Rechazar\<close> step must
  move to a dish of the catalog other than the one in force; the code keeps no
  \<open>exhausted\<close> flag, so an \<open>Agotar\<close> step stays where it is.
\<close>

section \<open>The abstract cycle\<close>

datatype estado_ciclo = EsperandoTiempo | Propuesto pystr | Confirmado pystr

datatype evento_ciclo = Proponer | Confirmar | Rechazar | Agotar | Otro

inductive ciclo_spec :: "dataset \<Rightarrow> evento_ciclo \<Rightarrow> estado_ciclo \<Rightarrow> estado_ciclo \<Rightarrow> bool"
  for ds where
  quieto: "e \<noteq> Confirmar \<Longrightarrow> e \<noteq> Rechazar \<Longrightarrow> ciclo_spec ds e s s"
| proponer: "d \<in> set (catalogo ds) \<Longrightarrow> ciclo_spec ds Proponer s (Propuesto d)"
| confirmar: "ciclo_spec ds Confirmar (Propuesto d) (Confirmado d)"
| confirmar_sin_propuesta: "ciclo_spec ds Confirmar EsperandoTiempo EsperandoTiempo"
| confirmar_otra_vez: "ciclo_spec ds Confirmar (Confirmado d) (Confirmado d)"
| rechazar: "d' \<in> set (catalogo ds) \<Longrightarrow> d' \<noteq> d \<Longrightarrow> ciclo_spec ds Rechazar (Propuesto d) (Propuesto d')"
| rechazar_sin_propuesta: "d' \<in> set (catalogo ds) \<Longrightarrow> ciclo_spec ds Rechazar EsperandoTiempo (Propuesto d')"

section \<open>Abstraction and labelling\<close>

definition abs_ciclo :: "tracker \<Rightarrow> estado_ciclo" where
  "abs_ciclo t =
     (case get_slot t PlatoRecomendado of
        VStr d \<Rightarrow> if get_slot t PlatoConfirmado = VBool True then Confirmado d else Propuesto d
      | _ \<Rightarrow> EsperandoTiempo)"

text \<open>The answer handled by \<open>ActionManejarConfirmacionPlato\<close>, by the branches of
  lines 163, 169 and 211, and for \<open>negar\<close> by the outcome of lines 183--209.\<close>

definition evento_respuesta :: "dataset \<Rightarrow> nat \<Rightarrow> tracker \<Rightarrow> evento_ciclo" where
  "evento_respuesta ds r t =
     (if latest_intent t = Some (py ''afirmar'') then Confirmar
      else if latest_intent t = Some (py ''negar'') then
        (case action_manejar_confirmacion_plato ds r t of
           Inr (msgs, evs) \<Rightarrow>
             if evs \<noteq> [] then Rechazar else if msgs = [UYaMostreTodas] then Agotar else Otro
         | Inl _ \<Rightarrow> Otro)
      else Otro)"

fun evento_de :: "dataset \<Rightarrow> tracker \<Rightarrow> turno \<Rightarrow> evento_ciclo" where
  "evento_de ds t (Mensaje i ss) = Otro"
| "evento_de ds t (LlamarAccion n r) =
     (case buscar_accion n of
        Some ActionRecomendarPlato \<Rightarrow> Proponer
      | Some ActionManejarConfirmacionPlato \<Rightarrow> evento_respuesta ds r t
      | _ \<Rightarrow> Otro)"

section \<open>Lemmas\<close>

lemma aplicar_resultado_fst:
  "fst (aplicar_resultado t res) = (case res of Inl _ \<Rightarrow> t | Inr (m, evs) \<Rightarrow> apply_events t evs)"
  by (simp add: aplicar_resultado_def split: sum.splits prod.splits)

lemma abs_ciclo_propuesta:
  "get_slot t PlatoConfirmado \<noteq> VBool True \<Longrightarrow>
   abs_ciclo (apply_events t [SlotSet PlatoRecomendado (VStr d)]) = Propuesto d"
  by (simp add: abs_ciclo_def)

lemma abs_ciclo_confirmacion:
  "abs_ciclo (apply_events t [SlotSet PlatoConfirmado (VBool True)]) =
     (case get_slot t PlatoRecomendado of VStr d \<Rightarrow> Confirmado d | _ \<Rightarrow> EsperandoTiempo)"
  by (simp add: abs_ciclo_def split: slot_value.splits)

lemma abs_ciclo_imc: "abs_ciclo (apply_events t (imc_events p a)) = abs_ciclo t"
  unfolding abs_ciclo_def imc_events_plato ..

text \<open>A dish proposed after a rejection is in the catalog and differs from the one in
  the slot.\<close>

lemma manejar_propuesta:
  assumes "action_manejar_confirmacion_plato ds r t = Inr (msgs, [SlotSet PlatoRecomendado (VStr d)])"
  shows "d \<in> set (catalogo ds) \<and> VStr d \<noteq> get_slot t PlatoRecomendado \<and>
         latest_intent t = Some (py ''negar'')"
proof -
  have negar: "latest_intent t = Some (py ''negar'')" using manejar_events [OF assms] by auto
  then have "rechazar_plato ds r (get_slot t TiempoComida) (nombre_or_amigo t) (get_slot t PlatoRecomendado) =
               Inr (msgs, [SlotSet PlatoRecomendado (VStr d)])"
    using assms by (simp add: manejar_negar)
  then obtain c os where "os = [p \<leftarrow> leer_platos c. VStr p \<noteq> get_slot t PlatoRecomendado]"
    and "os \<noteq> []" and "d = os ! (r mod length os)"
    using rechazar_propone by fastforce
  then have "VStr d \<noteq> get_slot t PlatoRecomendado" using nth_mod_set by fastforce
  moreover have "d \<in> set (catalogo ds)" using manejar_eventos [OF assms] by auto
  ultimately show ?thesis using negar by blast
qed

lemma calcular_imc_refina:
  "ciclo_spec ds Otro (abs_ciclo t) (abs_ciclo (fst (aplicar_resultado t (action_calcular_imc t))))"
  by (cases "action_calcular_imc t")
    (auto simp: aplicar_resultado_fst abs_ciclo_imc intro: ciclo_spec.quieto dest!: calcular_imc_eventos)

lemma recomendar_refina:
  assumes "get_slot t PlatoConfirmado \<noteq> VBool True"
  shows "ciclo_spec ds Proponer (abs_ciclo t)
           (abs_ciclo (fst (aplicar_resultado t (action_recomendar_plato ds r t))))"
proof (cases "action_recomendar_plato ds r t")
  case (Inr res)
  obtain msgs evs where res: "res = (msgs, evs)" by fastforce
  from recomendar_eventos [OF Inr [unfolded res]] show ?thesis
  proof
    assume "evs = []"
    then show ?thesis using Inr res by (simp add: aplicar_resultado_fst ciclo_spec.quieto)
  next
    assume "\<exists>d. evs = [SlotSet PlatoRecomendado (VStr d)] \<and> d \<in> set (catalogo ds)"
    then obtain d where "evs = [SlotSet PlatoRecomendado (VStr d)]" "d \<in> set (catalogo ds)" by blast
    then show ?thesis using Inr res assms
      by (simp add: aplicar_resultado_fst abs_ciclo_propuesta ciclo_spec.proponer del: apply_events_Cons)
  qed
qed (simp add: aplicar_resultado_fst ciclo_spec.quieto)

lemma manejar_refina:
  assumes "get_slot t PlatoConfirmado \<noteq> VBool True"
  shows "ciclo_spec ds (evento_respuesta ds r t)
           (abs_ciclo t) (abs_ciclo (fst (aplicar_resultado t (action_manejar_confirmacion_plato ds r t))))"
proof (cases "action_manejar_confirmacion_plato ds r t")
  case (Inl e)
  then have "latest_intent t = Some (py ''negar'')"
    by (auto simp: action_manejar_confirmacion_plato_def Let_def split: if_splits)
  with Inl show ?thesis
    by (simp add: aplicar_resultado_fst evento_respuesta_def py_def ciclo_spec.quieto)
next
  case (Inr res)
  obtain msgs evs where res: "res = (msgs, evs)" by fastforce
  consider "evs = []" | "evs = [SlotSet PlatoConfirmado (VBool True)]"
    | d where "evs = [SlotSet PlatoRecomendado (VStr d)]"
    using manejar_eventos [OF Inr [unfolded res]] by blast
  then show ?thesis
  proof cases
    case 1
    then have "latest_intent t \<noteq> Some (py ''afirmar'')"
      using Inr res by (auto simp: action_manejar_confirmacion_plato_def)
    then have "evento_respuesta ds r t \<noteq> Confirmar \<and> evento_respuesta ds r t \<noteq> Rechazar"
      using Inr res 1 by (simp add: evento_respuesta_def)
    then show ?thesis using Inr res 1 by (simp add: aplicar_resultado_fst ciclo_spec.quieto)
  next
    case 2
    then have "latest_intent t = Some (py ''afirmar'')"
      using Inr res by (auto simp: action_manejar_confirmacion_plato_def rechazar_plato_def Let_def
          py_bind_def py_choice_def split: if_splits option.splits sum.splits)
    with 2 Inr res assms show ?thesis
      by (auto simp: aplicar_resultado_fst evento_respuesta_def abs_ciclo_confirmacion
          abs_ciclo_def py_def intro: ciclo_spec.intros split: slot_value.splits)
  next
    case (3 d)
    then have p: "d \<in> set (catalogo ds)" "VStr d \<noteq> get_slot t PlatoRecomendado"
      "latest_intent t = Some (py ''negar'')"
      using manejar_propuesta Inr res by blast+
    then have "evento_respuesta ds r t = Rechazar"
      using Inr res 3 by (simp add: evento_respuesta_def py_def)
    with p 3 Inr res assms show ?thesis
      by (auto simp: aplicar_resultado_fst abs_ciclo_propuesta
          abs_ciclo_def intro: ciclo_spec.intros split: slot_value.splits)
  qed
qed

lemma abs_ciclo_mensaje: "abs_ciclo (mensaje_usuario t i ss) = abs_ciclo t"
proof -
  have p: "get_slot (mensaje_usuario t i ss) PlatoRecomendado = get_slot t PlatoRecomendado"
    and c: "get_slot (mensaje_usuario t i ss) PlatoConfirmado = get_slot t PlatoConfirmado"
    by (simp_all add: mensaje_usuario_slot)
  show ?thesis unfolding abs_ciclo_def p c ..
qed

section \<open>Refinement\<close>

text \<open>Claim C8: Every turn of the dispatcher is a step of the abstract cycle, labelled with the
  operation it performs, as long as no dish has been confirmed yet: proposals come
  from the catalog, a rejection that proposes moves to a catalog dish other than the
  one in force, \<open>afirmar\<close> confirms the dish in force, and every other turn
  (exhaustion, a rejection without menu or with an exception included) leaves the
  cycle where it is.\<close>

theorem turno_refina_ciclo:
  assumes "get_slot t PlatoConfirmado \<noteq> VBool True"
  shows "ciclo_spec ds (evento_de ds t x) (abs_ciclo t) (abs_ciclo (fst (ejecutar_turno ds t x)))"
proof (cases x)
  case (Mensaje i ss)
  then show ?thesis by (simp add: abs_ciclo_mensaje ciclo_spec.quieto)
next
  case (LlamarAccion n r)
  show ?thesis
  proof (cases "buscar_accion n")
    case (Some a)
    then show ?thesis
      using LlamarAccion calcular_imc_refina recomendar_refina [OF assms] manejar_refina [OF assms]
      by (cases a) simp_all
  qed (simp add: LlamarAccion ciclo_spec.quieto)
qed

theorem turno_refina_ciclo_witness:
  "get_slot tracker_inicial PlatoConfirmado \<noteq> VBool True \<and>
   ciclo_spec datos_ejemplo (evento_de datos_ejemplo tracker_inicial (recomendar 0)) (abs_ciclo tracker_inicial)
     (abs_ciclo (fst (ejecutar_turno datos_ejemplo tracker_inicial (recomendar 0))))"
  using turno_refina_ciclo [of tracker_inicial datos_ejemplo "recomendar 0"]
  by (simp add: tracker_inicial_def get_slot_def)

section \<open>Liveness\<close>

lemma archivos_distintos: "distinct (map fst archivos)"
  by (simp add: archivos_def py_def)

lemma archivos_claves_no_vacias: "(k, a) \<in> set archivos \<Longrightarrow> k \<noteq> []"
  by (auto simp: archivos_def py_def)

lemma archivos_claves_normales: "(k, a) \<in> set archivos \<Longrightarrow> normalizar_tiempo k = k"
proof -
  have "map (normalizar_tiempo \<circ> fst) archivos = map fst archivos"
    by (simp add: menu_eval)
  then show "(k, a) \<in> set archivos \<Longrightarrow> normalizar_tiempo k = k"
    by (auto simp: map_eq_conv)
qed

text \<open>Claim C19: From any tracker, every dish of a meal-time's file is proposed after two turns:
  the user names the meal-time by its key, and the recommendation action draws that
  dish for some draw.\<close>

theorem plato_alcanzable:
  assumes "(k, a) \<in> set archivos" and "ds a = Inr c" and "d \<in> set (leer_platos c)"
  shows "\<exists>r. get_slot (fst (conversacion ds t
            [Mensaje (Some (py ''pedir_recomendacion'')) [(TiempoComida, VStr k)], recomendar r]))
            PlatoRecomendado = VStr d"
proof -
  let ?t = "mensaje_usuario t (Some (py ''pedir_recomendacion'')) [(TiempoComida, VStr k)]"
  have k: "k \<noteq> []" and m: "map_of archivos k = Some a"
    using assms(1) archivos_claves_no_vacias map_of_is_SomeI [OF archivos_distintos] by blast+
  have tiempo: "get_slot ?t TiempoComida = VStr k"
    by (simp add: mensaje_usuario_def slot_usuario_def get_slot_def)
  let ?ps = "leer_platos c"
  have cm: "consultar_menu ds (normalizar_tiempo (py_str (get_slot ?t TiempoComida))) = Platos ?ps"
    using assms m archivos_claves_normales [OF assms(1)] tiempo
    by (auto simp: consultar_menu_Platos)
  obtain i where i: "i < length ?ps" "?ps ! i = d" using assms(3) by (auto simp: in_set_conv_nth)
  have "action_recomendar_plato ds i ?t =
          Inr ([URecomendacion (nombre_or_amigo ?t) (VStr k) d], [SlotSet PlatoRecomendado (VStr d)])"
    using recomendar_Platos [OF _ cm] tiempo k i by simp
  then have "get_slot (fst (conversacion ds t
            [Mensaje (Some (py ''pedir_recomendacion'')) [(TiempoComida, VStr k)], recomendar i]))
            PlatoRecomendado = VStr d"
    by (simp add: recomendar_def buscar_accion_def acciones_def py_def aplicar_resultado_def)
  then show ?thesis by blast
qed

theorem plato_alcanzable_witness:
  "(py ''almuerzo'', py ''almuerzo.txt'') \<in> set archivos \<and>
   datos_ejemplo (py ''almuerzo.txt'') = Inr (py ''Arroz'' @ [10] @ py ''Sopa'' @ [10] @ py ''Pescado'') \<and>
   py ''Pescado'' \<in> set (leer_platos (py ''Arroz'' @ [10] @ py ''Sopa'' @ [10] @ py ''Pescado'')) \<and>
   (\<exists>r. get_slot (fst (conversacion datos_ejemplo tracker_inicial
      [Mensaje (Some (py ''pedir_recomendacion'')) [(TiempoComida, VStr (py ''almuerzo''))], recomendar r]))
      PlatoRecomendado = VStr (py ''Pescado''))"
proof -
  have h: "(py ''almuerzo'', py ''almuerzo.txt'') \<in> set archivos \<and>
   datos_ejemplo (py ''almuerzo.txt'') = Inr (py ''Arroz'' @ [10] @ py ''Sopa'' @ [10] @ py ''Pescado'') \<and>
   py ''Pescado'' \<in> set (leer_platos (py ''Arroz'' @ [10] @ py ''Sopa'' @ [10] @ py ''Pescado''))"
    by (simp add: archivos_def datos_ejemplo_def menu_eval)
  then show ?thesis using plato_alcanzable [of "py ''almuerzo''" "py ''almuerzo.txt''" datos_ejemplo] by blast
qed

end
