(* ===== verification/Mensajes.thy ===== *)
theory Mensajes
  imports Tracker
begin

text \<open>
  The text of every \<open>dispatcher.utter_message\<close> call of \<open>actions.py\<close>, by the
  constructor of \<open>utterance\<close> that stands for it, and the body the Rasa REST channel
  sends back for the messages of one turn: a JSON list with one object per message,
  carrying the sender's id and the text.  The f-strings interpolate \<open>str()\<close> of the
  slot values (\<open>py_str\<close>).  Non-ASCII code points: \<open>\<acute>\<i>\<close> 237, \<open>\<acute>e\<close> 233,
  \<open>\<acute>o\<close> 243, \<open>\<acute>u\<close> 250, \<open>\<exclamdown>\<close> 161, \<open>\<questiondown>\<close> 191, the plate emoji
  127869 followed by the variation selector 65039.
\<close>

section \<open>Message texts\<close>

fun texto :: "utterance \<Rightarrow> pystr" where
  "texto UNoEntendiPesoAltura =
     py ''No entend'' @ [237] @ py '' tu peso o tu altura. D'' @ [237] @
     py ''melos nuevamente ejemplo: 58 kg, 1.64 m''"
| "texto UValoresPositivos = py ''Los valores deben ser positivos.''"
| "texto UPreguntarTiempo =
     [191] @ py ''Para qu'' @ [233] @ py '' tiempo de comida deseas la recomendaci'' @ [243] @ py ''n?''"
| "texto UTiempoNoExiste = py ''Ese tiempo de comida no existe.''"
| "texto UErrorCargandoMenu = py ''Error cargando el men'' @ [250] @ py ''.''"
| "texto UNoHayPlatos = py ''No tengo platos disponibles ahora mismo.''"
| "texto (URecomendacion nombre tiempo plato) =
     [161] @ py_str nombre @ py ''! Te recomiendo esta combinaci'' @ [243] @ py ''n para '' @
     py_str tiempo @ py '':'' @ [10, 10, 127869, 65039, 32] @ plato @ [10, 10, 191] @
     py ''Te gusta esta combinaci'' @ [243] @ py ''n?''"
| "texto (UPerfecto nombre) =
     [161] @ py ''Perfecto '' @ py_str nombre @ py ''! Me alegra que te guste. '' @ [161] @
     py ''Disfruta tu comida!''"
| "texto UNoSeQueMenu = py ''No s'' @ [233] @ py '' qu'' @ [233] @ py '' men'' @ [250] @ py '' usar.''"
| "texto UYaMostreTodas =
     py ''Ya te mostr'' @ [233] @ py '' todas las opciones  '' @ [191] @
     py ''Quieres repetir la misma o elegir otro tiempo de comida?''"
| "texto (UOtraOpcion nombre nuevo) =
     py ''Ok '' @ py_str nombre @ py '', te propongo esta otra opci'' @ [243] @ py ''n:'' @
     [10, 10, 32] @ nuevo @ [10, 10, 191] @ py ''Te gusta esta combinaci'' @ [243] @ py ''n?''"
| "texto UNoEntendiSiNo =
     py ''No entend'' @ [237] @ py '', '' @ [191] @ py ''te gusta esta combinaci'' @ [243] @
     py ''n? Responde s'' @ [237] @ py '' o no.''"

end
