(* ===== verification/Tipos.thy ===== *)
theory Tipos
  imports Conversation
begin

text \<open>
  The types of the slots.  The Rasa domain that declares the slots is not part of the
  repository; their types are those of the specification (section 3: the conversation
  context and the BMI result, weight and height floats greater than zero, the index and
  its interpretation text, the recommended dish a string, the confirmation flag a
  boolean).  \<open>tipo_slot\<close> is the executable check of a value against its slot's type, in
  the style of a value-type check; \<open>evento_bien_tipado\<close> lifts it to a \<open>SlotSet\<close> event.
  The lemmas show that every event an action returns is well typed, and that the slots
  only the actions write keep their type in every reachable tracker.
\<close>

section \<open>Slot types\<close>

fun tipo_slot :: "slot_name \<Rightarrow> slot_value \<Rightarrow> bool" where
  "tipo_slot Peso v = (case v of VFloat q \<Rightarrow> 0 < q | _ \<Rightarrow> False)"
| "tipo_slot Altura v = (case v of VFloat q \<Rightarrow> 0 < q | _ \<Rightarrow> False)"
| "tipo_slot Nombre v = (case v of VStr _ \<Rightarrow> True | _ \<Rightarrow> False)"
| "tipo_slot TiempoComida v = (case v of VStr _ \<Rightarrow> True | _ \<Rightarrow> False)"
| "tipo_slot PlatoRecomendado v = (case v of VStr _ \<Rightarrow> True | _ \<Rightarrow> False)"
| "tipo_slot PlatoConfirmado v = (case v of VBool _ \<Rightarrow> True | _ \<Rightarrow> False)"
| "tipo_slot Imc v = (case v of VStr _ \<Rightarrow> True | _ \<Rightarrow> False)"
| "tipo_slot Interpretacion v = (case v of VStr _ \<Rightarrow> True | _ \<Rightarrow> False)"

fun evento_bien_tipado :: "event \<Rightarrow> bool" where
  "evento_bien_tipado (SlotSet n v) = tipo_slot n v"

text \<open>A slot is unset (\<open>None\<close>, the initial value of every slot) or holds a value of its type.\<close>

definition slot_bien_tipado :: "tracker \<Rightarrow> slot_name \<Rightarrow> bool" where
  "slot_bien_tipado t n = (get_slot t n = VNone \<or> tipo_slot n (get_slot t n))"

section \<open>Lemmas\<close>

lemma imc_events_bien_tipados:
  "0 < p \<Longrightarrow> 0 < a \<Longrightarrow> list_all evento_bien_tipado (imc_events p a)"
  by (simp add: imc_events_def Let_def)

lemma ejecutar_accion_bien_tipada:
  "ejecutar_accion ds r a t = Inr (msgs, evs) \<Longrightarrow> list_all evento_bien_tipado evs"
  by (auto dest!: ejecutar_accion_eventos simp: imc_events_bien_tipados)

lemma apply_events_bien_tipado:
  "slot_bien_tipado t n \<Longrightarrow> list_all evento_bien_tipado evs \<Longrightarrow>
   slot_bien_tipado (apply_events t evs) n"
proof (induction evs arbitrary: t)
  case (Cons e evs)
  then show ?case by (cases e) (auto simp: slot_bien_tipado_def get_slot_def)
qed simp

section \<open>Properties of the slot types\<close>

text \<open>Claim C13: Every event an action returns sets its slot to a value of the slot's type:
  weight and height positive floats, the index and the interpretation strings, the dish
  a string and the confirmation a boolean.\<close>

theorem acciones_eventos_bien_tipados:
  assumes "ejecutar_accion ds r a t = Inr (msgs, evs)"
  shows "list_all evento_bien_tipado evs"
  using assms by (rule ejecutar_accion_bien_tipada)

theorem acciones_eventos_bien_tipados_witness:
  "ejecutar_accion datos_ejemplo 0 ActionCalcularIMC
     (apply_events tracker_inicial [SlotSet Peso (VFloat 58), SlotSet Altura (VFloat 164)]) =
     Inr ([], imc_events 58 (41 / 25)) \<and>
   list_all evento_bien_tipado (imc_events 58 (41 / 25))"
proof -
  have h: "ejecutar_accion datos_ejemplo 0 ActionCalcularIMC
     (apply_events tracker_inicial [SlotSet Peso (VFloat 58), SlotSet Altura (VFloat 164)]) =
     Inr ([], imc_events 58 (41 / 25))"
  proof -
    have "1 / 2 ^ 1075 < (41 / 25 :: rat) ^ 2 \<and> (41 / 25 :: rat) ^ 2 < of_int float_overflow_bound"
      by (rule altura_en_rango) simp_all
    then show ?thesis by (simp add: action_calcular_imc_parsed get_slot_def normalizar_altura_def)
  qed
  from acciones_eventos_bien_tipados [OF h] h show ?thesis by simp
qed

text \<open>Claim C14: In every reachable tracker the four slots only the actions write are unset
  or hold a value of their type, whatever values the user's messages put in the others.\<close>

theorem alcanzable_bien_tipado:
  assumes "alcanzable ds t" and "\<not> slot_usuario n"
  shows "slot_bien_tipado t n"
  using assms(1)
proof (induction rule: alcanzable.induct)
  case inicio
  then show ?case by (simp add: slot_bien_tipado_def tracker_inicial_def get_slot_def)
next
  case (paso t x)
  from ejecutar_turno_cases [of ds t x] show ?case
  proof (elim disjE exE conjE)
    fix i ss
    assume "fst (ejecutar_turno ds t x) = mensaje_usuario t i ss"
    then show ?thesis using paso.IH assms(2) by (simp add: slot_bien_tipado_def mensaje_usuario_slot)
  next
    fix r a msgs evs
    assume "ejecutar_accion ds r a t = Inr (msgs, evs)" "fst (ejecutar_turno ds t x) = apply_events t evs"
    then show ?thesis using paso.IH apply_events_bien_tipado ejecutar_accion_bien_tipada by metis
  qed (use paso.IH in simp)
qed

theorem alcanzable_bien_tipado_witness:
  "alcanzable datos_ejemplo tras_arroz \<and> \<not> slot_usuario PlatoRecomendado \<and>
   slot_bien_tipado tras_arroz PlatoRecomendado"
  using alcanzable_tras_arroz alcanzable_bien_tipado [OF alcanzable_tras_arroz, of PlatoRecomendado]
  by simp

end
