(* ===== verification/Registro.thy ===== *)
theory Registro
  imports Imc
begin

text \<open>
  The log of \<open>ActionCalcularIMC.run\<close> (\<open>actions.py\<close>, lines 11, 40--82): the module's
  logger receives two \<open>logger.info\<close> records, the raw slots before parsing (line 46) and
  the index with its interpretation once it is computed (line 75).  The f-strings format
  the slot values with \<open>format()\<close>, which for the values a slot holds is \<open>str()\<close>
  (\<open>py_str\<close>).  \<open>calcular_imc_registrado\<close> is the action with the records it emits,
  in order; whether a handler prints them depends on the logging configuration of the
  action server, which is not part of the repository.  The lemmas show that logging
  does not change what the action returns and which records a run emits.
\<close>

section \<open>The two log records\<close>

definition registro_slots :: "slot_value \<Rightarrow> slot_value \<Rightarrow> slot_value \<Rightarrow> pystr" where
  "registro_slots peso_slot altura_slot nombre =
     py ''[action_calcular_imc] peso_slot='' @ py_str peso_slot @
     py '' altura_slot='' @ py_str altura_slot @ py '' nombre='' @ py_str nombre"

definition registro_imc :: "pystr \<Rightarrow> pystr \<Rightarrow> pystr" where
  "registro_imc imc_str interp =
     py ''[action_calcular_imc] imc='' @ imc_str @ py '' interpretacion='' @ interp"

section \<open>The action with its log\<close>

definition calcular_imc_registrado :: "tracker \<Rightarrow> pystr list \<times> action_result" where
  "calcular_imc_registrado t =
     (let peso_slot = get_slot t Peso; altura_slot = get_slot t Altura;
          log = [registro_slots peso_slot altura_slot (nombre_or_amigo t)]
      in case parse_number peso_slot of
           Inl e \<Rightarrow> (log, Inl e)
         | Inr peso \<Rightarrow>
           (case parse_number altura_slot of
              Inl e \<Rightarrow> (log, Inl e)
            | Inr altura \<Rightarrow>
              (case (peso, altura) of
                 (Some p, Some a) \<Rightarrow>
                   (let a' = normalizar_altura a
                    in if p \<le> 0 \<or> a' \<le> 0 then (log, Inr ([UValoresPositivos], []))
                       else
                         (case py_bind (cuadrado_float a') (division_float p) of
                            Inl e \<Rightarrow> (log, Inl e)
                          | Inr imc \<Rightarrow>
                              (let imc_str = format_2f imc; interp = interpretacion (clasificar_imc imc)
                               in (log @ [registro_imc imc_str interp], Inr ([], imc_events p a')))))
               | _ \<Rightarrow> (log, Inr ([UNoEntendiPesoAltura], [])))))"

section \<open>Lemmas\<close>

text \<open>The run once both slots parsed, as \<open>action_calcular_imc_parsed\<close> for the action.\<close>

lemma calcular_imc_registrado_parsed:
  assumes "parse_number (get_slot t Peso) = Inr (Some p)"
    and "parse_number (get_slot t Altura) = Inr (Some a)"
  shows "calcular_imc_registrado t =
           (if p \<le> 0 \<or> normalizar_altura a \<le> 0
            then ([registro_slots (get_slot t Peso) (get_slot t Altura) (nombre_or_amigo t)],
                  Inr ([UValoresPositivos], []))
            else if of_int float_overflow_bound \<le> normalizar_altura a ^ 2
            then ([registro_slots (get_slot t Peso) (get_slot t Altura) (nombre_or_amigo t)],
                  Inl OverflowError)
            else if normalizar_altura a ^ 2 \<le> 1 / 2 ^ 1075
            then ([registro_slots (get_slot t Peso) (get_slot t Altura) (nombre_or_amigo t)],
                  Inl ZeroDivisionError)
            else ([registro_slots (get_slot t Peso) (get_slot t Altura) (nombre_or_amigo t),
                   registro_imc (format_2f (p / normalizar_altura a ^ 2))
                     (interpretacion (clasificar_imc (p / normalizar_altura a ^ 2)))],
                  Inr ([], imc_events p (normalizar_altura a))))"
  using assms normalizar_altura_pos [of a]
  by (auto simp: calcular_imc_registrado_def Let_def cuadrado_float_def division_float_def not_le)

text \<open>Every other run emits the first record only.\<close>

lemma calcular_imc_registrado_no_parsed:
  assumes "\<not> (\<exists>p a. parse_number (get_slot t Peso) = Inr (Some p) \<and>
                   parse_number (get_slot t Altura) = Inr (Some a))"
  shows "calcular_imc_registrado t =
           ([registro_slots (get_slot t Peso) (get_slot t Altura) (nombre_or_amigo t)],
            action_calcular_imc t)"
  using assms
  by (auto simp: calcular_imc_registrado_def action_calcular_imc_def Let_def
      split: sum.splits option.splits)

section \<open>Properties of the log\<close>

text \<open>Logging does not change the action: with its log records dropped, the run returns
  the messages and events (or raises the exception) of \<open>action_calcular_imc\<close>.\<close>

lemma calcular_imc_registro_inerte: "snd (calcular_imc_registrado t) = action_calcular_imc t"
proof (cases "\<exists>p a. parse_number (get_slot t Peso) = Inr (Some p) \<and>
                   parse_number (get_slot t Altura) = Inr (Some a)")
  case True
  then obtain p a where "parse_number (get_slot t Peso) = Inr (Some p)"
    and "parse_number (get_slot t Altura) = Inr (Some a)" by blast
  then show ?thesis by (simp add: calcular_imc_registrado_parsed action_calcular_imc_parsed)
qed (simp add: calcular_imc_registrado_no_parsed)

text \<open>Claim C20: Every run logs the raw weight, height and name first, the runs that raise or
  reject the values included, and logs a second record exactly when it returns the four
  slots: that record carries the very index text and interpretation the \<open>imc\<close> and
  \<open>interpretacion\<close> events store.\<close>

theorem calcular_imc_registro:
  "fst (calcular_imc_registrado t) =
     registro_slots (get_slot t Peso) (get_slot t Altura) (nombre_or_amigo t) #
     (case snd (calcular_imc_registrado t) of
        Inr ([], [_, _, SlotSet Imc (VStr imc_str), SlotSet Interpretacion (VStr interp)]) \<Rightarrow>
          [registro_imc imc_str interp]
      | _ \<Rightarrow> [])"
proof (cases "\<exists>p a. parse_number (get_slot t Peso) = Inr (Some p) \<and>
                   parse_number (get_slot t Altura) = Inr (Some a)")
  case True
  then obtain p a where p: "parse_number (get_slot t Peso) = Inr (Some p)"
    and a: "parse_number (get_slot t Altura) = Inr (Some a)" by blast
  show ?thesis
    by (simp add: calcular_imc_registrado_parsed [OF p a] imc_events_def Let_def)
next
  case False
  from action_calcular_imc_no_parsed [OF False] show ?thesis by (auto simp: calcular_imc_registrado_no_parsed [OF False])
qed

end
