(* ===== verification/Gui.thy ===== *)
theory Gui
  imports Prelude
begin

text \<open>
  The chat client \<open>src/Interfaz Grafica Vitakids/gui_vita_kids.py\<close>:
  \<open>enviar_mensaje_a_rasa\<close> (lines 12--21) posts the user's text to Rasa's REST webhook
  and turns the JSON answer into one string, and the \<open>ChatGUI\<close> widget keeps the chat
  area (the paragraphs appended to the \<open>QTextEdit\<close>) and the input line; its two
  handlers are \<open>agregar_mensaje\<close> (lines 122--132) and \<open>enviar_mensaje\<close> (lines
  134--143).  The HTTP call is the parameter \<open>post\<close>: for a payload (sender, message)
  it yields either the decoded JSON body or a \<open>requests.exceptions.RequestException\<close>
  with its \<open>str()\<close> (a connection error, the timeout, the \<open>HTTPError\<close> of
  \<open>raise_for_status\<close>, the \<open>JSONDecodeError\<close> of \<open>response.json()\<close>: all of them
  are subclasses of \<open>RequestException\<close>).  Python's \<open>in\<close> and \<open>[]\<close> on JSON
  values are written out with the exceptions they raise; a \<open>TypeError\<close> is not caught
  by the \<open>except\<close> of line 20 and escapes the handler, which Qt reports and survives,
  keeping the changes the handler made before it.  The window layout (lines 24--117
  apart from the two widgets' initial contents and line 119) is presentation only.
\<close>

section \<open>The Rasa REST client\<close>

text \<open>A JSON value as \<open>json.loads\<close> returns it; an object keeps its members in order.\<close>

datatype json = JNull | JBool bool | JNum rat | JStr pystr | JList "json list"
  | JObj "(pystr \<times> json) list"

datatype resultado_post = ExcepcionRequest pystr | Cuerpo json

definition claves_objeto :: "(pystr \<times> json) list \<Rightarrow> pystr list" where
  "claves_objeto kvs = remdups (map fst kvs)"

text \<open>Iterating a value: a list's elements, a dict's keys, a string's characters; the
  other values are not iterable.\<close>

fun py_iter :: "json \<Rightarrow> py_exn + json list" where
  "py_iter (JList xs) = Inr xs"
| "py_iter (JObj kvs) = Inr (map JStr (claves_objeto kvs))"
| "py_iter (JStr s) = Inr (map (\<lambda>c. JStr [c]) s)"
| "py_iter _ = Inl TypeError"

text \<open>\<open>k in r\<close> for the string \<open>k\<close>.\<close>

fun py_in :: "pystr \<Rightarrow> json \<Rightarrow> py_exn + bool" where
  "py_in k (JObj kvs) = Inr (k \<in> set (map fst kvs))"
| "py_in k (JStr s) = Inr (py_str_in k s)"
| "py_in k (JList xs) = Inr (JStr k \<in> set xs)"
| "py_in k _ = Inl TypeError"

text \<open>\<open>r[k]\<close> for the string \<open>k\<close>: a dict holds the last value given for a key.\<close>

fun py_getitem :: "json \<Rightarrow> pystr \<Rightarrow> py_exn + json" where
  "py_getitem (JObj kvs) k = (case map_of (rev kvs) k of None \<Rightarrow> Inl KeyError | Some v \<Rightarrow> Inr v)"
| "py_getitem _ k = Inl TypeError"

text \<open>Line 18: \<open>[r["text"] for r in respuestas if "text" in r]\<close>, element by element.\<close>

fun extraer_textos :: "json list \<Rightarrow> py_exn + json list" where
  "extraer_textos [] = Inr []"
| "extraer_textos (r # rs) =
     py_bind (py_in (py ''text'') r) (\<lambda>b.
       if b then py_bind (py_getitem r (py ''text'')) (\<lambda>v.
                   py_bind (extraer_textos rs) (\<lambda>vs. Inr (v # vs)))
       else extraer_textos rs)"

text \<open>Line 19: \<open>"\n".join(textos)\<close>; an item that is not a string raises \<open>TypeError\<close>.\<close>

fun como_str :: "json \<Rightarrow> pystr option" where
  "como_str (JStr s) = Some s"
| "como_str _ = None"

definition unir_textos :: "json list \<Rightarrow> py_exn + pystr" where
  "unir_textos vs =
     (case those (map como_str vs) of None \<Rightarrow> Inl TypeError | Some ss \<Rightarrow> Inr (py_join [10] ss))"

definition error_conexion :: "pystr \<Rightarrow> pystr" where
  "error_conexion e = py ''Error al conectarse con Rasa: '' @ e"

definition enviar_mensaje_a_rasa ::
  "(pystr \<times> pystr \<Rightarrow> resultado_post) \<Rightarrow> pystr \<Rightarrow> pystr \<Rightarrow> py_exn + pystr" where
  "enviar_mensaje_a_rasa post mensaje usuario =
     (case post (usuario, mensaje) of
        ExcepcionRequest e \<Rightarrow> Inr (error_conexion e)
      | Cuerpo respuestas \<Rightarrow>
          py_bind (py_iter respuestas) (\<lambda>rs.
          py_bind (extraer_textos rs) unir_textos))"

section \<open>The chat window\<close>

record chat_gui =
  chat_area :: "pystr list"
  input_msg :: pystr

text \<open>Lines 122--132: the paragraph appended for one message.\<close>

definition burbuja :: "pystr \<Rightarrow> pystr \<Rightarrow> pystr" where
  "burbuja remitente mensaje =
     (let estilo = (if remitente = py ''Bot'' then py ''background-color:#FFE9A3;''
                    else py ''background-color:#FFD3B4; text-align:right;'')
      in py ''<p style='' @ [39] @ estilo @ py '' padding:8px; border-radius:12px;'' @ [39] @
         py ''><b>'' @ remitente @ py '':</b> '' @ mensaje @ py ''</p>'')"

definition agregar_mensaje :: "chat_gui \<Rightarrow> pystr \<Rightarrow> pystr \<Rightarrow> chat_gui" where
  "agregar_mensaje g remitente mensaje =
     g\<lparr>chat_area := chat_area g @ [burbuja remitente mensaje]\<rparr>"

definition remitente_usuario :: pystr where
  "remitente_usuario = py ''T'' @ [250]"

text \<open>Lines 134--143.  The result pairs the widget's state with the exception that
  escaped the handler, if any.\<close>

definition enviar_mensaje ::
  "(pystr \<times> pystr \<Rightarrow> resultado_post) \<Rightarrow> chat_gui \<Rightarrow> chat_gui \<times> py_exn option" where
  "enviar_mensaje post g =
     (let mensaje_usuario = py_strip (input_msg g)
      in if mensaje_usuario = [] then (g, None)
         else
           (let g' = (agregar_mensaje g remitente_usuario mensaje_usuario)\<lparr>input_msg := []\<rparr>
            in case enviar_mensaje_a_rasa post mensaje_usuario (py ''usuario1'') of
                 Inl e \<Rightarrow> (g', Some e)
               | Inr respuesta \<Rightarrow> (agregar_mensaje g' (py ''Bot'') respuesta, None)))"

text \<open>A session: the user types each text of the list into the input line and presses
  Enter or the send button, both connected to \<open>enviar_mensaje\<close> (lines 102 and 109).\<close>

fun sesion ::
  "(pystr \<times> pystr \<Rightarrow> resultado_post) \<Rightarrow> chat_gui \<Rightarrow> pystr list \<Rightarrow> chat_gui" where
  "sesion post g [] = g"
| "sesion post g (x # xs) = sesion post (fst (enviar_mensaje post (g\<lparr>input_msg := x\<rparr>))) xs"

text \<open>Lines 75--119: an empty chat area and input line, then the greeting.\<close>

definition chat_gui_inicial :: chat_gui where
  "chat_gui_inicial =
     agregar_mensaje \<lparr>chat_area = [], input_msg = []\<rparr> (py ''Bot'')
       ([161] @ py ''Hola! Estoy listo para ayudarte.'')"

section \<open>Lemmas\<close>

lemma map_of_rev_None [simp]: "map_of (rev kvs) k = None \<longleftrightarrow> k \<notin> fst ` set kvs"
  by (simp add: map_of_eq_None_iff)

lemma py_getitem_presente:
  "py_in k r = Inr True \<Longrightarrow> py_getitem r k \<noteq> Inl KeyError"
  by (cases r) (auto split: option.splits)

text \<open>The list comprehension raises nothing but \<open>TypeError\<close>: a key it finds with
  \<open>in\<close> is there for \<open>[]\<close>.\<close>

lemma extraer_textos_error: "extraer_textos rs = Inl e \<Longrightarrow> e = TypeError"
proof (induction rs)
  case (Cons r rs)
  show ?case
  proof (cases "py_in (py ''text'') r")
    case (Inl e')
    then show ?thesis using Cons.prems by (cases r) auto
  next
    case (Inr b)
    then show ?thesis
      using Cons py_getitem_presente [of "py ''text''" r]
      by (cases r) (auto split: if_splits option.splits sum.splits simp: py_bind_def)
  qed
qed simp

lemma unir_textos_error: "unir_textos vs = Inl e \<Longrightarrow> e = TypeError"
  by (simp add: unir_textos_def split: option.splits)

lemma py_iter_error: "py_iter j = Inl e \<Longrightarrow> e = TypeError"
  by (cases j) auto

text \<open>On a list of objects, the comprehension keeps the \<open>text\<close> member of each object
  that has one, in order.\<close>

lemma extraer_textos_objetos:
  "extraer_textos (map JObj kvss) =
     Inr [the (map_of (rev kvs) (py ''text'')). kvs \<leftarrow> kvss, py ''text'' \<in> set (map fst kvs)]"
  by (induction kvss) (auto split: option.splits)

lemma those_map_como_str: "those (map como_str (map JStr ss)) = Some ss"
  by (induction ss) simp_all

lemma enviar_mensaje_no_vacio:
  assumes "py_strip (input_msg g) = m" and "m \<noteq> []"
  shows "enviar_mensaje post g =
           (case enviar_mensaje_a_rasa post m (py ''usuario1'') of
              Inl e \<Rightarrow> (g\<lparr>chat_area := chat_area g @ [burbuja remitente_usuario m], input_msg := []\<rparr>, Some e)
            | Inr r \<Rightarrow> (g\<lparr>chat_area := chat_area g @ [burbuja remitente_usuario m, burbuja (py ''Bot'') r],
                          input_msg := []\<rparr>, None))"
  using assms by (simp add: enviar_mensaje_def agregar_mensaje_def Let_def split: sum.splits)

text \<open>The only exception that escapes \<open>enviar_mensaje_a_rasa\<close> is \<open>TypeError\<close>.\<close>

lemma enviar_mensaje_a_rasa_error:
  "enviar_mensaje_a_rasa post m u = Inl e \<Longrightarrow> e = TypeError"
  by (auto simp: enviar_mensaje_a_rasa_def py_bind_def split: resultado_post.splits sum.splits
      dest: py_iter_error extraer_textos_error unir_textos_error)

lemma enviar_mensaje_crece:
  "\<exists>ys. chat_area (fst (enviar_mensaje post g)) = chat_area g @ ys \<and> length ys \<le> 2"
proof (cases "py_strip (input_msg g) = []")
  case False
  then show ?thesis
    using enviar_mensaje_no_vacio [OF refl False, of post] by (auto split: sum.splits)
qed (simp add: enviar_mensaje_def)

text \<open>\<open>join\<close> fails on a list holding one value that is not a string.\<close>

lemma those_como_str_None: "v \<in> set vs \<Longrightarrow> como_str v = None \<Longrightarrow> those (map como_str vs) = None"
  by (induction vs) (auto split: option.splits)

text \<open>The \<open>text\<close> of every object of the list is among the extracted values.\<close>

lemma extraer_textos_texto:
  "extraer_textos rs = Inr vs \<Longrightarrow> JObj kvs \<in> set rs \<Longrightarrow>
   map_of (rev kvs) (py ''text'') = Some v \<Longrightarrow> v \<in> set vs"
proof (induction rs arbitrary: vs)
  case (Cons r rs)
  show ?case
  proof (cases "r = JObj kvs")
    case True
    then have "py ''text'' \<in> set (map fst kvs)"
      using Cons.prems(3) by (metis map_of_rev_None option.distinct(1) set_map)
    then have i: "py_in (py ''text'') r = Inr True" using True by simp
    have g: "py_getitem r (py ''text'') = Inr v" using True Cons.prems(3) by simp
    from Cons.prems(1) i g show ?thesis by (auto simp: py_bind_eq_Inr)
  next
    case False
    then have "JObj kvs \<in> set rs" using Cons.prems(2) by simp
    with Cons.prems(1) Cons.IH [OF _ _ Cons.prems(3)] show ?thesis
      by (auto simp: py_bind_eq_Inr split: if_splits)
  qed
qed simp

section \<open>Properties of the client\<close>

text \<open>Claim C12: A blank input line (empty or only whitespace) changes nothing and sends nothing:
  the result is the same for every server.\<close>

theorem enviar_mensaje_vacio:
  "py_strip (input_msg g) = [] \<Longrightarrow> enviar_mensaje post g = (g, None)"
  by (simp add: enviar_mensaje_def)

theorem enviar_mensaje_vacio_witness:
  "enviar_mensaje (\<lambda>_. ExcepcionRequest []) (chat_gui_inicial\<lparr>input_msg := [32, 9, 32]\<rparr>) =
     (chat_gui_inicial\<lparr>input_msg := [32, 9, 32]\<rparr>, None)"
  using enviar_mensaje_vacio [of "chat_gui_inicial\<lparr>input_msg := [32, 9, 32]\<rparr>" "\<lambda>_. ExcepcionRequest []"]
  by (simp add: py_strip_def py_lstrip_def py_rstrip_def py_isspace_def)

text \<open>Claim C9: A non-blank input is stripped, shown as the user's paragraph, cleared from the
  input line, sent as \<open>usuario1\<close>, and the answer is shown as the bot's paragraph
  right after it.\<close>

theorem enviar_mensaje_respuesta:
  assumes "py_strip (input_msg g) = m" and "m \<noteq> []"
    and "enviar_mensaje_a_rasa post m (py ''usuario1'') = Inr r"
  shows "enviar_mensaje post g =
           (g\<lparr>chat_area := chat_area g @ [burbuja remitente_usuario m, burbuja (py ''Bot'') r],
              input_msg := []\<rparr>, None)"
  using enviar_mensaje_no_vacio [OF assms(1,2)] assms(3) by simp

theorem enviar_mensaje_respuesta_witness:
  "enviar_mensaje (\<lambda>_. ExcepcionRequest (py ''timeout'')) (chat_gui_inicial\<lparr>input_msg := py '' hola ''\<rparr>) =
     (chat_gui_inicial\<lparr>chat_area := chat_area chat_gui_inicial @
        [burbuja remitente_usuario (py ''hola''),
         burbuja (py ''Bot'') (error_conexion (py ''timeout''))], input_msg := []\<rparr>, None)"
proof -
  have "py_strip (input_msg (chat_gui_inicial\<lparr>input_msg := py '' hola ''\<rparr>)) = py ''hola''"
    by (simp add: py_def py_strip_def py_lstrip_def py_rstrip_def py_isspace_def)
  then show ?thesis
    using enviar_mensaje_respuesta [of "chat_gui_inicial\<lparr>input_msg := py '' hola ''\<rparr>" "py ''hola''"
        "\<lambda>_. ExcepcionRequest (py ''timeout'')" "error_conexion (py ''timeout'')"]
    by (simp add: enviar_mensaje_a_rasa_def py_def)
qed

text \<open>A failed request is never an exception of the client: its message is shown as
  the bot's answer.\<close>

theorem enviar_mensaje_a_rasa_sin_conexion:
  "post (u, m) = ExcepcionRequest e \<Longrightarrow> enviar_mensaje_a_rasa post m u = Inr (error_conexion e)"
  by (simp add: enviar_mensaje_a_rasa_def)

theorem enviar_mensaje_a_rasa_sin_conexion_witness:
  "enviar_mensaje_a_rasa (\<lambda>_. ExcepcionRequest (py ''Read timed out'')) (py ''hola'') (py ''usuario1'') =
     Inr (py ''Error al conectarse con Rasa: Read timed out'')"
  using enviar_mensaje_a_rasa_sin_conexion [of "\<lambda>_. ExcepcionRequest (py ''Read timed out'')"]
  by (simp add: error_conexion_def py_def)

text \<open>Claim C27: An answer body that is not iterable (\<open>null\<close>, a boolean, a number), or a
  list with an object whose \<open>text\<close> is not a string, raises \<open>TypeError\<close> in
  \<open>enviar_mensaje_a_rasa\<close> (only \<open>RequestException\<close> is caught); it escapes the
  handler after the user's paragraph was shown and the input line cleared, so the
  message stays without an answer.\<close>

theorem enviar_mensaje_typeerror:
  assumes "py_strip (input_msg g) = m" and "m \<noteq> []"
    and "post (py ''usuario1'', m) = Cuerpo j"
    and "j = JNull \<or> (\<exists>b. j = JBool b) \<or> (\<exists>q. j = JNum q) \<or>
         (\<exists>rs kvs v. j = JList rs \<and> JObj kvs \<in> set rs \<and>
            map_of (rev kvs) (py ''text'') = Some v \<and> como_str v = None)"
  shows "enviar_mensaje post g =
           (g\<lparr>chat_area := chat_area g @ [burbuja remitente_usuario m], input_msg := []\<rparr>, Some TypeError)"
proof -
  have "enviar_mensaje_a_rasa post m (py ''usuario1'') = Inl TypeError"
  proof (cases "\<exists>rs. j = JList rs")
    case True
    then obtain rs kvs v where j: "j = JList rs" and o: "JObj kvs \<in> set rs"
      and v: "map_of (rev kvs) (py ''text'') = Some v" "como_str v = None"
      using assms(4) by auto
    show ?thesis
    proof (cases "extraer_textos rs")
      case (Inr vs)
      have "v \<in> set vs" by (rule extraer_textos_texto [OF Inr o v(1)])
      then have "those (map como_str vs) = None" using v(2) by (rule those_como_str_None)
      then show ?thesis using assms(3) j Inr by (simp add: enviar_mensaje_a_rasa_def unir_textos_def)
    qed (use assms(3) j extraer_textos_error in \<open>auto simp: enviar_mensaje_a_rasa_def\<close>)
  next
    case False
    then show ?thesis using assms(3,4) by (auto simp: enviar_mensaje_a_rasa_def)
  qed
  then show ?thesis using enviar_mensaje_no_vacio [OF assms(1,2)] by simp
qed

theorem enviar_mensaje_typeerror_witness:
  "enviar_mensaje (\<lambda>_. Cuerpo (JList [JObj [(py ''text'', JNum 1)]])) (chat_gui_inicial\<lparr>input_msg := py ''hola''\<rparr>) =
     (chat_gui_inicial\<lparr>chat_area := chat_area chat_gui_inicial @ [burbuja remitente_usuario (py ''hola'')],
        input_msg := []\<rparr>, Some TypeError)"
proof -
  have "py_strip (input_msg (chat_gui_inicial\<lparr>input_msg := py ''hola''\<rparr>)) = py ''hola''"
    by (simp add: py_def py_strip_def py_lstrip_def py_rstrip_def py_isspace_def)
  moreover have "\<exists>rs kvs v. JList [JObj [(py ''text'', JNum 1)]] = JList rs \<and> JObj kvs \<in> set rs \<and>
            map_of (rev kvs) (py ''text'') = Some v \<and> como_str v = None"
    by (intro exI [of _ "[JObj [(py ''text'', JNum 1)]]"] exI [of _ "[(py ''text'', JNum 1)]"]
        exI [of _ "JNum 1"]) simp
  ultimately show ?thesis
    using enviar_mensaje_typeerror [of "chat_gui_inicial\<lparr>input_msg := py ''hola''\<rparr>" "py ''hola''"
        "\<lambda>_. Cuerpo (JList [JObj [(py ''text'', JNum 1)]])" "JList [JObj [(py ''text'', JNum 1)]]"]
    by (simp add: py_def)
qed

text \<open>Claim C25: Over a whole session the chat area only grows, by at most two paragraphs per
  input: nothing shown is ever removed or rewritten, the greeting included.\<close>

theorem sesion_historial:
  "\<exists>ys. chat_area (sesion post g xs) = chat_area g @ ys \<and> length ys \<le> 2 * length xs"
proof (induction xs arbitrary: g)
  case (Cons x xs)
  obtain ys where "chat_area (fst (enviar_mensaje post (g\<lparr>input_msg := x\<rparr>))) = chat_area g @ ys"
    and "length ys \<le> 2"
    using enviar_mensaje_crece [of post "g\<lparr>input_msg := x\<rparr>"] by auto
  moreover obtain zs where
    "chat_area (sesion post (fst (enviar_mensaje post (g\<lparr>input_msg := x\<rparr>))) xs) =
       chat_area (fst (enviar_mensaje post (g\<lparr>input_msg := x\<rparr>))) @ zs" and "length zs \<le> 2 * length xs"
    using Cons.IH by blast
  ultimately show ?case by (intro exI [of _ "ys @ zs"]) simp
qed simp

end
