(* ===== verification/Ventana.thy ===== *)
theory Ventana
  imports Gui
begin

text \<open>
  The window \<open>ChatGUI.__init__\<close> builds (\<open>gui_vita_kids.py\<close>, lines 24--117) and the
  Qt event loop the main block runs (lines 146--150).  The window is a tree of widgets:
  the layouts with their spacing (\<open>None\<close> where the code keeps Qt's default), the
  labels, the images with the size they are scaled to, the read-only chat area, the
  input line with its placeholder, and the send button with its icon and size; which
  signals are connected to \<open>enviar_mensaje\<close> is part of the window.  Style sheets,
  fonts, margins and alignment are presentation and are not modelled.  The event loop
  delivers the user's events in order: typing replaces the text of the widget the user
  can edit, and a signal runs the handler it is connected to.  The lemma shows that,
  fed a text and a connected signal per message, the loop runs the session
  \<open>sesion\<close> of \<open>Gui\<close>.
\<close>

section \<open>The widget tree\<close>

datatype orientacion = Vertical | Horizontal

datatype widget =
    Etiqueta pystr
  | Imagen pystr nat
  | AreaTexto bool
  | LineaEntrada pystr
  | Boton pystr "nat \<times> nat"
  | Caja orientacion "nat option" "widget list"

datatype senal = ReturnPressed | Clicked

record ventana =
  titulo :: pystr
  geometria :: "nat \<times> nat \<times> nat \<times> nat"
  contenido :: widget
  conectadas :: "senal list"

text \<open>Line 48, and the loop of lines 50--54: one label per fruit image, scaled to 70.\<close>

definition frutas :: "pystr list" where
  "frutas = [py ''Imagenes/fruta1.png'', py ''Imagenes/fruta2.png'', py ''Imagenes/fruta3.png'']"

definition ventana_chat :: ventana where
  "ventana_chat =
     \<lparr>titulo = py ''VitaKids - Chat Infantil Saludable'',
      geometria = (100, 100, 600, 800),
      contenido =
        Caja Vertical (Some 10)
          [Etiqueta (py ''VitaKids''),
           Caja Horizontal (Some 40) (map (\<lambda>fruta. Imagen fruta 70) frutas),
           Imagen (py ''Imagenes/mascota_vitakids.png'') 210,
           Caja Vertical None [AreaTexto True],
           Caja Horizontal None
             [LineaEntrada (py ''Escribe tu mensaje...''),
              Boton (py ''Imagenes/icono_enviar.png'') (45, 45)]],
      conectadas = [ReturnPressed, Clicked]\<rparr>"

text \<open>The widgets whose text the user can change: the input lines and the text areas
  that are not read-only.\<close>

fun editables :: "widget \<Rightarrow> widget list" where
  "editables (LineaEntrada p) = [LineaEntrada p]"
| "editables (AreaTexto solo_lectura) = (if solo_lectura then [] else [AreaTexto solo_lectura])"
| "editables (Caja ori s ws) = concat (map editables ws)"
| "editables _ = []"

section \<open>The event loop\<close>

datatype evento_gui = Escribir pystr | Emitir senal

text \<open>Typing replaces the text of the input line, the one widget of \<open>ventana_chat\<close>
  that \<open>editables\<close> lists; a signal connected to \<open>enviar_mensaje\<close> runs it, and any
  other signal does nothing.\<close>

fun despachar ::
  "ventana \<Rightarrow> (pystr \<times> pystr \<Rightarrow> resultado_post) \<Rightarrow> chat_gui \<Rightarrow> evento_gui \<Rightarrow> chat_gui" where
  "despachar v post g (Escribir s) = g\<lparr>input_msg := s\<rparr>"
| "despachar v post g (Emitir e) =
     (if e \<in> set (conectadas v) then fst (enviar_mensaje post g) else g)"

text \<open>Lines 146--150: the window is built (with its greeting) and \<open>app.exec()\<close> runs the
  events until the window is closed.\<close>

definition ejecutar_app :: "(pystr \<times> pystr \<Rightarrow> resultado_post) \<Rightarrow> evento_gui list \<Rightarrow> chat_gui" where
  "ejecutar_app post evs = foldl (despachar ventana_chat post) chat_gui_inicial evs"

text \<open>Typing a text and sending it with Enter or with the button.\<close>

definition escribir_y_enviar :: "(pystr \<times> senal) list \<Rightarrow> evento_gui list" where
  "escribir_y_enviar xs = concat (map (\<lambda>(x, e). [Escribir x, Emitir e]) xs)"

section \<open>Lemmas\<close>

lemma foldl_despachar_sesion:
  "set (map snd xs) \<subseteq> set (conectadas v) \<Longrightarrow>
   foldl (despachar v post) g (escribir_y_enviar xs) = sesion post g (map fst xs)"
proof (induction xs arbitrary: g)
  case (Cons p xs)
  then show ?case by (cases p) (simp add: escribir_y_enviar_def)
qed (simp add: escribir_y_enviar_def)

end
