(* ===== verification/Spec2Isabelle.thy ===== *)
theory Spec2Isabelle
  imports Ciclo Mensajes Tipos Registro Ventana
begin

text \<open>
  \<^bold>\<open>VitaKids: the Rasa actions and the chat client.\<close>

  The program has two parts.  \<open>src/Chat_Bot_Deber/actions/actions.py\<close> holds the
  three custom actions a Rasa assistant calls by name: \<open>ActionCalcularIMC\<close> reads the
  weight and height slots through \<open>parse_number\<close>, computes and classifies the body
  mass index and stores it; \<open>ActionRecomendarPlato\<close> normalises the meal-time slot,
  reads that meal-time's dataset file and proposes one dish at random;
  \<open>ActionManejarConfirmacionPlato\<close> confirms the dish on \<open>afirmar\<close>, proposes another
  dish of the same file on \<open>negar\<close>, and asks again otherwise.
  \<open>src/Interfaz Grafica Vitakids/gui_vita_kids.py\<close> is a Qt chat window that posts
  each non-blank input to Rasa's REST webhook and shows the answer.

  \<^bold>\<open>Theories.\<close>
  \<^item> \<open>Prelude\<close>: Python strings as lists of code points (\<open>pystr\<close>), exceptions as
    the \<open>Inl\<close> of a sum (\<open>py_exn\<close>, \<open>py_bind\<close>), \<open>str.lower\<close>, \<open>str.strip\<close>,
    \<open>str.replace\<close>, \<open>str.join\<close>, \<open>in\<close> on strings, \<open>str()\<close> of integers, and the
    Unicode decimal digits (category Nd, Unicode 14.0 as in Python 3.11) that \<open>\d\<close>
    matches and \<open>float()\<close> reads.
  \<^item> \<open>Tracker\<close>: slot values, the tracker (slots and latest intent) as a record,
    \<open>SlotSet\<close> events, Python truthiness and \<open>str()\<close>, one \<open>utterance\<close> constructor per
    \<open>utter_message\<close> call.
  \<^item> \<open>ParseNumber\<close>: \<open>parse_number\<close> (lines 16--30), with \<open>float()\<close> of an int and its
    \<open>OverflowError\<close>, and the leftmost match of \<open>(\d+(\.\d+)?)\<close> over Unicode digits.
  \<^item> \<open>Imc\<close>: \<open>ActionCalcularIMC.run\<close> (lines 40--82): centimetre conversion, positivity
    guard, \<open>altura ** 2\<close> and the division of line 65 with the exceptions they raise on
    doubles, \<open>f"{imc:.2f}"\<close> with half-even rounding, the three bands.
  \<^item> \<open>Menu\<close>: the two meal-time normalisations (lines 101--109 and 172), the
    \<open>archivos\<close> table, reading a dataset file in text mode (lines 128--133, 191--192),
    the catalog lookup of \<open>ActionRecomendarPlato\<close>.  The dataset directory maps a file
    name to its decoded contents or to the way reading it fails: \<open>open\<close> raising
    \<open>OSError\<close>, or decoding raising \<open>UnicodeDecodeError\<close>.
  \<^item> \<open>Recommend\<close>: \<open>random.choice\<close> with its draw as a parameter,
    \<open>ActionRecomendarPlato.run\<close> and \<open>ActionManejarConfirmacionPlato.run\<close> on every
    branch, with an example dataset.
  \<^item> \<open>Conversation\<close>: the action registry by \<open>name()\<close>, the dispatcher's turns (a
    user message or an action call), conversations as lists of turns, and the
    reachable trackers as an inductive set.
  \<^item> \<open>Ciclo\<close>: the recommendation cycle of the specification as an abstract labelled
    transition system and the refinement of it by the dispatcher's turns; liveness of
    proposals.  A rejection step must move to a catalog dish other than the one in force;
    a \<open>negar\<close> turn is labelled by what the rejection did (a proposal, the exhaustion
    message, or a failure), and only the labels that change nothing may stay put.
  \<^item> \<open>Tipos\<close>: the types of the slots (from the specification's conversation
    context, since the Rasa domain is not in the repository) as an executable check,
    and the typing of every action's events and of every reachable tracker.
  \<^item> \<open>Registro\<close>: the module logger and the two \<open>logger.info\<close> records of
    \<open>ActionCalcularIMC.run\<close> (lines 11, 46, 75), the action returning its log with its
    result; a lemma shows that logging changes nothing the action returns.
  \<^item> \<open>Mensajes\<close>: the text of each utterance.
  \<^item> \<open>Gui\<close>: \<open>enviar_mensaje_a_rasa\<close>, JSON values and Python's \<open>in\<close>/\<open>[]\<close> on them,
    the \<open>ChatGUI\<close> state as a record, \<open>agregar_mensaje\<close>, \<open>enviar_mensaje\<close>, a session.
  \<^item> \<open>Ventana\<close>: the window \<open>ChatGUI.__init__\<close> builds (lines 24--117) as a widget tree
    with its connected signals, and the Qt event loop of the main block (lines
    146--150) delivering typing and signals to the handlers; a lemma relates the loop to
    the session of \<open>Gui\<close>.
  \<^item> This theory: the REST channel between the two parts and end-to-end properties.

  \<^bold>\<open>What is shown.\<close>  For the BMI action: its five outcomes, among them
  \<open>OverflowError\<close> when the square of the height leaves the double range and
  \<open>ZeroDivisionError\<close> when it underflows to \<open>0.0\<close> (a positive height of
  \<open>1e-170\<close> metres raises it), the bands, that a height in centimetres gives the same
  result as in metres, that the printed index reads back rounded, and what a re-run on
  the stored slots computes.  For \<open>parse_number\<close>: that it finds nothing exactly when the
  text holds no Unicode decimal digit (Arabic-Indic digits read as a number), that it
  only raises \<open>OverflowError\<close>, that text never reads negative.  For the slots: every event an action returns has its
  slot's type (weight and height positive floats), and the slots only the actions write
  keep their type in every reachable tracker.  For the log: the raw slots are always
  logged first, the raising runs included, and the index exactly when it is stored.
  For the menu: accent-insensitivity of the recommendation's normalisation, agreement
  of the two normalisations where the narrower succeeds, a write/read round trip of
  the dataset format.  For the recommendation cycle: proposals come from the file, a
  rejection never re-proposes the dish in force and offers every other dish of the
  file, every dish is drawn equally often, exhaustion, the only exceptions
  (\<open>OSError\<close> and \<open>UnicodeDecodeError\<close> of the unguarded read of the rejection path),
  when a rejection does not know the menu (the rejection's narrower normalisation),
  invariants of every reachable tracker (proposed dish in the catalog, BMI slots
  coherent, the confirmation flag never reset), the refinement of the specification's
  cycle up to the first confirmation, and liveness.  For the client: blank input does
  nothing, the answer follows the user's paragraph, network errors become messages,
  the answer bodies on which a \<open>TypeError\<close> escapes after the user's paragraph, and the
  chat history only grows.

  \<^bold>\<open>Approximations.\<close>  Floats are exact rationals: Python's binary rounding of
  \<open>peso / altura ** 2\<close> is not modelled (a finding records a boundary case), nor is
  \<open>repr\<close> of floats beyond 17 fractional digits.  The range of doubles is modelled
  where the code raises: \<open>float()\<close> of an int at or above \<open>2^1024 - 2^970\<close> raises
  \<open>OverflowError\<close>; \<open>x ** 2\<close> raises it when the exact square is at or above that
  bound, and gives \<open>0.0\<close> (no error: CPython ignores the underflow) when the exact
  square is at most \<open>2^-1075\<close>, the half of the least subnormal that rounds to even.
  Infinities and NaN are not values of the model: \<open>float()\<close> of a digit text of 309
  digits or more is \<open>inf\<close> in Python (and an exact rational here), and a quotient
  \<open>peso / altura ** 2\<close> beyond the range prints \<open>inf\<close> in Python.  \<open>str.lower\<close> is exact on
  Latin-1 and the identity above it.  \<open>random.choice\<close> takes its draw as a natural
  number read modulo the length; uniformity is stated as counting draws.  JSON numbers are rationals
  (no NaN or infinities).  No function of the model needs fuel: every loop is
  structural recursion or a \<open>function\<close> with a measure.

  \<^bold>\<open>Not modelled.\<close>  Whether a log record is printed: that depends on the
  logging configuration of the action server, which is not in the repository; the
  model records every \<open>logger.info\<close> call.  Rasa itself
  (language understanding, stories, the action server) is outside the sources: the
  dispatcher, the user's slot filling and the REST channel are modelled from the
  specification, and so are the slot types.  The style sheets, fonts, margins,
  alignment and cursor movement of \<open>ChatGUI\<close> are presentation, and the image files
  are named, not loaded; the HTML of a paragraph is modelled as the string appended, not its
  rendering.
\<close>

section \<open>The REST channel\<close>

text \<open>The body Rasa's REST channel returns for the messages uttered in one turn: one
  object per message with the recipient and the text.\<close>

definition respuesta_rest :: "pystr \<Rightarrow> utterance list \<Rightarrow> json" where
  "respuesta_rest usuario msgs =
     JList (map (\<lambda>u. JObj [(py ''recipient_id'', JStr usuario), (py ''text'', JStr (texto u))]) msgs)"

text \<open>The server as the client sees it: the language understanding maps the text to
  the turns of the dispatcher it triggers, run on the conversation so far.\<close>

definition servidor ::
  "dataset \<Rightarrow> (pystr \<Rightarrow> turno list) \<Rightarrow> tracker \<Rightarrow> pystr \<times> pystr \<Rightarrow> resultado_post" where
  "servidor ds nlu t p =
     Cuerpo (respuesta_rest (fst p) (snd (conversacion ds t (nlu (snd p)))))"

section \<open>Lemmas\<close>

lemma extraer_respuesta_rest:
  "extraer_textos (map (\<lambda>u. JObj [(py ''recipient_id'', JStr usuario), (py ''text'', JStr (texto u))]) msgs) =
     Inr (map (JStr \<circ> texto) msgs)"
  by (induction msgs) (simp_all add: py_def)

lemma enviar_servidor:
  "enviar_mensaje_a_rasa (servidor ds nlu t) m u =
     Inr (py_join [10] (map texto (snd (conversacion ds t (nlu m)))))"
proof -
  let ?msgs = "snd (conversacion ds t (nlu m))"
  have "those (map como_str (map (JStr \<circ> texto) ?msgs)) = Some (map texto ?msgs)"
    using those_map_como_str [of "map texto ?msgs"] by simp
  then show ?thesis
    by (simp add: enviar_mensaje_a_rasa_def servidor_def respuesta_rest_def extraer_respuesta_rest
        unir_textos_def)
qed

section \<open>End-to-end properties\<close>

text \<open>Claim C15: Whatever the server's conversation utters in a turn reaches the chat window:
  after a non-blank input, the user's paragraph is followed by one bot paragraph with
  the texts of all the turn's messages, in order, joined by newlines, and no exception
  escapes.\<close>

theorem gui_muestra_conversacion:
  assumes "py_strip (input_msg g) = m" and "m \<noteq> []"
  shows "enviar_mensaje (servidor ds nlu t) g =
           (g\<lparr>chat_area := chat_area g @
               [burbuja remitente_usuario m,
                burbuja (py ''Bot'') (py_join [10] (map texto (snd (conversacion ds t (nlu m)))))],
              input_msg := []\<rparr>, None)"
  using enviar_mensaje_no_vacio [OF assms] enviar_servidor by simp

theorem gui_muestra_conversacion_witness:
  "enviar_mensaje (servidor datos_ejemplo (\<lambda>_. []) tracker_inicial)
     (chat_gui_inicial\<lparr>input_msg := py ''hola''\<rparr>) =
   (chat_gui_inicial\<lparr>chat_area := chat_area chat_gui_inicial @
      [burbuja remitente_usuario (py ''hola''), burbuja (py ''Bot'') []], input_msg := []\<rparr>, None)"
proof -
  have "py_strip (input_msg (chat_gui_inicial\<lparr>input_msg := py ''hola''\<rparr>)) = py ''hola''"
    by (simp add: py_def py_strip_def py_lstrip_def py_rstrip_def py_isspace_def)
  then show ?thesis
    using gui_muestra_conversacion [of "chat_gui_inicial\<lparr>input_msg := py ''hola''\<rparr>" "py ''hola''"
        datos_ejemplo "\<lambda>_. []" tracker_inicial]
    by (simp add: py_def)
qed

end
